theory Spec2Isabelle
  imports Main "HOL-Library.Word"
begin

unbundle bit_operations_syntax

section \<open>Bytes, hexadecimal strings and big numbers\<close>

text \<open>
  The SDK is TypeScript on top of the \<^verbatim>\<open>ethers\<close> library (version 6). The library is
  not part of the repository; the few functions of it that the code under study calls are
  written out here after the library's documented behaviour, each under the name it has
  there. A \<^verbatim>\<open>Uint8Array\<close> is a list of 8-bit words. A JavaScript string is a
  \<^typ>\<open>string\<close>; only the 7-bit fragment is modelled, on which UTF-8 encoding maps
  every character to one byte. A thrown exception is the \<open>Inl\<close> branch of a sum.
\<close>

type_synonym byte = "8 word"

datatype JobState = Open | Taken | Closed

text \<open>
  The failures of a call to the ledger, in the classes the specification gives for it. The
  SDK does not look into them: it lets them pass to its caller.
\<close>

datatype ledger_error = NetworkError string | Reverted string | Timeout

text \<open>
  The errors a caller of the SDK can observe: those the SDK or the library throws, and a
  failure of the ledger passed on. The last two are the error classes that the
  specification names for the job life cycle; no code of the SDK constructs them.
\<close>

datatype error =
    WalletNotConnected
  | NoSignerAvailable
  | UnsupportedNetwork int
  | UndefinedHandle
  | InvalidArgument string
  | NumericFault string
  | BufferOverrun
  | UnsupportedOperation
  | Base58Unavailable
  | FailedToSign error
  | NotAFunction string
  | NameNotResolved
  | LedgerFailure ledger_error
  | StaleSignature
  | InvalidTransition JobState string string

definition HexCharacters :: string where
  "HexCharacters = ''0123456789abcdef''"

definition hexByte :: "byte \<Rightarrow> string" where
  "hexByte v = [HexCharacters ! (unat v div 16), HexCharacters ! (unat v mod 16)]"

definition hexlify :: "byte list \<Rightarrow> string" where
  "hexlify bytes = ''0x'' @ concat (map hexByte bytes)"

definition digitValue :: "char \<Rightarrow> nat option" where
  "digitValue c =
     (let n = (of_char c :: nat) in
      if 48 \<le> n \<and> n \<le> 57 then Some (n - 48)
      else if 97 \<le> n \<and> n \<le> 102 then Some (n - 87)
      else if 65 \<le> n \<and> n \<le> 70 then Some (n - 55)
      else None)"

fun parseDigits :: "nat \<Rightarrow> nat \<Rightarrow> string \<Rightarrow> nat option" where
  "parseDigits base acc [] = Some acc"
| "parseDigits base acc (c # cs) =
     (case digitValue c of
        None \<Rightarrow> None
      | Some d \<Rightarrow> if d < base then parseDigits base (acc * base + d) cs else None)"

text \<open>
  JavaScript's \<^verbatim>\<open>BigInt(string)\<close>, on 7-bit strings. White space and line
  terminators at both ends are dropped. What is left is empty, which is zero; or one of the
  prefixes \<^verbatim>\<open>0x\<close>, \<^verbatim>\<open>0o\<close>, \<^verbatim>\<open>0b\<close>, in either case, followed by at least one digit of
  that base; or decimal digits with an optional sign in front. Anything else is a
  \<^verbatim>\<open>SyntaxError\<close> (\<open>None\<close>): the bare prefix \<^verbatim>\<open>0x\<close> is one, and so is a sign in
  front of a prefixed literal.
\<close>

definition isStrWhiteSpace :: "char \<Rightarrow> bool" where
  "isStrWhiteSpace c = (let n = (of_char c :: nat) in (9 \<le> n \<and> n \<le> 13) \<or> n = 32)"

definition trimString :: "string \<Rightarrow> string" where
  "trimString s = rev (dropWhile isStrWhiteSpace (rev (dropWhile isStrWhiteSpace s)))"

definition digitsOf :: "nat \<Rightarrow> string \<Rightarrow> nat option" where
  "digitsOf base ds = (if ds = [] then None else parseDigits base 0 ds)"

definition parseBigInt :: "string \<Rightarrow> int option" where
  "parseBigInt s =
     (let t = trimString s in
      if t = [] then Some 0
      else if take 2 t = ''0x'' \<or> take 2 t = ''0X'' then map_option int (digitsOf 16 (drop 2 t))
      else if take 2 t = ''0o'' \<or> take 2 t = ''0O'' then map_option int (digitsOf 8 (drop 2 t))
      else if take 2 t = ''0b'' \<or> take 2 t = ''0B'' then map_option int (digitsOf 2 (drop 2 t))
      else if hd t = CHR ''-'' then map_option (\<lambda>n. - int n) (digitsOf 10 (tl t))
      else if hd t = CHR ''+'' then map_option int (digitsOf 10 (tl t))
      else map_option int (digitsOf 10 t))"

datatype BigNumberish = Number int | BigInt int | Str string

definition maxValue :: int where
  "maxValue = 0x1fffffffffffff"

text \<open>
  \<^verbatim>\<open>getBigInt\<close>: a number must be a safe integer (numbers with a fractional part are
  outside \<^typ>\<open>int\<close> and not modelled), a string must parse. The library takes a leading
  minus sign off itself, unless a second one follows, and negates what \<^verbatim>\<open>BigInt\<close> reads
  of the rest.
\<close>

definition getBigInt :: "BigNumberish \<Rightarrow> error + int" where
  "getBigInt v =
     (case v of
        BigInt n \<Rightarrow> Inr n
      | Number n \<Rightarrow>
          if - maxValue \<le> n \<and> n \<le> maxValue then Inr n else Inl (InvalidArgument ''overflow'')
      | Str s \<Rightarrow>
          if s = [] then Inl (InvalidArgument ''invalid BigNumberish string'')
          else if hd s = CHR ''-'' \<and> take 1 (tl s) \<noteq> ''-'' then
            (case parseBigInt (tl s) of
               None \<Rightarrow> Inl (InvalidArgument ''invalid BigNumberish string'')
             | Some n \<Rightarrow> Inr (- n))
          else
            (case parseBigInt s of
               None \<Rightarrow> Inl (InvalidArgument ''invalid BigNumberish string'')
             | Some n \<Rightarrow> Inr n))"

definition getUint :: "BigNumberish \<Rightarrow> error + nat" where
  "getUint v =
     (case getBigInt v of
        Inl e \<Rightarrow> Inl e
      | Inr n \<Rightarrow> if n < 0 then Inl (NumericFault ''unsigned value cannot be negative'')
                else Inr (nat n))"

text \<open>The shortest big-endian byte string of a number; zero is the empty array.\<close>

fun toBeBytes :: "nat \<Rightarrow> byte list" where
  "toBeBytes n = (if n = 0 then [] else toBeBytes (n div 256) @ [word_of_nat (n mod 256)])"

declare toBeBytes.simps [simp del]

definition toBeArray :: "BigNumberish \<Rightarrow> error + byte list" where
  "toBeArray v = (case getUint v of Inl e \<Rightarrow> Inl e | Inr n \<Rightarrow> Inr (toBeBytes n))"

definition zeroPadValue :: "byte list \<Rightarrow> nat \<Rightarrow> error + byte list" where
  "zeroPadValue bytes len =
     (if len < length bytes then Inl BufferOverrun
      else Inr (replicate (len - length bytes) 0 @ bytes))"

definition zeroPadBytes :: "byte list \<Rightarrow> nat \<Rightarrow> error + byte list" where
  "zeroPadBytes bytes len =
     (if len < length bytes then Inl BufferOverrun
      else Inr (bytes @ replicate (len - length bytes) 0))"

definition toUtf8Bytes :: "string \<Rightarrow> byte list" where
  "toUtf8Bytes s = map (\<lambda>c. word_of_nat (of_char c)) s"

text \<open>
  Decoding, on the 7-bit fragment. A byte above 127 starts a multi-byte sequence, which the
  library decodes or rejects; that is outside the fragment and reported as such.
\<close>

definition toUtf8String :: "byte list \<Rightarrow> error + string" where
  "toUtf8String bytes =
     (if list_all (\<lambda>b. unat b < 128) bytes then Inr (map (\<lambda>b. char_of (unat b)) bytes)
      else Inl (InvalidArgument ''byte above 127: outside the modelled fragment''))"

text \<open>The value of a byte string read as a big-endian number.\<close>

definition beValue :: "byte list \<Rightarrow> nat" where
  "beValue bs = foldl (\<lambda>a b. a * 256 + unat b) 0 bs"

text \<open>The big-endian encoding of a number on exactly \<open>k\<close> bytes.\<close>

fun beFixed :: "nat \<Rightarrow> nat \<Rightarrow> byte list" where
  "beFixed 0 n = []"
| "beFixed (Suc k) n = beFixed k (n div 256) @ [word_of_nat (n mod 256)]"

section \<open>CryptoUtils: the payload signed to take a job\<close>

text \<open>
  Keccak-256 itself is computed by the library. Every definition that hashes takes the
  digest function as its first argument \<open>K\<close>, from bytes to the 32 digest bytes;
  \<^verbatim>\<open>ethers.keccak256\<close> returns the digest as a hexadecimal string.
\<close>

type_synonym digest = "byte list \<Rightarrow> byte list"

definition keccak256 :: "digest \<Rightarrow> byte list \<Rightarrow> string" where
  "keccak256 K data = hexlify (K data)"

text \<open>
  \<^verbatim>\<open>solidityPacked\<close>, for the one Solidity type that the job signature uses. A
  \<^verbatim>\<open>uint256\<close> is packed as \<^verbatim>\<open>zeroPadValue(toBeArray(value), 32)\<close>.
\<close>

datatype soltype = uint256

fun pack :: "soltype \<Rightarrow> BigNumberish \<Rightarrow> error + byte list" where
  "pack uint256 v =
     (case toBeArray v of Inl e \<Rightarrow> Inl e | Inr bytes \<Rightarrow> zeroPadValue bytes 32)"

fun packAll :: "soltype list \<Rightarrow> BigNumberish list \<Rightarrow> error + byte list" where
  "packAll [] vs = Inr []"
| "packAll (t # ts) [] = Inr []"
| "packAll (t # ts) (v # vs) =
     (case pack t v of
        Inl e \<Rightarrow> Inl e
      | Inr b \<Rightarrow> (case packAll ts vs of Inl e \<Rightarrow> Inl e | Inr bs \<Rightarrow> Inr (b @ bs)))"

definition solidityPacked :: "soltype list \<Rightarrow> BigNumberish list \<Rightarrow> error + byte list" where
  "solidityPacked types vals =
     (if length types \<noteq> length vals then Inl (InvalidArgument ''wrong number of values'')
      else packAll types vals)"

definition solidityPackedKeccak256 ::
  "digest \<Rightarrow> soltype list \<Rightarrow> BigNumberish list \<Rightarrow> error + string" where
  "solidityPackedKeccak256 K types vals =
     (case solidityPacked types vals of
        Inl e \<Rightarrow> Inl e
      | Inr packed \<Rightarrow> Inr (keccak256 K packed))"

text \<open>\<^verbatim>\<open>CryptoUtils.createJobSignatureHash(eventsLength: number, jobId: BigNumberish)\<close>\<close>

definition createJobSignatureHash :: "digest \<Rightarrow> int \<Rightarrow> BigNumberish \<Rightarrow> error + string" where
  "createJobSignatureHash K eventsLength jobId =
     solidityPackedKeccak256 K [uint256, uint256] [Number eventsLength, jobId]"

text \<open>
  The example script \<^verbatim>\<open>take-job.ts\<close> computes the same hash inline, from the events
  length that the ledger returned (a \<^verbatim>\<open>bigint\<close>).
\<close>

definition takeJobExample_messageHash ::
  "digest \<Rightarrow> int \<Rightarrow> BigNumberish \<Rightarrow> error + string" where
  "takeJobExample_messageHash K eventsLength targetJobId =
     solidityPackedKeccak256 K [uint256, uint256] [BigInt eventsLength, targetJobId]"

text \<open>
  The ABI encoding of a \<^verbatim>\<open>uint256\<close>, stated on its own: 32 bytes, most significant
  first.
\<close>

definition abi_uint256 :: "nat \<Rightarrow> byte list" where
  "abi_uint256 n = beFixed 32 n"

text \<open>
  A stand-in digest for closed examples, where a concrete function is needed: 31 bytes
  that depend on the length of the input, then the sum of its bytes. It is not Keccak-256;
  what the examples show with it holds for every digest function, by the general statements
  they instantiate.
\<close>

definition sampleDigest :: digest where
  "sampleDigest data = replicate 31 (word_of_nat (64 + length data)) @ [foldr (+) data 0]"

section \<open>CryptoUtils: signing and the XOR cipher\<close>

text \<open>
  \<^verbatim>\<open>signer.signMessage(message: string | Uint8Array)\<close> signs the bytes of the message: a
  string is first encoded as UTF-8, a byte array is taken as it is. A signer is modelled by
  what it returns for the message bytes.
\<close>

datatype message = Text string | Bytes "byte list"

definition messageBytes :: "message \<Rightarrow> byte list" where
  "messageBytes m = (case m of Text s \<Rightarrow> toUtf8Bytes s | Bytes b \<Rightarrow> b)"

type_synonym signer = "byte list \<Rightarrow> error + string"

definition Signer_signMessage :: "signer \<Rightarrow> message \<Rightarrow> error + string" where
  "Signer_signMessage sg m = sg (messageBytes m)"

text \<open>\<^verbatim>\<open>CryptoUtils.signMessage\<close> catches a failure of the signer and throws its own.\<close>

definition CryptoUtils_signMessage :: "signer \<Rightarrow> message \<Rightarrow> error + string" where
  "CryptoUtils_signMessage sg m =
     (case Signer_signMessage sg m of Inl e \<Rightarrow> Inl (FailedToSign e) | Inr s \<Rightarrow> Inr s)"

definition MessagePrefix :: string where
  "MessagePrefix = CHR 0x19 # ''Ethereum Signed Message:'' @ [CHR 0x0A]"

fun decimal :: "nat \<Rightarrow> string" where
  "decimal n =
     (if n < 10 then [char_of (48 + n)] else decimal (n div 10) @ [char_of (48 + n mod 10)])"

declare decimal.simps [simp del]

definition hashMessage :: "digest \<Rightarrow> message \<Rightarrow> string" where
  "hashMessage K m =
     keccak256 K (toUtf8Bytes MessagePrefix
                  @ toUtf8Bytes (decimal (length (messageBytes m))) @ messageBytes m)"

text \<open>\<^verbatim>\<open>CryptoUtils.createJobSignatureMessage\<close>\<close>

definition createJobSignatureMessage ::
  "digest \<Rightarrow> int \<Rightarrow> BigNumberish \<Rightarrow> error + string" where
  "createJobSignatureMessage K eventsLength jobId =
     (case createJobSignatureHash K eventsLength jobId of
        Inl e \<Rightarrow> Inl e
      | Inr hash \<Rightarrow>
          (case toBeArray (Str hash) of
             Inl e \<Rightarrow> Inl e
           | Inr arr \<Rightarrow> Inr (hashMessage K (Bytes arr))))"

text \<open>\<^verbatim>\<open>CryptoUtils.signJobTaking\<close>\<close>

definition signJobTaking :: "digest \<Rightarrow> signer \<Rightarrow> int \<Rightarrow> BigNumberish \<Rightarrow> error + string" where
  "signJobTaking K sg eventsLength jobId =
     (case createJobSignatureHash K eventsLength jobId of
        Inl e \<Rightarrow> Inl e
      | Inr hash \<Rightarrow>
          (case toBeArray (Str hash) of
             Inl e \<Rightarrow> Inl e
           | Inr arr \<Rightarrow> CryptoUtils_signMessage sg (Bytes arr)))"

text \<open>\<^verbatim>\<open>CryptoUtils.keccak256(data: string)\<close>\<close>

definition CryptoUtils_keccak256 :: "digest \<Rightarrow> string \<Rightarrow> string" where
  "CryptoUtils_keccak256 K data = keccak256 K (toUtf8Bytes data)"

text \<open>
  The loop shared by \<^verbatim>\<open>simpleEncrypt\<close> and \<^verbatim>\<open>simpleDecrypt\<close>:
  \<^verbatim>\<open>out[i] = dataBytes[i] ^ keyBytes[i % keyBytes.length]\<close>. With an empty key array the
  index is \<^verbatim>\<open>NaN\<close>, the read is \<^verbatim>\<open>undefined\<close> and the byte is left as it is.
\<close>

definition xorWithKey :: "byte list \<Rightarrow> byte list \<Rightarrow> byte list" where
  "xorWithKey dataBytes keyBytes =
     map (\<lambda>i. dataBytes ! i XOR (if keyBytes = [] then 0 else keyBytes ! (i mod length keyBytes)))
       [0..<length dataBytes]"

definition simpleEncrypt :: "digest \<Rightarrow> string \<Rightarrow> string \<Rightarrow> error + string" where
  "simpleEncrypt K data key =
     (let keyHash = CryptoUtils_keccak256 K key;
          dataBytes = toUtf8Bytes data
      in case toBeArray (Str keyHash) of
           Inl e \<Rightarrow> Inl e
         | Inr keyBytes \<Rightarrow> Inr (hexlify (xorWithKey dataBytes keyBytes)))"

definition simpleDecrypt :: "digest \<Rightarrow> string \<Rightarrow> string \<Rightarrow> error + string" where
  "simpleDecrypt K encryptedData key =
     (let keyHash = CryptoUtils_keccak256 K key
      in case toBeArray (Str encryptedData) of
           Inl e \<Rightarrow> Inl e
         | Inr dataBytes \<Rightarrow>
             (case toBeArray (Str keyHash) of
                Inl e \<Rightarrow> Inl e
              | Inr keyBytes \<Rightarrow> toUtf8String (xorWithKey dataBytes keyBytes)))"

text \<open>Encrypting and then decrypting with the same key, as one function of the plain text.\<close>

definition encryptThenDecrypt :: "digest \<Rightarrow> string \<Rightarrow> string \<Rightarrow> error + string" where
  "encryptThenDecrypt K data key =
     (case simpleEncrypt K data key of Inl e \<Rightarrow> Inl e | Inr enc \<Rightarrow> simpleDecrypt K enc key)"

section \<open>IPFSUtils: content hashes as bytes32\<close>

text \<open>
  \<^verbatim>\<open>getBytes\<close> reads a hexadecimal string of whole bytes; \<^verbatim>\<open>Buffer.from(s, 'hex')\<close>
  reads pairs of digits up to the first pair that is not hexadecimal.
\<close>

fun parseHexPairs :: "string \<Rightarrow> byte list option" where
  "parseHexPairs [] = Some []"
| "parseHexPairs [c] = None"
| "parseHexPairs (c # d # cs) =
     (case digitValue c of
        None \<Rightarrow> None
      | Some h \<Rightarrow>
          (case digitValue d of
             None \<Rightarrow> None
           | Some l \<Rightarrow>
               (case parseHexPairs cs of
                  None \<Rightarrow> None
                | Some bs \<Rightarrow> Some (word_of_nat (h * 16 + l) # bs))))"

definition getBytes :: "string \<Rightarrow> error + byte list" where
  "getBytes s =
     (if take 2 s = ''0x'' \<or> take 2 s = ''0X'' then
        (case parseHexPairs (drop 2 s) of
           None \<Rightarrow> Inl (InvalidArgument ''invalid BytesLike value'')
         | Some bs \<Rightarrow> Inr bs)
      else Inl (InvalidArgument ''invalid BytesLike value''))"

fun bufferFromHex :: "string \<Rightarrow> byte list" where
  "bufferFromHex (c # d # cs) =
     (case digitValue c of
        None \<Rightarrow> []
      | Some h \<Rightarrow>
          (case digitValue d of
             None \<Rightarrow> []
           | Some l \<Rightarrow> word_of_nat (h * 16 + l) # bufferFromHex cs))"
| "bufferFromHex cs = []"

definition encodeBytes32String :: "string \<Rightarrow> error + string" where
  "encodeBytes32String text =
     (let bytes = toUtf8Bytes text
      in if 31 < length bytes
         then Inl (InvalidArgument ''bytes32 string must be less than 32 bytes'')
         else (case zeroPadBytes bytes 32 of Inl e \<Rightarrow> Inl e | Inr padded \<Rightarrow> Inr (hexlify padded)))"

text \<open>
  \<^verbatim>\<open>decodeBytes32String\<close>: 32 bytes ending in a zero byte; the zero bytes at the end of
  the first 31 are dropped (\<^verbatim>\<open>while (data[length - 1] === 0) length--\<close>).
\<close>

definition decodeBytes32String :: "string \<Rightarrow> error + string" where
  "decodeBytes32String bytes =
     (case getBytes bytes of
        Inl e \<Rightarrow> Inl e
      | Inr data \<Rightarrow>
          if length data \<noteq> 32 then Inl (InvalidArgument ''invalid bytes32 - not 32 bytes long'')
          else if data ! 31 \<noteq> 0
            then Inl (InvalidArgument ''invalid bytes32 string - no null terminator'')
          else toUtf8String (rev (dropWhile (\<lambda>b. b = 0) (rev (take 31 data)))))"

text \<open>Both base-58 helpers of \<^verbatim>\<open>IPFSUtils\<close> throw on every input.\<close>

definition base58ToBuffer :: "string \<Rightarrow> error + byte list" where
  "base58ToBuffer str = Inl Base58Unavailable"

definition bufferToBase58 :: "byte list \<Rightarrow> error + string" where
  "bufferToBase58 buffer = Inl Base58Unavailable"

definition hashToBytes32 :: "string \<Rightarrow> error + string" where
  "hashToBytes32 hash =
     (if take 2 hash = ''Qm'' \<and> length hash = 46 then
        (case base58ToBuffer hash of
           Inr hashBuffer \<Rightarrow> Inr (hexlify (drop (length hashBuffer - 32) hashBuffer))
         | Inl e \<Rightarrow> encodeBytes32String (take 31 hash))
      else encodeBytes32String (take 31 hash))"

definition bytes32ToHash :: "string \<Rightarrow> string" where
  "bytes32ToHash bytes32 =
     (let reconstruct =
            (if take 2 bytes32 = ''0x'' \<and> length bytes32 = 66 then
               (case bufferToBase58 (bufferFromHex (''1220'' @ drop 2 bytes32)) of
                  Inr h \<Rightarrow> h
                | Inl e \<Rightarrow> bytes32)
             else bytes32)
      in case decodeBytes32String bytes32 of
           Inr parsed \<Rightarrow> if parsed \<noteq> [] then parsed else reconstruct
         | Inl e \<Rightarrow> reconstruct)"

text \<open>The conversion to the on-chain form and back, as one function of the hash.\<close>

definition toBytes32AndBack :: "string \<Rightarrow> error + string" where
  "toBytes32AndBack hash =
     (case hashToBytes32 hash of Inl e \<Rightarrow> Inl e | Inr b \<Rightarrow> Inr (bytes32ToHash b))"

definition inRange :: "char \<Rightarrow> char \<Rightarrow> char \<Rightarrow> bool" where
  "inRange lo hi c = ((of_char lo :: nat) \<le> of_char c \<and> (of_char c :: nat) \<le> of_char hi)"

definition isBase58Char :: "char \<Rightarrow> bool" where
  "isBase58Char c =
     (inRange CHR ''1'' CHR ''9'' c \<or> inRange CHR ''A'' CHR ''H'' c \<or> inRange CHR ''J'' CHR ''N'' c
      \<or> inRange CHR ''P'' CHR ''Z'' c \<or> inRange CHR ''a'' CHR ''k'' c \<or> inRange CHR ''m'' CHR ''z'' c)"

definition isBase32Char :: "char \<Rightarrow> bool" where
  "isBase32Char c = (inRange CHR ''a'' CHR ''z'' c \<or> inRange CHR ''2'' CHR ''7'' c)"

definition isValidIPFSHash :: "string \<Rightarrow> bool" where
  "isValidIPFSHash hash =
     (if take 2 hash = ''Qm'' \<and> length hash = 46 \<and> list_all isBase58Char (drop 2 hash) then True
      else if length hash = 59 \<and> list_all isBase32Char hash then True
      else if take 1 hash = ''b'' \<and> length hash = 59 \<and> list_all isBase32Char (drop 1 hash) then True
      else False)"

section \<open>Network addresses\<close>

record NetworkAddresses =
  net_marketplaceV2 :: string
  net_marketplaceDataV1 :: string
  net_unicrow :: string
  net_unicrowDispute :: string
  net_unicrowArbitrator :: string
  net_eaccToken :: string

definition ZERO_ADDRESS :: string where
  "ZERO_ADDRESS = ''0x0000000000000000000000000000000000000000''"

definition NETWORK_ADDRESSES :: "(int \<times> NetworkAddresses) list" where
  "NETWORK_ADDRESSES =
     [(42161,
       \<lparr> net_marketplaceV2 = ''0x405AcFbD1400A168fDd4aDA2D214e8Ae5FF7a624'',
         net_marketplaceDataV1 = ''0x0191ae69d05F11C7978cCCa2DE15653BaB509d9a'',
         net_unicrow = ZERO_ADDRESS,
         net_unicrowDispute = ZERO_ADDRESS,
         net_unicrowArbitrator = ZERO_ADDRESS,
         net_eaccToken = ''0x9Eeab030a17528eFb2aC0F81D76fab8754e461BD'' \<rparr>)]"

definition getNetworkAddresses :: "int \<Rightarrow> error + NetworkAddresses" where
  "getNetworkAddresses chainId =
     (case map_of NETWORK_ADDRESSES chainId of
        None \<Rightarrow> Inl (UnsupportedNetwork chainId)
      | Some addresses \<Rightarrow> Inr addresses)"

definition SUPPORTED_NETWORKS :: "int list" where
  "SUPPORTED_NETWORKS = map fst NETWORK_ADDRESSES"

definition isNetworkSupported :: "int \<Rightarrow> bool" where
  "isNetworkSupported chainId = (chainId \<in> set SUPPORTED_NETWORKS)"

section \<open>The ledger contracts and their typed wrappers\<close>

text \<open>
  A contract call is the address of the contract, the name of the ABI function and the
  arguments in the order they are passed. An argument is a JavaScript value: a
  \<^verbatim>\<open>BigNumberish\<close> (a number, a bigint or a numeric string), a string, a boolean, an
  array of strings, or the overrides object \<^verbatim>\<open>{ value }\<close> that \<^verbatim>\<open>payStartJob\<close>
  passes last.
\<close>

datatype arg =
    ABig BigNumberish
  | AStr string
  | ABool bool
  | AStrs "string list"
  | AValue "BigNumberish option"

datatype call = Call string string "arg list"

text \<open>
  What a method sends out, in order: calls to a ledger contract, calls to the content
  store, and names handed to the runner to be resolved to an address.
\<close>

datatype outbound = LedgerCall call | StoreCall string | NameLookup string

text \<open>
  What lies beyond the SDK and the library is a record \<open>L\<close>: the replies or failures of
  the ledger contracts; the name service that the runner consults for an address argument
  that is not a hexadecimal address (\<open>None\<close> when the name does not resolve to an
  address); and the library's \<^verbatim>\<open>getChecksumAddress\<close>, which is computed with Keccak-256
  and, like that hash, is not written out.
\<close>

record 'r ledger =
  respond :: "call \<Rightarrow> ledger_error + 'r"
  resolveName :: "string \<Rightarrow> string option"
  getChecksumAddress :: "string \<Rightarrow> string"

type_synonym 'r effect = "(error + 'r) \<times> outbound list"

record provider =
  rpcUrl :: string
  providerSigner :: "error + signer"

datatype runner = RSigner signer | RProvider provider

record Contract =
  target :: string
  runner :: runner

text \<open>
  \<^verbatim>\<open>new Contract(address, abi, runner)\<close> keeps the target as it is given. A target
  that is not a hexadecimal string is a name, which the constructor hands to the runner;
  the methods of the contract wait for the answer. The interface is that of the class of
  the wrapper, which the wrapper methods below pass on.
\<close>

definition newContract :: "string \<Rightarrow> runner \<Rightarrow> Contract" where
  "newContract address signerOrProvider = \<lparr> target = address, runner = signerOrProvider \<rparr>"

definition surface :: "ledger_error + 'r \<Rightarrow> error + 'r" where
  "surface reply = (case reply of Inl e \<Rightarrow> Inl (LedgerFailure e) | Inr r \<Rightarrow> Inr r)"

subsection \<open>The two interfaces\<close>

text \<open>
  The types of the parameters of the ABI functions, as far as the two ABIs use them, and
  the functions of the two ABIs with the types of their inputs. The events are left out,
  and so is \<^verbatim>\<open>publishJobEvent\<close>, whose second parameter is a tuple; no wrapper method
  modelled here calls it.
\<close>

datatype abitype =
    TUint nat
  | TAddress
  | TBytes
  | TBytes32
  | TString
  | TBool
  | TStringArray
  | TAddressArray

datatype mutability = View | NonPayable | Payable

type_synonym interface = "(string \<times> abitype list \<times> mutability) list"

definition MARKETPLACE_V2_ABI :: interface where
  "MARKETPLACE_V2_ABI =
     [(''jobs'', [TUint 256], View),
      (''jobsLength'', [], View),
      (''getJob'', [TUint 256], View),
      (''whitelistWorkers'', [TUint 256, TAddress], View),
      (''version'', [], View),
      (''unicrowAddress'', [], View),
      (''treasuryAddress'', [], View),
      (''unicrowMarketplaceFee'', [], View),
      (''eaccToken'', [], View),
      (''eaccRewardTokensEnabled'', [TAddress], View),
      (''eaccTokensPerToken'', [], View),
      (''marketplaceData'', [], View),
      (''publishJobPost'',
         [TString, TBytes32, TBool, TStringArray, TAddress, TUint 256, TUint 32, TString,
          TAddress, TAddressArray], NonPayable),
      (''updateJobPost'',
         [TUint 256, TString, TBytes32, TStringArray, TUint 256, TUint 32, TAddress, TBool],
         NonPayable),
      (''updateJobWhitelist'', [TUint 256, TAddressArray, TAddressArray], NonPayable),
      (''closeJob'', [TUint 256], NonPayable),
      (''withdrawCollateral'', [TUint 256], NonPayable),
      (''reopenJob'', [TUint 256], NonPayable),
      (''takeJob'', [TUint 256, TBytes], NonPayable),
      (''payStartJob'', [TUint 256, TAddress], Payable),
      (''deliverResult'', [TUint 256, TBytes32], NonPayable),
      (''approveResult'', [TUint 256, TUint 8, TString], NonPayable),
      (''refund'', [TUint 256], NonPayable),
      (''dispute'', [TUint 256, TBytes, TBytes], NonPayable),
      (''arbitrate'', [TUint 256, TUint 16, TUint 16, TBytes32], NonPayable),
      (''refuseArbitration'', [TUint 256], NonPayable),
      (''postThreadMessage'', [TUint 256, TBytes32, TAddress], NonPayable),
      (''review'', [TUint 256, TUint 8, TString], NonPayable),
      (''pause'', [], NonPayable),
      (''unpause'', [], NonPayable),
      (''setTreasuryAddress'', [TAddress], NonPayable),
      (''setUnicrowMarketplaceFee'', [TUint 16], NonPayable),
      (''updateUnicrowAddresses'', [TAddress, TAddress, TAddress], NonPayable),
      (''setEACCRewardTokensEnabled'', [TAddress, TUint 256], NonPayable)]"

definition MARKETPLACE_DATA_V1_ABI :: interface where
  "MARKETPLACE_DATA_V1_ABI =
     [(''users'', [TAddress], View),
      (''arbitrators'', [TAddress], View),
      (''userRatings'', [TAddress], View),
      (''userReviews'', [TAddress, TUint 256], View),
      (''jobEvents'', [TUint 256, TUint 256], View),
      (''meceTags'', [TString], View),
      (''getUsers'', [TUint 256, TUint 256], View),
      (''getArbitrators'', [TUint 256, TUint 256], View),
      (''getReviews'', [TAddress, TUint 256, TUint 256], View),
      (''getEvents'', [TUint 256, TUint 256, TUint 256], View),
      (''getJobs'', [TUint 256, TUint 256], View),
      (''getJob'', [TUint 256], View),
      (''eventsLength'', [TUint 256], View),
      (''usersLength'', [], View),
      (''arbitratorsLength'', [], View),
      (''jobsLength'', [], View),
      (''userRegistered'', [TAddress], View),
      (''arbitratorRegistered'', [TAddress], View),
      (''getUser'', [TAddress], View),
      (''getArbitrator'', [TAddress], View),
      (''getUserRating'', [TAddress], View),
      (''readMeceTag'', [TString], View),
      (''publicKeys'', [TAddress], View),
      (''getArbitratorFee'', [TAddress], View),
      (''registerUser'', [TBytes, TString, TString, TString], NonPayable),
      (''updateUser'', [TString, TString, TString], NonPayable),
      (''registerArbitrator'', [TBytes, TString, TString, TString, TUint 16], NonPayable),
      (''updateArbitrator'', [TString, TString, TString], NonPayable),
      (''updateMeceTag'', [TString, TString], NonPayable),
      (''removeMeceTag'', [TString], NonPayable),
      (''userRefunded'', [TAddress], NonPayable),
      (''userDelivered'', [TAddress], NonPayable),
      (''arbitratorRefused'', [TAddress], NonPayable),
      (''arbitratorSettled'', [TAddress], NonPayable),
      (''updateUserRating'', [TAddress, TUint 8], NonPayable),
      (''addReview'', [TAddress, TAddress, TUint 256, TUint 8, TString], NonPayable)]"

subsection \<open>From the arguments to the transaction\<close>

text \<open>
  A method of an \<^verbatim>\<open>ethers\<close> contract first builds the transaction, inside the process:
  \<^verbatim>\<open>populateTransaction\<close> takes the overrides off the end of the arguments, resolves
  the arguments of type \<^verbatim>\<open>address\<close>, and encodes all arguments against the types of the
  ABI function. Each of the three steps can throw, and then nothing is sent to the
  contract.

  \<^verbatim>\<open>resolveAddress\<close>: a string of the form \<^verbatim>\<open>/^0x[0-9a-f]{40}$/i\<close> is settled at
  once by \<^verbatim>\<open>getAddress\<close>, which rejects the prefix \<^verbatim>\<open>0X\<close> and, when the digits are
  of both cases, a string that is not its own checksummed form. Any other string is a name
  for the runner to look up.
\<close>

definition isHexDigit :: "char \<Rightarrow> bool" where
  "isHexDigit c = (digitValue c \<noteq> None)"

definition isHexAddress :: "string \<Rightarrow> bool" where
  "isHexAddress s =
     (length s = 42 \<and> (take 2 s = ''0x'' \<or> take 2 s = ''0X'') \<and> list_all isHexDigit (drop 2 s))"

definition mixedCase :: "string \<Rightarrow> bool" where
  "mixedCase s =
     (list_ex (inRange CHR ''A'' CHR ''F'') s \<and> list_ex (inRange CHR ''a'' CHR ''f'') s)"

datatype resolution = Settled "error + string" | Looked string "string option"

definition resolveAddress :: "'r ledger \<Rightarrow> string \<Rightarrow> resolution" where
  "resolveAddress L s =
     (if isHexAddress s then
        Settled
          (if take 2 s \<noteq> ''0x'' then Inl (InvalidArgument ''invalid address'')
           else if mixedCase s \<and> getChecksumAddress L s \<noteq> s
             then Inl (InvalidArgument ''bad address checksum'')
           else Inr (getChecksumAddress L s))
      else Looked s (resolveName L s))"

text \<open>
  \<^verbatim>\<open>resolveArgs\<close> walks every argument, whatever happened at the ones before it. Inside
  an array of addresses the walk is a loop that an exception leaves: the elements after one
  that \<^verbatim>\<open>getAddress\<close> rejects are not looked at.
\<close>

fun walkAddresses :: "'r ledger \<Rightarrow> string list \<Rightarrow> resolution list" where
  "walkAddresses L [] = []"
| "walkAddresses L (s # ss) =
     (case resolveAddress L s of
        Settled (Inl e) \<Rightarrow> [Settled (Inl e)]
      | Settled (Inr a) \<Rightarrow> Settled (Inr a) # walkAddresses L ss
      | Looked n a \<Rightarrow> Looked n a # walkAddresses L ss)"

fun walkAsync :: "'r ledger \<Rightarrow> abitype \<Rightarrow> arg \<Rightarrow> resolution list" where
  "walkAsync L TAddress (AStr s) = [resolveAddress L s]"
| "walkAsync L TAddressArray (AStrs ss) = walkAddresses L ss"
| "walkAsync L t a = []"

definition resolveArgs :: "'r ledger \<Rightarrow> abitype list \<Rightarrow> arg list \<Rightarrow> resolution list" where
  "resolveArgs L inputs as = concat (map (\<lambda>(t, a). walkAsync L t a) (zip inputs as))"

definition lookups :: "resolution list \<Rightarrow> outbound list" where
  "lookups rs =
     concat (map (\<lambda>r. case r of Settled x \<Rightarrow> [] | Looked n a \<Rightarrow> [NameLookup n]) rs)"

text \<open>
  The resolutions are awaited together. An address that \<^verbatim>\<open>getAddress\<close> rejected has
  failed before any look-up returns, so the first of those is what is thrown; without one,
  a name that did not resolve fails the call.
\<close>

fun thrown :: "resolution list \<Rightarrow> error option" where
  "thrown [] = None"
| "thrown (Settled (Inl e) # rs) = Some e"
| "thrown (Settled (Inr a) # rs) = thrown rs"
| "thrown (Looked n a # rs) = thrown rs"

fun unresolved :: "resolution list \<Rightarrow> bool" where
  "unresolved [] = False"
| "unresolved (Looked n None # rs) = True"
| "unresolved (Looked n (Some a) # rs) = unresolved rs"
| "unresolved (Settled x # rs) = unresolved rs"

definition rejection :: "resolution list \<Rightarrow> error option" where
  "rejection rs =
     (case thrown rs of
        Some e \<Rightarrow> Some e
      | None \<Rightarrow> if unresolved rs then Some NameNotResolved else None)"

text \<open>
  The coders of the ABI types. An unsigned integer of \<open>n\<close> bits must read as a number
  from \<open>0\<close> to \<open>2\<^sup>n - 1\<close>; \<^verbatim>\<open>bytes\<close> must be a hexadecimal string of whole
  bytes, \<^verbatim>\<open>bytes32\<close> one of 32 bytes. An address has been resolved by now. The typed
  wrappers pass each parameter a value of its kind; for any other pairing, which no wrapper
  produces, the coder is taken to reject the value.
\<close>

fun encodeArg :: "abitype \<Rightarrow> arg \<Rightarrow> error option" where
  "encodeArg (TUint n) (ABig v) =
     (case getBigInt v of
        Inl e \<Rightarrow> Some e
      | Inr x \<Rightarrow> if 0 \<le> x \<and> x < 2 ^ n then None else Some (InvalidArgument ''value out-of-bounds''))"
| "encodeArg TBytes (AStr s) =
     (case getBytes s of Inl e \<Rightarrow> Some e | Inr bs \<Rightarrow> None)"
| "encodeArg TBytes32 (AStr s) =
     (case getBytes s of
        Inl e \<Rightarrow> Some e
      | Inr bs \<Rightarrow> if length bs = 32 then None else Some (InvalidArgument ''incorrect data length''))"
| "encodeArg TString (AStr s) = None"
| "encodeArg TBool (ABool b) = None"
| "encodeArg TStringArray (AStrs ss) = None"
| "encodeArg TAddress (AStr s) = None"
| "encodeArg TAddressArray (AStrs ss) = None"
| "encodeArg t a = Some (InvalidArgument ''invalid value for type'')"

fun firstError :: "error option list \<Rightarrow> error option" where
  "firstError [] = None"
| "firstError (None # es) = firstError es"
| "firstError (Some e # es) = Some e"

definition encodeFunctionData :: "abitype list \<Rightarrow> arg list \<Rightarrow> error option" where
  "encodeFunctionData inputs as = firstError (map (\<lambda>(t, a). encodeArg t a) (zip inputs as))"

text \<open>
  One argument more than the function has inputs: the last is the overrides, of which the
  wrappers pass only \<^verbatim>\<open>value\<close>; an absent value is skipped, a given one must read as a
  number. With any other number of arguments, or a last argument that is not an object, no
  function of the ABI matches.
\<close>

definition copyOverrides :: "abitype list \<Rightarrow> arg list \<Rightarrow> error + arg list \<times> int option" where
  "copyOverrides inputs as =
     (if length as = length inputs then Inr (as, None)
      else if length as = length inputs + 1 then
        (case last as of
           AValue None \<Rightarrow> Inr (butlast as, None)
         | AValue (Some v) \<Rightarrow>
             (case getBigInt v of Inl e \<Rightarrow> Inl e | Inr x \<Rightarrow> Inr (butlast as, Some x))
         | ABig v \<Rightarrow> Inl UnsupportedOperation
         | AStr s \<Rightarrow> Inl UnsupportedOperation
         | ABool b \<Rightarrow> Inl UnsupportedOperation
         | AStrs ss \<Rightarrow> Inl UnsupportedOperation)
      else Inl UnsupportedOperation)"

text \<open>
  The result of \<^verbatim>\<open>populateTransaction\<close> is the value the transaction carries, if any,
  with the names that were handed to the runner on the way.
\<close>

definition populateTransaction ::
  "'r ledger \<Rightarrow> abitype list \<Rightarrow> arg list \<Rightarrow> (error + int option) \<times> outbound list" where
  "populateTransaction L inputs as =
     (case copyOverrides inputs as of
        Inl e \<Rightarrow> (Inl e, [])
      | Inr (args, val) \<Rightarrow>
          (case rejection (resolveArgs L inputs args) of
             Some e \<Rightarrow> (Inl e, lookups (resolveArgs L inputs args))
           | None \<Rightarrow>
               (case encodeFunctionData inputs args of
                  Some e \<Rightarrow> (Inl e, lookups (resolveArgs L inputs args))
                | None \<Rightarrow> (Inr val, lookups (resolveArgs L inputs args)))))"

text \<open>
  The transaction is addressed to the target of the contract. A target that is a
  hexadecimal string goes to the runner as it is, and the runner resolves it as it would an
  address argument; for any other target the answer to the constructor's look-up is
  awaited. Without an address there is no call.
\<close>

definition isHexString :: "string \<Rightarrow> bool" where
  "isHexString s = (take 2 s = ''0x'' \<and> list_all isHexDigit (drop 2 s))"

definition resolveTarget :: "'r ledger \<Rightarrow> string \<Rightarrow> (error + string) \<times> outbound list" where
  "resolveTarget L t =
     (if isHexString t then
        (case resolveAddress L t of
           Settled r \<Rightarrow> (r, [])
         | Looked n None \<Rightarrow> (Inl NameNotResolved, [NameLookup n])
         | Looked n (Some a) \<Rightarrow> (Inr a, [NameLookup n]))
      else
        (case resolveName L t of
           None \<Rightarrow> (Inl NameNotResolved, [])
         | Some a \<Rightarrow> (Inr a, [])))"

text \<open>
  The populated and addressed transaction goes through the runner, which cannot serialise
  a negative value; what it can serialise goes to the contract, in one call.
\<close>

definition transact ::
  "'r ledger \<Rightarrow> Contract \<Rightarrow> abitype list \<Rightarrow> string \<Rightarrow> arg list \<Rightarrow> 'r effect" where
  "transact L ct inputs f as =
     (case populateTransaction L inputs as of
        (Inl e, tr) \<Rightarrow> (Inl e, tr)
      | (Inr val, tr) \<Rightarrow>
          (case resolveTarget L (target ct) of
             (Inl e, tr') \<Rightarrow> (Inl e, tr @ tr')
           | (Inr a, tr') \<Rightarrow>
               if (case val of None \<Rightarrow> False | Some x \<Rightarrow> x < 0)
               then (Inl (NumericFault ''unsigned value cannot be negative''), tr @ tr')
               else (surface (respond L (Call (target ct) f as)),
                     tr @ tr' @ [LedgerCall (Call (target ct) f as)])))"

text \<open>A \<^verbatim>\<open>view\<close> function of the ABI is read through any runner.\<close>

definition staticCall ::
  "'r ledger \<Rightarrow> Contract \<Rightarrow> abitype list \<Rightarrow> string \<Rightarrow> arg list \<Rightarrow> 'r effect" where
  "staticCall L ct inputs f as = transact L ct inputs f as"

text \<open>
  Any other function is sent as a transaction, which needs a runner that signs; on a bare
  provider the library throws before it looks at the arguments.
\<close>

definition sendTransaction ::
  "'r ledger \<Rightarrow> Contract \<Rightarrow> abitype list \<Rightarrow> string \<Rightarrow> arg list \<Rightarrow> 'r effect" where
  "sendTransaction L ct inputs f as =
     (case runner ct of
        RProvider p \<Rightarrow> (Inl UnsupportedOperation, [])
      | RSigner sg \<Rightarrow> transact L ct inputs f as)"

text \<open>
  \<^verbatim>\<open>this.contract.f(...)\<close>: the function is looked up by name in the interface the
  contract was made with; a name that the interface does not have is not a function of the
  contract object.
\<close>

definition invoke ::
  "'r ledger \<Rightarrow> interface \<Rightarrow> Contract \<Rightarrow> string \<Rightarrow> arg list \<Rightarrow> 'r effect" where
  "invoke L abi ct f as =
     (case map_of abi f of
        None \<Rightarrow> (Inl (NotAFunction f), [])
      | Some (inputs, m) \<Rightarrow>
          if m = View then staticCall L ct inputs f as else sendTransaction L ct inputs f as)"

datatype RegisterUserParams = RegisterUserParams string string string string

datatype UpdateUserParams = UpdateUserParams string string string

datatype RegisterArbitratorParams = RegisterArbitratorParams string string string string int

datatype PublishJobParams =
  PublishJobParams string string bool "string list" string BigNumberish int string
    "string option" "string list option"

datatype UpdateJobParams =
  UpdateJobParams BigNumberish string string "string list" BigNumberish int "string option" bool

subsection \<open>MarketplaceV2Contract\<close>

text \<open>
  Every wrapper method is one \<^verbatim>\<open>await this.contract.f(...)\<close> on a contract made with
  the ABI of its class. A parameter of TypeScript type \<^verbatim>\<open>number\<close> is passed as the
  number it is.
\<close>

definition MarketplaceV2Contract_getJob :: "'r ledger \<Rightarrow> Contract \<Rightarrow> BigNumberish \<Rightarrow> 'r effect" where
  "MarketplaceV2Contract_getJob L ct jobId = invoke L MARKETPLACE_V2_ABI ct ''getJob'' [ABig jobId]"

definition MarketplaceV2Contract_getJobsLength :: "'r ledger \<Rightarrow> Contract \<Rightarrow> 'r effect" where
  "MarketplaceV2Contract_getJobsLength L ct = invoke L MARKETPLACE_V2_ABI ct ''jobsLength'' []"

definition MarketplaceV2Contract_isWorkerWhitelisted ::
  "'r ledger \<Rightarrow> Contract \<Rightarrow> BigNumberish \<Rightarrow> string \<Rightarrow> 'r effect" where
  "MarketplaceV2Contract_isWorkerWhitelisted L ct jobId worker =
     invoke L MARKETPLACE_V2_ABI ct ''whitelistWorkers'' [ABig jobId, AStr worker]"

definition MarketplaceV2Contract_getEACCRewardTokensEnabled ::
  "'r ledger \<Rightarrow> Contract \<Rightarrow> string \<Rightarrow> 'r effect" where
  "MarketplaceV2Contract_getEACCRewardTokensEnabled L ct token =
     invoke L MARKETPLACE_V2_ABI ct ''eaccRewardTokensEnabled'' [AStr token]"

definition MarketplaceV2Contract_getVersion :: "'r ledger \<Rightarrow> Contract \<Rightarrow> 'r effect" where
  "MarketplaceV2Contract_getVersion L ct = invoke L MARKETPLACE_V2_ABI ct ''version'' []"

definition MarketplaceV2Contract_getUnicrowAddress :: "'r ledger \<Rightarrow> Contract \<Rightarrow> 'r effect" where
  "MarketplaceV2Contract_getUnicrowAddress L ct =
     invoke L MARKETPLACE_V2_ABI ct ''unicrowAddress'' []"

definition MarketplaceV2Contract_getTreasuryAddress :: "'r ledger \<Rightarrow> Contract \<Rightarrow> 'r effect" where
  "MarketplaceV2Contract_getTreasuryAddress L ct =
     invoke L MARKETPLACE_V2_ABI ct ''treasuryAddress'' []"

definition MarketplaceV2Contract_getMarketplaceFee :: "'r ledger \<Rightarrow> Contract \<Rightarrow> 'r effect" where
  "MarketplaceV2Contract_getMarketplaceFee L ct =
     invoke L MARKETPLACE_V2_ABI ct ''unicrowMarketplaceFee'' []"

definition MarketplaceV2Contract_getEACCToken :: "'r ledger \<Rightarrow> Contract \<Rightarrow> 'r effect" where
  "MarketplaceV2Contract_getEACCToken L ct = invoke L MARKETPLACE_V2_ABI ct ''eaccToken'' []"

definition MarketplaceV2Contract_getEACCTokensPerToken ::
  "'r ledger \<Rightarrow> Contract \<Rightarrow> 'r effect" where
  "MarketplaceV2Contract_getEACCTokensPerToken L ct =
     invoke L MARKETPLACE_V2_ABI ct ''eaccTokensPerToken'' []"

definition MarketplaceV2Contract_publishJobPost ::
  "'r ledger \<Rightarrow> Contract \<Rightarrow> PublishJobParams \<Rightarrow> 'r effect" where
  "MarketplaceV2Contract_publishJobPost L ct params =
     (case params of
        PublishJobParams title contentHash multipleApplicants tags token amount maxTime
          deliveryMethod arbitrator allowedWorkers \<Rightarrow>
        invoke L MARKETPLACE_V2_ABI ct ''publishJobPost''
          [AStr title, AStr contentHash, ABool multipleApplicants, AStrs tags, AStr token,
           ABig amount, ABig (Number maxTime), AStr deliveryMethod,
           AStr (case arbitrator of None \<Rightarrow> ZERO_ADDRESS | Some a \<Rightarrow> a),
           AStrs (case allowedWorkers of None \<Rightarrow> [] | Some ws \<Rightarrow> ws)])"

definition MarketplaceV2Contract_updateJobPost ::
  "'r ledger \<Rightarrow> Contract \<Rightarrow> UpdateJobParams \<Rightarrow> 'r effect" where
  "MarketplaceV2Contract_updateJobPost L ct params =
     (case params of
        UpdateJobParams jobId title contentHash tags amount maxTime arbitrator whitelistWorkers \<Rightarrow>
        invoke L MARKETPLACE_V2_ABI ct ''updateJobPost''
          [ABig jobId, AStr title, AStr contentHash, AStrs tags, ABig amount,
           ABig (Number maxTime),
           AStr (case arbitrator of None \<Rightarrow> ZERO_ADDRESS | Some a \<Rightarrow> a),
           ABool whitelistWorkers])"

definition MarketplaceV2Contract_updateJobWhitelist ::
  "'r ledger \<Rightarrow> Contract \<Rightarrow> BigNumberish \<Rightarrow> string list \<Rightarrow> string list \<Rightarrow> 'r effect" where
  "MarketplaceV2Contract_updateJobWhitelist L ct jobId allowedWorkers disallowedWorkers =
     invoke L MARKETPLACE_V2_ABI ct ''updateJobWhitelist''
       [ABig jobId, AStrs allowedWorkers, AStrs disallowedWorkers]"

definition MarketplaceV2Contract_closeJob :: "'r ledger \<Rightarrow> Contract \<Rightarrow> BigNumberish \<Rightarrow> 'r effect" where
  "MarketplaceV2Contract_closeJob L ct jobId =
     invoke L MARKETPLACE_V2_ABI ct ''closeJob'' [ABig jobId]"

definition MarketplaceV2Contract_withdrawCollateral ::
  "'r ledger \<Rightarrow> Contract \<Rightarrow> BigNumberish \<Rightarrow> 'r effect" where
  "MarketplaceV2Contract_withdrawCollateral L ct jobId =
     invoke L MARKETPLACE_V2_ABI ct ''withdrawCollateral'' [ABig jobId]"

definition MarketplaceV2Contract_reopenJob :: "'r ledger \<Rightarrow> Contract \<Rightarrow> BigNumberish \<Rightarrow> 'r effect" where
  "MarketplaceV2Contract_reopenJob L ct jobId =
     invoke L MARKETPLACE_V2_ABI ct ''reopenJob'' [ABig jobId]"

definition MarketplaceV2Contract_takeJob ::
  "'r ledger \<Rightarrow> Contract \<Rightarrow> BigNumberish \<Rightarrow> string \<Rightarrow> 'r effect" where
  "MarketplaceV2Contract_takeJob L ct jobId signature =
     invoke L MARKETPLACE_V2_ABI ct ''takeJob'' [ABig jobId, AStr signature]"

definition MarketplaceV2Contract_payStartJob ::
  "'r ledger \<Rightarrow> Contract \<Rightarrow> BigNumberish \<Rightarrow> string \<Rightarrow> BigNumberish option \<Rightarrow> 'r effect" where
  "MarketplaceV2Contract_payStartJob L ct jobId worker val =
     invoke L MARKETPLACE_V2_ABI ct ''payStartJob'' [ABig jobId, AStr worker, AValue val]"

definition MarketplaceV2Contract_deliverResult ::
  "'r ledger \<Rightarrow> Contract \<Rightarrow> BigNumberish \<Rightarrow> string \<Rightarrow> 'r effect" where
  "MarketplaceV2Contract_deliverResult L ct jobId resultHash =
     invoke L MARKETPLACE_V2_ABI ct ''deliverResult'' [ABig jobId, AStr resultHash]"

definition MarketplaceV2Contract_approveResult ::
  "'r ledger \<Rightarrow> Contract \<Rightarrow> BigNumberish \<Rightarrow> int \<Rightarrow> string \<Rightarrow> 'r effect" where
  "MarketplaceV2Contract_approveResult L ct jobId reviewRating reviewText =
     invoke L MARKETPLACE_V2_ABI ct ''approveResult''
       [ABig jobId, ABig (Number reviewRating), AStr reviewText]"

definition MarketplaceV2Contract_refund :: "'r ledger \<Rightarrow> Contract \<Rightarrow> BigNumberish \<Rightarrow> 'r effect" where
  "MarketplaceV2Contract_refund L ct jobId = invoke L MARKETPLACE_V2_ABI ct ''refund'' [ABig jobId]"

definition MarketplaceV2Contract_dispute ::
  "'r ledger \<Rightarrow> Contract \<Rightarrow> BigNumberish \<Rightarrow> string \<Rightarrow> string \<Rightarrow> 'r effect" where
  "MarketplaceV2Contract_dispute L ct jobId sessionKey content =
     invoke L MARKETPLACE_V2_ABI ct ''dispute'' [ABig jobId, AStr sessionKey, AStr content]"

definition MarketplaceV2Contract_arbitrate ::
  "'r ledger \<Rightarrow> Contract \<Rightarrow> BigNumberish \<Rightarrow> int \<Rightarrow> int \<Rightarrow> string \<Rightarrow> 'r effect" where
  "MarketplaceV2Contract_arbitrate L ct jobId buyerShare workerShare reasonHash =
     invoke L MARKETPLACE_V2_ABI ct ''arbitrate''
       [ABig jobId, ABig (Number buyerShare), ABig (Number workerShare), AStr reasonHash]"

definition MarketplaceV2Contract_refuseArbitration ::
  "'r ledger \<Rightarrow> Contract \<Rightarrow> BigNumberish \<Rightarrow> 'r effect" where
  "MarketplaceV2Contract_refuseArbitration L ct jobId =
     invoke L MARKETPLACE_V2_ABI ct ''refuseArbitration'' [ABig jobId]"

definition MarketplaceV2Contract_postThreadMessage ::
  "'r ledger \<Rightarrow> Contract \<Rightarrow> BigNumberish \<Rightarrow> string \<Rightarrow> string \<Rightarrow> 'r effect" where
  "MarketplaceV2Contract_postThreadMessage L ct jobId contentHash recipient =
     invoke L MARKETPLACE_V2_ABI ct ''postThreadMessage''
       [ABig jobId, AStr contentHash, AStr recipient]"

definition MarketplaceV2Contract_review ::
  "'r ledger \<Rightarrow> Contract \<Rightarrow> BigNumberish \<Rightarrow> int \<Rightarrow> string \<Rightarrow> 'r effect" where
  "MarketplaceV2Contract_review L ct jobId reviewRating reviewText =
     invoke L MARKETPLACE_V2_ABI ct ''review''
       [ABig jobId, ABig (Number reviewRating), AStr reviewText]"

subsection \<open>MarketplaceDataV1Contract\<close>

definition MarketplaceDataV1Contract_getUser :: "'r ledger \<Rightarrow> Contract \<Rightarrow> string \<Rightarrow> 'r effect" where
  "MarketplaceDataV1Contract_getUser L ct address =
     invoke L MARKETPLACE_DATA_V1_ABI ct ''getUser'' [AStr address]"

definition MarketplaceDataV1Contract_getArbitrator ::
  "'r ledger \<Rightarrow> Contract \<Rightarrow> string \<Rightarrow> 'r effect" where
  "MarketplaceDataV1Contract_getArbitrator L ct address =
     invoke L MARKETPLACE_DATA_V1_ABI ct ''getArbitrator'' [AStr address]"

definition MarketplaceDataV1Contract_getJobs ::
  "'r ledger \<Rightarrow> Contract \<Rightarrow> int \<Rightarrow> int \<Rightarrow> 'r effect" where
  "MarketplaceDataV1Contract_getJobs L ct index limit =
     invoke L MARKETPLACE_DATA_V1_ABI ct ''getJobs'' [ABig (Number index), ABig (Number limit)]"

definition MarketplaceDataV1Contract_getEvents ::
  "'r ledger \<Rightarrow> Contract \<Rightarrow> BigNumberish \<Rightarrow> int \<Rightarrow> int \<Rightarrow> 'r effect" where
  "MarketplaceDataV1Contract_getEvents L ct jobId index limit =
     invoke L MARKETPLACE_DATA_V1_ABI ct ''getEvents''
       [ABig jobId, ABig (Number index), ABig (Number limit)]"

definition MarketplaceDataV1Contract_getEventsLength ::
  "'r ledger \<Rightarrow> Contract \<Rightarrow> BigNumberish \<Rightarrow> 'r effect" where
  "MarketplaceDataV1Contract_getEventsLength L ct jobId =
     invoke L MARKETPLACE_DATA_V1_ABI ct ''eventsLength'' [ABig jobId]"

definition MarketplaceDataV1Contract_getUsers ::
  "'r ledger \<Rightarrow> Contract \<Rightarrow> int \<Rightarrow> int \<Rightarrow> 'r effect" where
  "MarketplaceDataV1Contract_getUsers L ct index limit =
     invoke L MARKETPLACE_DATA_V1_ABI ct ''getUsers'' [ABig (Number index), ABig (Number limit)]"

definition MarketplaceDataV1Contract_getUsersLength :: "'r ledger \<Rightarrow> Contract \<Rightarrow> 'r effect" where
  "MarketplaceDataV1Contract_getUsersLength L ct =
     invoke L MARKETPLACE_DATA_V1_ABI ct ''usersLength'' []"

definition MarketplaceDataV1Contract_isUserRegistered ::
  "'r ledger \<Rightarrow> Contract \<Rightarrow> string \<Rightarrow> 'r effect" where
  "MarketplaceDataV1Contract_isUserRegistered L ct address =
     invoke L MARKETPLACE_DATA_V1_ABI ct ''userRegistered'' [AStr address]"

definition MarketplaceDataV1Contract_getUserRating ::
  "'r ledger \<Rightarrow> Contract \<Rightarrow> string \<Rightarrow> 'r effect" where
  "MarketplaceDataV1Contract_getUserRating L ct address =
     invoke L MARKETPLACE_DATA_V1_ABI ct ''getUserRating'' [AStr address]"

definition MarketplaceDataV1Contract_getReviews ::
  "'r ledger \<Rightarrow> Contract \<Rightarrow> string \<Rightarrow> int \<Rightarrow> int \<Rightarrow> 'r effect" where
  "MarketplaceDataV1Contract_getReviews L ct address index limit =
     invoke L MARKETPLACE_DATA_V1_ABI ct ''getReviews''
       [AStr address, ABig (Number index), ABig (Number limit)]"

definition MarketplaceDataV1Contract_getArbitrators ::
  "'r ledger \<Rightarrow> Contract \<Rightarrow> int \<Rightarrow> int \<Rightarrow> 'r effect" where
  "MarketplaceDataV1Contract_getArbitrators L ct index limit =
     invoke L MARKETPLACE_DATA_V1_ABI ct ''getArbitrators''
       [ABig (Number index), ABig (Number limit)]"

definition MarketplaceDataV1Contract_getArbitratorsLength ::
  "'r ledger \<Rightarrow> Contract \<Rightarrow> 'r effect" where
  "MarketplaceDataV1Contract_getArbitratorsLength L ct =
     invoke L MARKETPLACE_DATA_V1_ABI ct ''arbitratorsLength'' []"

definition MarketplaceDataV1Contract_isArbitratorRegistered ::
  "'r ledger \<Rightarrow> Contract \<Rightarrow> string \<Rightarrow> 'r effect" where
  "MarketplaceDataV1Contract_isArbitratorRegistered L ct address =
     invoke L MARKETPLACE_DATA_V1_ABI ct ''arbitratorRegistered'' [AStr address]"

definition MarketplaceDataV1Contract_readMeceTag ::
  "'r ledger \<Rightarrow> Contract \<Rightarrow> string \<Rightarrow> 'r effect" where
  "MarketplaceDataV1Contract_readMeceTag L ct shortForm =
     invoke L MARKETPLACE_DATA_V1_ABI ct ''readMeceTag'' [AStr shortForm]"

definition MarketplaceDataV1Contract_registerUser ::
  "'r ledger \<Rightarrow> Contract \<Rightarrow> string \<Rightarrow> string \<Rightarrow> string \<Rightarrow> string \<Rightarrow> 'r effect" where
  "MarketplaceDataV1Contract_registerUser L ct pubkey name bio avatar =
     invoke L MARKETPLACE_DATA_V1_ABI ct ''registerUser''
       [AStr pubkey, AStr name, AStr bio, AStr avatar]"

definition MarketplaceDataV1Contract_updateUser ::
  "'r ledger \<Rightarrow> Contract \<Rightarrow> string \<Rightarrow> string \<Rightarrow> string \<Rightarrow> 'r effect" where
  "MarketplaceDataV1Contract_updateUser L ct name bio avatar =
     invoke L MARKETPLACE_DATA_V1_ABI ct ''updateUser'' [AStr name, AStr bio, AStr avatar]"

definition MarketplaceDataV1Contract_registerArbitrator ::
  "'r ledger \<Rightarrow> Contract \<Rightarrow> string \<Rightarrow> string \<Rightarrow> string \<Rightarrow> string \<Rightarrow> int \<Rightarrow> 'r effect" where
  "MarketplaceDataV1Contract_registerArbitrator L ct pubkey name bio avatar fee =
     invoke L MARKETPLACE_DATA_V1_ABI ct ''registerArbitrator''
       [AStr pubkey, AStr name, AStr bio, AStr avatar, ABig (Number fee)]"

definition MarketplaceDataV1Contract_updateArbitrator ::
  "'r ledger \<Rightarrow> Contract \<Rightarrow> string \<Rightarrow> string \<Rightarrow> string \<Rightarrow> 'r effect" where
  "MarketplaceDataV1Contract_updateArbitrator L ct name bio avatar =
     invoke L MARKETPLACE_DATA_V1_ABI ct ''updateArbitrator'' [AStr name, AStr bio, AStr avatar]"

definition MarketplaceDataV1Contract_updateMeceTag ::
  "'r ledger \<Rightarrow> Contract \<Rightarrow> string \<Rightarrow> string \<Rightarrow> 'r effect" where
  "MarketplaceDataV1Contract_updateMeceTag L ct shortForm longForm =
     invoke L MARKETPLACE_DATA_V1_ABI ct ''updateMeceTag'' [AStr shortForm, AStr longForm]"

definition MarketplaceDataV1Contract_removeMeceTag ::
  "'r ledger \<Rightarrow> Contract \<Rightarrow> string \<Rightarrow> 'r effect" where
  "MarketplaceDataV1Contract_removeMeceTag L ct shortForm =
     invoke L MARKETPLACE_DATA_V1_ABI ct ''removeMeceTag'' [AStr shortForm]"

section \<open>WalletConnector and EACCClient\<close>

record WalletConnector =
  provider :: "provider option"
  signer :: "signer option"

definition newWalletConnector :: WalletConnector where
  "newWalletConnector = \<lparr> provider = None, signer = None \<rparr>"

definition getSigner :: "WalletConnector \<Rightarrow> signer option" where
  "getSigner w = signer w"

text \<open>
  \<^verbatim>\<open>WalletConnector.connectWithProvider\<close> stores the provider, then asks it for its
  signer; when that fails the provider stays stored and the failure is thrown on.
\<close>

definition WalletConnector_connectWithProvider ::
  "WalletConnector \<Rightarrow> provider \<Rightarrow> (error + signer) \<times> WalletConnector" where
  "WalletConnector_connectWithProvider w p =
     (case providerSigner p of
        Inl e \<Rightarrow> (Inl e, w\<lparr>provider := Some p\<rparr>)
      | Inr sg \<Rightarrow> (Inr sg, w\<lparr>provider := Some p, signer := Some sg\<rparr>))"

definition WalletConnector_disconnect :: "WalletConnector \<Rightarrow> WalletConnector" where
  "WalletConnector_disconnect w = w\<lparr>provider := None, signer := None\<rparr>"

record IPFSConfig =
  gateway :: "string option"
  apiEndpoint :: "string option"
  timeout :: "nat option"

text \<open>The constructor of \<^verbatim>\<open>IPFSUtils\<close> fills in the defaults.\<close>

definition newIPFSUtils :: "IPFSConfig option \<Rightarrow> IPFSConfig" where
  "newIPFSUtils cfg =
     (let given = (case cfg of None \<Rightarrow> \<lparr> gateway = None, apiEndpoint = None, timeout = None \<rparr>
                   | Some g \<Rightarrow> g)
      in \<lparr> gateway = Some (case gateway given of None \<Rightarrow> ''https://ipfs.io/ipfs/''
                            | Some g \<Rightarrow> if g = [] then ''https://ipfs.io/ipfs/'' else g),
           apiEndpoint = Some (case apiEndpoint given of None \<Rightarrow> ''https://api.pinata.cloud''
                               | Some a \<Rightarrow> if a = [] then ''https://api.pinata.cloud'' else a),
           timeout = Some (case timeout given of None \<Rightarrow> 30000
                           | Some t \<Rightarrow> if t = 0 then 30000 else t) \<rparr>)"

record EACCClientConfig =
  marketplaceV2Address :: string
  marketplaceDataV1Address :: string
  chainId :: "int option"
  ipfsConfig :: "IPFSConfig option"

text \<open>
  The two contract handles are declared without an initial value
  (\<^verbatim>\<open>private marketplaceV2!: MarketplaceV2Contract\<close>): until
  \<^verbatim>\<open>initializeContracts\<close> has run they are \<^verbatim>\<open>undefined\<close>, here \<open>None\<close>.
\<close>

record EACCClient =
  marketplaceV2 :: "Contract option"
  marketplaceData :: "Contract option"
  wallet :: WalletConnector
  ipfs :: IPFSConfig
  config :: EACCClientConfig

definition initializeContracts :: "EACCClient \<Rightarrow> runner \<Rightarrow> EACCClient" where
  "initializeContracts c signerOrProvider =
     c\<lparr> marketplaceV2 := Some (newContract (marketplaceV2Address (config c)) signerOrProvider),
        marketplaceData := Some (newContract (marketplaceDataV1Address (config c)) signerOrProvider) \<rparr>"

text \<open>
  The constructor. \<^verbatim>\<open>config.chainId && !isNetworkSupported(config.chainId)\<close>: the
  first conjunct is JavaScript truthiness, false for an absent chain id and for \<open>0\<close>.
\<close>

definition newEACCClient :: "EACCClientConfig \<Rightarrow> runner option \<Rightarrow> error + EACCClient" where
  "newEACCClient cfg signerOrProvider =
     (let this = \<lparr> marketplaceV2 = None, marketplaceData = None, wallet = newWalletConnector,
                   ipfs = newIPFSUtils (ipfsConfig cfg), config = cfg \<rparr>
      in case chainId cfg of
           None \<Rightarrow>
             Inr (case signerOrProvider of None \<Rightarrow> this | Some r \<Rightarrow> initializeContracts this r)
         | Some n \<Rightarrow>
             if n \<noteq> 0 \<and> \<not> isNetworkSupported n then Inl (UnsupportedNetwork n)
             else Inr (case signerOrProvider of None \<Rightarrow> this | Some r \<Rightarrow> initializeContracts this r))"

definition connectProvider :: "EACCClient \<Rightarrow> provider \<Rightarrow> (error + unit) \<times> EACCClient" where
  "connectProvider c p =
     (case WalletConnector_connectWithProvider (wallet c) p of
        (Inl e, w) \<Rightarrow> (Inl e, c\<lparr>wallet := w\<rparr>)
      | (Inr sg, w) \<Rightarrow> (Inr (), initializeContracts (c\<lparr>wallet := w\<rparr>) (RSigner sg)))"

text \<open>
  \<^verbatim>\<open>disconnect\<close> first removes the listeners of both contracts, which needs both
  handles, then clears the wallet.
\<close>

definition disconnect :: "EACCClient \<Rightarrow> (error + unit) \<times> EACCClient" where
  "disconnect c =
     (if marketplaceV2 c = None \<or> marketplaceData c = None then (Inl UndefinedHandle, c)
      else (Inr (), c\<lparr>wallet := WalletConnector_disconnect (wallet c)\<rparr>))"

definition checkConnection :: "EACCClient \<Rightarrow> error + unit" where
  "checkConnection c =
     (case getSigner (wallet c) of None \<Rightarrow> Inl WalletNotConnected | Some sg \<Rightarrow> Inr ())"

text \<open>
  Two shapes recur in the methods of the client. A method that begins with
  \<^verbatim>\<open>this.checkConnection()\<close> runs its body only when the check passes; a call of a method
  on a contract handle is a \<^verbatim>\<open>TypeError\<close> when the handle is \<^verbatim>\<open>undefined\<close>. No
  method assigns to a field of the client, so each returns the client it was given.
\<close>

definition guarded :: "EACCClient \<Rightarrow> 'r effect \<Rightarrow> 'r effect \<times> EACCClient" where
  "guarded c body =
     (case checkConnection c of Inl e \<Rightarrow> ((Inl e, []), c) | Inr u \<Rightarrow> (body, c))"

definition onHandle :: "Contract option \<Rightarrow> (Contract \<Rightarrow> 'r effect) \<Rightarrow> 'r effect" where
  "onHandle h f = (case h of None \<Rightarrow> (Inl UndefinedHandle, []) | Some ct \<Rightarrow> f ct)"

definition registerUser ::
  "'r ledger \<Rightarrow> EACCClient \<Rightarrow> RegisterUserParams \<Rightarrow> 'r effect \<times> EACCClient" where
  "registerUser L c params =
     (case params of RegisterUserParams pubkey name bio avatar \<Rightarrow>
        guarded c (onHandle (marketplaceData c)
          (\<lambda>ct. MarketplaceDataV1Contract_registerUser L ct pubkey name bio avatar)))"

definition updateUser ::
  "'r ledger \<Rightarrow> EACCClient \<Rightarrow> UpdateUserParams \<Rightarrow> 'r effect \<times> EACCClient" where
  "updateUser L c params =
     (case params of UpdateUserParams name bio avatar \<Rightarrow>
        guarded c (onHandle (marketplaceData c)
          (\<lambda>ct. MarketplaceDataV1Contract_updateUser L ct name bio avatar)))"

definition getUser :: "'r ledger \<Rightarrow> EACCClient \<Rightarrow> string \<Rightarrow> 'r effect \<times> EACCClient" where
  "getUser L c address =
     (onHandle (marketplaceData c) (\<lambda>ct. MarketplaceDataV1Contract_getUser L ct address), c)"

definition registerArbitrator ::
  "'r ledger \<Rightarrow> EACCClient \<Rightarrow> RegisterArbitratorParams \<Rightarrow> 'r effect \<times> EACCClient" where
  "registerArbitrator L c params =
     (case params of RegisterArbitratorParams pubkey name bio avatar fee \<Rightarrow>
        guarded c (onHandle (marketplaceData c)
          (\<lambda>ct. MarketplaceDataV1Contract_registerArbitrator L ct pubkey name bio avatar fee)))"

definition updateArbitrator ::
  "'r ledger \<Rightarrow> EACCClient \<Rightarrow> UpdateUserParams \<Rightarrow> 'r effect \<times> EACCClient" where
  "updateArbitrator L c params =
     (case params of UpdateUserParams name bio avatar \<Rightarrow>
        guarded c (onHandle (marketplaceData c)
          (\<lambda>ct. MarketplaceDataV1Contract_updateArbitrator L ct name bio avatar)))"

definition getArbitrator :: "'r ledger \<Rightarrow> EACCClient \<Rightarrow> string \<Rightarrow> 'r effect \<times> EACCClient" where
  "getArbitrator L c address =
     (onHandle (marketplaceData c) (\<lambda>ct. MarketplaceDataV1Contract_getArbitrator L ct address), c)"

definition publishJob :: "'r ledger \<Rightarrow> EACCClient \<Rightarrow> PublishJobParams \<Rightarrow> 'r effect \<times> EACCClient" where
  "publishJob L c params =
     guarded c (onHandle (marketplaceV2 c) (\<lambda>ct. MarketplaceV2Contract_publishJobPost L ct params))"

definition updateJob :: "'r ledger \<Rightarrow> EACCClient \<Rightarrow> UpdateJobParams \<Rightarrow> 'r effect \<times> EACCClient" where
  "updateJob L c params =
     guarded c (onHandle (marketplaceV2 c) (\<lambda>ct. MarketplaceV2Contract_updateJobPost L ct params))"

definition getJob :: "'r ledger \<Rightarrow> EACCClient \<Rightarrow> BigNumberish \<Rightarrow> 'r effect \<times> EACCClient" where
  "getJob L c jobId =
     (onHandle (marketplaceV2 c) (\<lambda>ct. MarketplaceV2Contract_getJob L ct jobId), c)"

definition getJobs :: "'r ledger \<Rightarrow> EACCClient \<Rightarrow> int \<Rightarrow> int \<Rightarrow> 'r effect \<times> EACCClient" where
  "getJobs L c index limit =
     (onHandle (marketplaceData c) (\<lambda>ct. MarketplaceDataV1Contract_getJobs L ct index limit), c)"

definition closeJob :: "'r ledger \<Rightarrow> EACCClient \<Rightarrow> BigNumberish \<Rightarrow> 'r effect \<times> EACCClient" where
  "closeJob L c jobId =
     guarded c (onHandle (marketplaceV2 c) (\<lambda>ct. MarketplaceV2Contract_closeJob L ct jobId))"

definition reopenJob :: "'r ledger \<Rightarrow> EACCClient \<Rightarrow> BigNumberish \<Rightarrow> 'r effect \<times> EACCClient" where
  "reopenJob L c jobId =
     guarded c (onHandle (marketplaceV2 c) (\<lambda>ct. MarketplaceV2Contract_reopenJob L ct jobId))"

definition withdrawCollateral ::
  "'r ledger \<Rightarrow> EACCClient \<Rightarrow> BigNumberish \<Rightarrow> 'r effect \<times> EACCClient" where
  "withdrawCollateral L c jobId =
     guarded c (onHandle (marketplaceV2 c)
       (\<lambda>ct. MarketplaceV2Contract_withdrawCollateral L ct jobId))"

definition updateJobWhitelist ::
  "'r ledger \<Rightarrow> EACCClient \<Rightarrow> BigNumberish \<Rightarrow> string list \<Rightarrow> string list
     \<Rightarrow> 'r effect \<times> EACCClient" where
  "updateJobWhitelist L c jobId allowedWorkers disallowedWorkers =
     guarded c (onHandle (marketplaceV2 c)
       (\<lambda>ct. MarketplaceV2Contract_updateJobWhitelist L ct jobId allowedWorkers disallowedWorkers))"

definition takeJob ::
  "'r ledger \<Rightarrow> EACCClient \<Rightarrow> BigNumberish \<Rightarrow> string \<Rightarrow> 'r effect \<times> EACCClient" where
  "takeJob L c jobId signature =
     guarded c (onHandle (marketplaceV2 c)
       (\<lambda>ct. MarketplaceV2Contract_takeJob L ct jobId signature))"

definition payStartJob ::
  "'r ledger \<Rightarrow> EACCClient \<Rightarrow> BigNumberish \<Rightarrow> string \<Rightarrow> BigNumberish option
     \<Rightarrow> 'r effect \<times> EACCClient" where
  "payStartJob L c jobId worker val =
     guarded c (onHandle (marketplaceV2 c)
       (\<lambda>ct. MarketplaceV2Contract_payStartJob L ct jobId worker val))"

definition deliverResult ::
  "'r ledger \<Rightarrow> EACCClient \<Rightarrow> BigNumberish \<Rightarrow> string \<Rightarrow> 'r effect \<times> EACCClient" where
  "deliverResult L c jobId resultHash =
     guarded c (onHandle (marketplaceV2 c)
       (\<lambda>ct. MarketplaceV2Contract_deliverResult L ct jobId resultHash))"

definition approveResult ::
  "'r ledger \<Rightarrow> EACCClient \<Rightarrow> BigNumberish \<Rightarrow> int \<Rightarrow> string \<Rightarrow> 'r effect \<times> EACCClient" where
  "approveResult L c jobId reviewRating reviewText =
     guarded c (onHandle (marketplaceV2 c)
       (\<lambda>ct. MarketplaceV2Contract_approveResult L ct jobId reviewRating reviewText))"

definition refund :: "'r ledger \<Rightarrow> EACCClient \<Rightarrow> BigNumberish \<Rightarrow> 'r effect \<times> EACCClient" where
  "refund L c jobId =
     guarded c (onHandle (marketplaceV2 c) (\<lambda>ct. MarketplaceV2Contract_refund L ct jobId))"

definition review ::
  "'r ledger \<Rightarrow> EACCClient \<Rightarrow> BigNumberish \<Rightarrow> int \<Rightarrow> string \<Rightarrow> 'r effect \<times> EACCClient" where
  "review L c jobId reviewRating reviewText =
     guarded c (onHandle (marketplaceV2 c)
       (\<lambda>ct. MarketplaceV2Contract_review L ct jobId reviewRating reviewText))"

definition dispute ::
  "'r ledger \<Rightarrow> EACCClient \<Rightarrow> BigNumberish \<Rightarrow> string \<Rightarrow> string \<Rightarrow> 'r effect \<times> EACCClient" where
  "dispute L c jobId sessionKey content =
     guarded c (onHandle (marketplaceV2 c)
       (\<lambda>ct. MarketplaceV2Contract_dispute L ct jobId sessionKey content))"

definition arbitrate ::
  "'r ledger \<Rightarrow> EACCClient \<Rightarrow> BigNumberish \<Rightarrow> int \<Rightarrow> int \<Rightarrow> string
     \<Rightarrow> 'r effect \<times> EACCClient" where
  "arbitrate L c jobId buyerShare workerShare reasonHash =
     guarded c (onHandle (marketplaceV2 c)
       (\<lambda>ct. MarketplaceV2Contract_arbitrate L ct jobId buyerShare workerShare reasonHash))"

definition refuseArbitration ::
  "'r ledger \<Rightarrow> EACCClient \<Rightarrow> BigNumberish \<Rightarrow> 'r effect \<times> EACCClient" where
  "refuseArbitration L c jobId =
     guarded c (onHandle (marketplaceV2 c)
       (\<lambda>ct. MarketplaceV2Contract_refuseArbitration L ct jobId))"

definition postMessage ::
  "'r ledger \<Rightarrow> EACCClient \<Rightarrow> BigNumberish \<Rightarrow> string \<Rightarrow> string \<Rightarrow> 'r effect \<times> EACCClient" where
  "postMessage L c jobId contentHash recipient =
     guarded c (onHandle (marketplaceV2 c)
       (\<lambda>ct. MarketplaceV2Contract_postThreadMessage L ct jobId contentHash recipient))"

definition getEvents ::
  "'r ledger \<Rightarrow> EACCClient \<Rightarrow> BigNumberish \<Rightarrow> int \<Rightarrow> int \<Rightarrow> 'r effect \<times> EACCClient" where
  "getEvents L c jobId index limit =
     (onHandle (marketplaceData c)
        (\<lambda>ct. MarketplaceDataV1Contract_getEvents L ct jobId index limit), c)"

definition getEventsLength ::
  "'r ledger \<Rightarrow> EACCClient \<Rightarrow> BigNumberish \<Rightarrow> 'r effect \<times> EACCClient" where
  "getEventsLength L c jobId =
     (onHandle (marketplaceData c) (\<lambda>ct. MarketplaceDataV1Contract_getEventsLength L ct jobId), c)"

definition updateMeceTag ::
  "'r ledger \<Rightarrow> EACCClient \<Rightarrow> string \<Rightarrow> string \<Rightarrow> 'r effect \<times> EACCClient" where
  "updateMeceTag L c shortForm longForm =
     guarded c (onHandle (marketplaceData c)
       (\<lambda>ct. MarketplaceDataV1Contract_updateMeceTag L ct shortForm longForm))"

definition removeMeceTag :: "'r ledger \<Rightarrow> EACCClient \<Rightarrow> string \<Rightarrow> 'r effect \<times> EACCClient" where
  "removeMeceTag L c shortForm =
     guarded c (onHandle (marketplaceData c)
       (\<lambda>ct. MarketplaceDataV1Contract_removeMeceTag L ct shortForm))"

text \<open>
  The two signing methods of the client make no ledger call.
  \<^verbatim>\<open>createJobSignature\<close> passes the hash, a hexadecimal string, to
  \<^verbatim>\<open>signer.signMessage\<close>.
\<close>

definition signMessage :: "EACCClient \<Rightarrow> string \<Rightarrow> error + string" where
  "signMessage c msg =
     (case checkConnection c of
        Inl e \<Rightarrow> Inl e
      | Inr u \<Rightarrow>
          (case getSigner (wallet c) of
             None \<Rightarrow> Inl NoSignerAvailable
           | Some sg \<Rightarrow> CryptoUtils_signMessage sg (Text msg)))"

definition createJobSignature ::
  "digest \<Rightarrow> EACCClient \<Rightarrow> int \<Rightarrow> BigNumberish \<Rightarrow> error + string" where
  "createJobSignature K c eventsLength jobId =
     (case checkConnection c of
        Inl e \<Rightarrow> Inl e
      | Inr u \<Rightarrow>
          (case getSigner (wallet c) of
             None \<Rightarrow> Inl NoSignerAvailable
           | Some sg \<Rightarrow>
               (case createJobSignatureHash K eventsLength jobId of
                  Inl e \<Rightarrow> Inl e
                | Inr messageHash \<Rightarrow> Signer_signMessage sg (Text messageHash))))"

text \<open>The other read accessors of the client; none of them checks the connection.\<close>

definition getUsers :: "'r ledger \<Rightarrow> EACCClient \<Rightarrow> int \<Rightarrow> int \<Rightarrow> 'r effect \<times> EACCClient" where
  "getUsers L c index limit =
     (onHandle (marketplaceData c) (\<lambda>ct. MarketplaceDataV1Contract_getUsers L ct index limit), c)"

definition getUsersLength :: "'r ledger \<Rightarrow> EACCClient \<Rightarrow> 'r effect \<times> EACCClient" where
  "getUsersLength L c =
     (onHandle (marketplaceData c) (\<lambda>ct. MarketplaceDataV1Contract_getUsersLength L ct), c)"

definition isUserRegistered :: "'r ledger \<Rightarrow> EACCClient \<Rightarrow> string \<Rightarrow> 'r effect \<times> EACCClient" where
  "isUserRegistered L c address =
     (onHandle (marketplaceData c)
        (\<lambda>ct. MarketplaceDataV1Contract_isUserRegistered L ct address), c)"

definition getUserRating :: "'r ledger \<Rightarrow> EACCClient \<Rightarrow> string \<Rightarrow> 'r effect \<times> EACCClient" where
  "getUserRating L c address =
     (onHandle (marketplaceData c) (\<lambda>ct. MarketplaceDataV1Contract_getUserRating L ct address), c)"

definition getUserReviews ::
  "'r ledger \<Rightarrow> EACCClient \<Rightarrow> string \<Rightarrow> int \<Rightarrow> int \<Rightarrow> 'r effect \<times> EACCClient" where
  "getUserReviews L c address index limit =
     (onHandle (marketplaceData c)
        (\<lambda>ct. MarketplaceDataV1Contract_getReviews L ct address index limit), c)"

definition getArbitrators ::
  "'r ledger \<Rightarrow> EACCClient \<Rightarrow> int \<Rightarrow> int \<Rightarrow> 'r effect \<times> EACCClient" where
  "getArbitrators L c index limit =
     (onHandle (marketplaceData c)
        (\<lambda>ct. MarketplaceDataV1Contract_getArbitrators L ct index limit), c)"

definition getArbitratorsLength :: "'r ledger \<Rightarrow> EACCClient \<Rightarrow> 'r effect \<times> EACCClient" where
  "getArbitratorsLength L c =
     (onHandle (marketplaceData c) (\<lambda>ct. MarketplaceDataV1Contract_getArbitratorsLength L ct), c)"

definition isArbitratorRegistered ::
  "'r ledger \<Rightarrow> EACCClient \<Rightarrow> string \<Rightarrow> 'r effect \<times> EACCClient" where
  "isArbitratorRegistered L c address =
     (onHandle (marketplaceData c)
        (\<lambda>ct. MarketplaceDataV1Contract_isArbitratorRegistered L ct address), c)"

definition getJobsLength :: "'r ledger \<Rightarrow> EACCClient \<Rightarrow> 'r effect \<times> EACCClient" where
  "getJobsLength L c =
     (onHandle (marketplaceV2 c) (\<lambda>ct. MarketplaceV2Contract_getJobsLength L ct), c)"

definition isWorkerWhitelisted ::
  "'r ledger \<Rightarrow> EACCClient \<Rightarrow> BigNumberish \<Rightarrow> string \<Rightarrow> 'r effect \<times> EACCClient" where
  "isWorkerWhitelisted L c jobId worker =
     (onHandle (marketplaceV2 c)
        (\<lambda>ct. MarketplaceV2Contract_isWorkerWhitelisted L ct jobId worker), c)"

definition readMeceTag :: "'r ledger \<Rightarrow> EACCClient \<Rightarrow> string \<Rightarrow> 'r effect \<times> EACCClient" where
  "readMeceTag L c shortForm =
     (onHandle (marketplaceData c) (\<lambda>ct. MarketplaceDataV1Contract_readMeceTag L ct shortForm), c)"

definition getEACCRewardForToken ::
  "'r ledger \<Rightarrow> EACCClient \<Rightarrow> string \<Rightarrow> 'r effect \<times> EACCClient" where
  "getEACCRewardForToken L c token =
     (onHandle (marketplaceV2 c)
        (\<lambda>ct. MarketplaceV2Contract_getEACCRewardTokensEnabled L ct token), c)"

text \<open>
  \<^verbatim>\<open>getMarketplaceInfo\<close> builds an object from six reads of the marketplace contract,
  awaited one after the other; the first that fails ends it.
\<close>

fun awaitEach :: "'r effect list \<Rightarrow> (error + 'r list) \<times> outbound list" where
  "awaitEach [] = (Inr [], [])"
| "awaitEach ((Inl e, tr) # rest) = (Inl e, tr)"
| "awaitEach ((Inr r, tr) # rest) =
     (case awaitEach rest of
        (Inl e, tr') \<Rightarrow> (Inl e, tr @ tr')
      | (Inr rs, tr') \<Rightarrow> (Inr (r # rs), tr @ tr'))"

definition getMarketplaceInfo ::
  "'r ledger \<Rightarrow> EACCClient \<Rightarrow> ((error + 'r list) \<times> outbound list) \<times> EACCClient" where
  "getMarketplaceInfo L c =
     (awaitEach
        [onHandle (marketplaceV2 c) (MarketplaceV2Contract_getVersion L),
         onHandle (marketplaceV2 c) (MarketplaceV2Contract_getUnicrowAddress L),
         onHandle (marketplaceV2 c) (MarketplaceV2Contract_getTreasuryAddress L),
         onHandle (marketplaceV2 c) (MarketplaceV2Contract_getMarketplaceFee L),
         onHandle (marketplaceV2 c) (MarketplaceV2Contract_getEACCToken L),
         onHandle (marketplaceV2 c) (MarketplaceV2Contract_getEACCTokensPerToken L)], c)"

text \<open>
  The public operations that are one method call on a ledger contract, as one type, so that
  a statement can range over all of them; \<open>perform\<close> calls the method that a request
  names. These are the methods of the client that go to the ledger, all but
  \<^verbatim>\<open>getMarketplaceInfo\<close>.
\<close>

datatype request =
    RegisterUserOp RegisterUserParams
  | UpdateUserOp UpdateUserParams
  | RegisterArbitratorOp RegisterArbitratorParams
  | UpdateArbitratorOp UpdateUserParams
  | PublishJobOp PublishJobParams
  | UpdateJobOp UpdateJobParams
  | CloseJobOp BigNumberish
  | ReopenJobOp BigNumberish
  | WithdrawCollateralOp BigNumberish
  | UpdateJobWhitelistOp BigNumberish "string list" "string list"
  | TakeJobOp BigNumberish string
  | PayStartJobOp BigNumberish string "BigNumberish option"
  | DeliverResultOp BigNumberish string
  | ApproveResultOp BigNumberish int string
  | RefundOp BigNumberish
  | ReviewOp BigNumberish int string
  | DisputeOp BigNumberish string string
  | ArbitrateOp BigNumberish int int string
  | RefuseArbitrationOp BigNumberish
  | PostMessageOp BigNumberish string string
  | UpdateMeceTagOp string string
  | RemoveMeceTagOp string
  | GetJobOp BigNumberish
  | GetJobsOp int int
  | GetUserOp string
  | GetArbitratorOp string
  | GetEventsOp BigNumberish int int
  | GetEventsLengthOp BigNumberish
  | GetUsersOp int int
  | GetUsersLengthOp
  | IsUserRegisteredOp string
  | GetUserRatingOp string
  | GetUserReviewsOp string int int
  | GetArbitratorsOp int int
  | GetArbitratorsLengthOp
  | IsArbitratorRegisteredOp string
  | GetJobsLengthOp
  | IsWorkerWhitelistedOp BigNumberish string
  | ReadMeceTagOp string
  | GetEACCRewardForTokenOp string

fun perform :: "'r ledger \<Rightarrow> EACCClient \<Rightarrow> request \<Rightarrow> 'r effect \<times> EACCClient" where
  "perform L c (RegisterUserOp p) = registerUser L c p"
| "perform L c (UpdateUserOp p) = updateUser L c p"
| "perform L c (RegisterArbitratorOp p) = registerArbitrator L c p"
| "perform L c (UpdateArbitratorOp p) = updateArbitrator L c p"
| "perform L c (PublishJobOp p) = publishJob L c p"
| "perform L c (UpdateJobOp p) = updateJob L c p"
| "perform L c (CloseJobOp j) = closeJob L c j"
| "perform L c (ReopenJobOp j) = reopenJob L c j"
| "perform L c (WithdrawCollateralOp j) = withdrawCollateral L c j"
| "perform L c (UpdateJobWhitelistOp j a d) = updateJobWhitelist L c j a d"
| "perform L c (TakeJobOp j s) = takeJob L c j s"
| "perform L c (PayStartJobOp j w v) = payStartJob L c j w v"
| "perform L c (DeliverResultOp j h) = deliverResult L c j h"
| "perform L c (ApproveResultOp j r t) = approveResult L c j r t"
| "perform L c (RefundOp j) = refund L c j"
| "perform L c (ReviewOp j r t) = review L c j r t"
| "perform L c (DisputeOp j k t) = dispute L c j k t"
| "perform L c (ArbitrateOp j b w h) = arbitrate L c j b w h"
| "perform L c (RefuseArbitrationOp j) = refuseArbitration L c j"
| "perform L c (PostMessageOp j h r) = postMessage L c j h r"
| "perform L c (UpdateMeceTagOp s l) = updateMeceTag L c s l"
| "perform L c (RemoveMeceTagOp s) = removeMeceTag L c s"
| "perform L c (GetJobOp j) = getJob L c j"
| "perform L c (GetJobsOp i l) = getJobs L c i l"
| "perform L c (GetUserOp a) = getUser L c a"
| "perform L c (GetArbitratorOp a) = getArbitrator L c a"
| "perform L c (GetEventsOp j i l) = getEvents L c j i l"
| "perform L c (GetEventsLengthOp j) = getEventsLength L c j"
| "perform L c (GetUsersOp i l) = getUsers L c i l"
| "perform L c GetUsersLengthOp = getUsersLength L c"
| "perform L c (IsUserRegisteredOp a) = isUserRegistered L c a"
| "perform L c (GetUserRatingOp a) = getUserRating L c a"
| "perform L c (GetUserReviewsOp a i l) = getUserReviews L c a i l"
| "perform L c (GetArbitratorsOp i l) = getArbitrators L c i l"
| "perform L c GetArbitratorsLengthOp = getArbitratorsLength L c"
| "perform L c (IsArbitratorRegisteredOp a) = isArbitratorRegistered L c a"
| "perform L c GetJobsLengthOp = getJobsLength L c"
| "perform L c (IsWorkerWhitelistedOp j w) = isWorkerWhitelisted L c j w"
| "perform L c (ReadMeceTagOp s) = readMeceTag L c s"
| "perform L c (GetEACCRewardForTokenOp t) = getEACCRewardForToken L c t"

fun readAccessor :: "request \<Rightarrow> bool" where
  "readAccessor (GetJobOp j) = True"
| "readAccessor (GetJobsOp i l) = True"
| "readAccessor (GetUserOp a) = True"
| "readAccessor (GetArbitratorOp a) = True"
| "readAccessor (GetEventsOp j i l) = True"
| "readAccessor (GetEventsLengthOp j) = True"
| "readAccessor (GetUsersOp i l) = True"
| "readAccessor GetUsersLengthOp = True"
| "readAccessor (IsUserRegisteredOp a) = True"
| "readAccessor (GetUserRatingOp a) = True"
| "readAccessor (GetUserReviewsOp a i l) = True"
| "readAccessor (GetArbitratorsOp i l) = True"
| "readAccessor GetArbitratorsLengthOp = True"
| "readAccessor (IsArbitratorRegisteredOp a) = True"
| "readAccessor GetJobsLengthOp = True"
| "readAccessor (IsWorkerWhitelistedOp j w) = True"
| "readAccessor (ReadMeceTagOp s) = True"
| "readAccessor (GetEACCRewardForTokenOp t) = True"
| "readAccessor r = False"

definition ledgerCalls :: "outbound list \<Rightarrow> call list" where
  "ledgerCalls tr =
     concat (map (\<lambda>ob. case ob of LedgerCall cl \<Rightarrow> [cl] | StoreCall s \<Rightarrow> []
                              | NameLookup n \<Rightarrow> []) tr)"

definition storeCalls :: "outbound list \<Rightarrow> string list" where
  "storeCalls tr =
     concat (map (\<lambda>ob. case ob of LedgerCall cl \<Rightarrow> [] | StoreCall s \<Rightarrow> [s]
                              | NameLookup n \<Rightarrow> []) tr)"

text \<open>
  The one contract call of each operation, read off the method and its wrapper: the
  contract it goes to, the ABI function, and the arguments.
\<close>

datatype contractOf = OnMarketplaceV2 | OnMarketplaceData

fun requestCall :: "request \<Rightarrow> contractOf \<times> string \<times> arg list" where
  "requestCall (RegisterUserOp (RegisterUserParams pubkey name bio avatar)) =
     (OnMarketplaceData, ''registerUser'', [AStr pubkey, AStr name, AStr bio, AStr avatar])"
| "requestCall (UpdateUserOp (UpdateUserParams name bio avatar)) =
     (OnMarketplaceData, ''updateUser'', [AStr name, AStr bio, AStr avatar])"
| "requestCall (RegisterArbitratorOp (RegisterArbitratorParams pubkey name bio avatar fee)) =
     (OnMarketplaceData, ''registerArbitrator'',
      [AStr pubkey, AStr name, AStr bio, AStr avatar, ABig (Number fee)])"
| "requestCall (UpdateArbitratorOp (UpdateUserParams name bio avatar)) =
     (OnMarketplaceData, ''updateArbitrator'', [AStr name, AStr bio, AStr avatar])"
| "requestCall (PublishJobOp (PublishJobParams title contentHash multipleApplicants tags token
      amount maxTime deliveryMethod arbitrator allowedWorkers)) =
     (OnMarketplaceV2, ''publishJobPost'',
      [AStr title, AStr contentHash, ABool multipleApplicants, AStrs tags, AStr token,
       ABig amount, ABig (Number maxTime), AStr deliveryMethod,
       AStr (case arbitrator of None \<Rightarrow> ZERO_ADDRESS | Some a \<Rightarrow> a),
       AStrs (case allowedWorkers of None \<Rightarrow> [] | Some ws \<Rightarrow> ws)])"
| "requestCall (UpdateJobOp (UpdateJobParams jobId title contentHash tags amount maxTime
      arbitrator whitelistWorkers)) =
     (OnMarketplaceV2, ''updateJobPost'',
      [ABig jobId, AStr title, AStr contentHash, AStrs tags, ABig amount, ABig (Number maxTime),
       AStr (case arbitrator of None \<Rightarrow> ZERO_ADDRESS | Some a \<Rightarrow> a),
       ABool whitelistWorkers])"
| "requestCall (CloseJobOp j) = (OnMarketplaceV2, ''closeJob'', [ABig j])"
| "requestCall (ReopenJobOp j) = (OnMarketplaceV2, ''reopenJob'', [ABig j])"
| "requestCall (WithdrawCollateralOp j) = (OnMarketplaceV2, ''withdrawCollateral'', [ABig j])"
| "requestCall (UpdateJobWhitelistOp j a d) =
     (OnMarketplaceV2, ''updateJobWhitelist'', [ABig j, AStrs a, AStrs d])"
| "requestCall (TakeJobOp j s) = (OnMarketplaceV2, ''takeJob'', [ABig j, AStr s])"
| "requestCall (PayStartJobOp j w v) =
     (OnMarketplaceV2, ''payStartJob'', [ABig j, AStr w, AValue v])"
| "requestCall (DeliverResultOp j h) = (OnMarketplaceV2, ''deliverResult'', [ABig j, AStr h])"
| "requestCall (ApproveResultOp j r t) =
     (OnMarketplaceV2, ''approveResult'', [ABig j, ABig (Number r), AStr t])"
| "requestCall (RefundOp j) = (OnMarketplaceV2, ''refund'', [ABig j])"
| "requestCall (ReviewOp j r t) =
     (OnMarketplaceV2, ''review'', [ABig j, ABig (Number r), AStr t])"
| "requestCall (DisputeOp j k t) = (OnMarketplaceV2, ''dispute'', [ABig j, AStr k, AStr t])"
| "requestCall (ArbitrateOp j b w h) =
     (OnMarketplaceV2, ''arbitrate'', [ABig j, ABig (Number b), ABig (Number w), AStr h])"
| "requestCall (RefuseArbitrationOp j) = (OnMarketplaceV2, ''refuseArbitration'', [ABig j])"
| "requestCall (PostMessageOp j h r) =
     (OnMarketplaceV2, ''postThreadMessage'', [ABig j, AStr h, AStr r])"
| "requestCall (UpdateMeceTagOp s l) = (OnMarketplaceData, ''updateMeceTag'', [AStr s, AStr l])"
| "requestCall (RemoveMeceTagOp s) = (OnMarketplaceData, ''removeMeceTag'', [AStr s])"
| "requestCall (GetJobOp j) = (OnMarketplaceV2, ''getJob'', [ABig j])"
| "requestCall (GetJobsOp i l) =
     (OnMarketplaceData, ''getJobs'', [ABig (Number i), ABig (Number l)])"
| "requestCall (GetUserOp a) = (OnMarketplaceData, ''getUser'', [AStr a])"
| "requestCall (GetArbitratorOp a) = (OnMarketplaceData, ''getArbitrator'', [AStr a])"
| "requestCall (GetEventsOp j i l) =
     (OnMarketplaceData, ''getEvents'', [ABig j, ABig (Number i), ABig (Number l)])"
| "requestCall (GetEventsLengthOp j) = (OnMarketplaceData, ''eventsLength'', [ABig j])"
| "requestCall (GetUsersOp i l) =
     (OnMarketplaceData, ''getUsers'', [ABig (Number i), ABig (Number l)])"
| "requestCall GetUsersLengthOp = (OnMarketplaceData, ''usersLength'', [])"
| "requestCall (IsUserRegisteredOp a) = (OnMarketplaceData, ''userRegistered'', [AStr a])"
| "requestCall (GetUserRatingOp a) = (OnMarketplaceData, ''getUserRating'', [AStr a])"
| "requestCall (GetUserReviewsOp a i l) =
     (OnMarketplaceData, ''getReviews'', [AStr a, ABig (Number i), ABig (Number l)])"
| "requestCall (GetArbitratorsOp i l) =
     (OnMarketplaceData, ''getArbitrators'', [ABig (Number i), ABig (Number l)])"
| "requestCall GetArbitratorsLengthOp = (OnMarketplaceData, ''arbitratorsLength'', [])"
| "requestCall (IsArbitratorRegisteredOp a) =
     (OnMarketplaceData, ''arbitratorRegistered'', [AStr a])"
| "requestCall GetJobsLengthOp = (OnMarketplaceV2, ''jobsLength'', [])"
| "requestCall (IsWorkerWhitelistedOp j w) =
     (OnMarketplaceV2, ''whitelistWorkers'', [ABig j, AStr w])"
| "requestCall (ReadMeceTagOp s) = (OnMarketplaceData, ''readMeceTag'', [AStr s])"
| "requestCall (GetEACCRewardForTokenOp t) =
     (OnMarketplaceV2, ''eaccRewardTokensEnabled'', [AStr t])"

definition handleOf :: "EACCClient \<Rightarrow> contractOf \<Rightarrow> Contract option" where
  "handleOf c h = (case h of OnMarketplaceV2 \<Rightarrow> marketplaceV2 c | OnMarketplaceData \<Rightarrow> marketplaceData c)"

definition interfaceOf :: "contractOf \<Rightarrow> interface" where
  "interfaceOf h =
     (case h of OnMarketplaceV2 \<Rightarrow> MARKETPLACE_V2_ABI | OnMarketplaceData \<Rightarrow> MARKETPLACE_DATA_V1_ABI)"

text \<open>
  The arguments fit the inputs of an ABI function when the transaction can be built from
  them and the runner can serialise it; the arguments of a request fit when they fit the
  function that its method calls. A contract resolves when its target yields an address.
\<close>

definition resolves :: "'r ledger \<Rightarrow> Contract \<Rightarrow> bool" where
  "resolves L ct = (case fst (resolveTarget L (target ct)) of Inl e \<Rightarrow> False | Inr a \<Rightarrow> True)"

definition fits :: "'r ledger \<Rightarrow> abitype list \<Rightarrow> arg list \<Rightarrow> bool" where
  "fits L inputs as =
     (case fst (populateTransaction L inputs as) of
        Inl e \<Rightarrow> False
      | Inr None \<Rightarrow> True
      | Inr (Some x) \<Rightarrow> 0 \<le> x)"

definition argumentsFit :: "'r ledger \<Rightarrow> request \<Rightarrow> bool" where
  "argumentsFit L req =
     (case requestCall req of
        (h, f, as) \<Rightarrow>
          (case map_of (interfaceOf h) f of
             None \<Rightarrow> False
           | Some (inputs, m) \<Rightarrow> fits L inputs as))"

section \<open>The job life cycle of the specification\<close>

text \<open>
  The SDK holds no copy of a job, no event fold and no transition function: the life cycle
  is enforced by the ledger contract, whose code is not in the repository. The SDK declares
  the data only: the \<^verbatim>\<open>JobPost\<close> interface of \<^verbatim>\<open>types/index.ts\<close>, here with the
  state as the \<^verbatim>\<open>JobState\<close> enumeration and the amounts as natural numbers.
\<close>

record Roles =
  creator :: string
  worker :: string
  arbitrator :: string

record JobPost =
  state :: JobState
  whitelistWorkers :: bool
  roles :: Roles
  title :: string
  tags :: "string list"
  contentHash :: string
  multipleApplicants :: bool
  amount :: nat
  token :: string
  timestamp :: nat
  maxTime :: nat
  deliveryMethod :: string
  collateralOwed :: nat
  escrowId :: nat
  resultHash :: string
  rating :: nat
  disputed :: bool

text \<open>
  Modelled from the spec: the job of section 3 of the specification, whose fold over
  events has no code in the repository. It is the \<^verbatim>\<open>JobPost\<close> record with the id of the
  job, its whitelist (an event-sourced set of addresses) and the length of its event log.
\<close>

record Job = JobPost +
  jobId :: nat
  whitelist :: "string list"
  eventsLength :: nat

definition ZERO_HASH :: string where
  "ZERO_HASH = ''0x0000000000000000000000000000000000000000000000000000000000000000''"

text \<open>
  Modelled from the spec: the events of the transition table of section 4.1, for which
  the repository has no type of its own, each with its caller and payload. \<open>Take\<close>
  carries the events length that its signature was computed against and the escrow id that
  the ledger assigns; \<open>Refund\<close> carries whether the timeout has elapsed.
\<close>

datatype JobEvent =
    Take string nat nat
  | Deliver string string
  | Approve string nat
  | Refund string bool
  | Dispute string
  | Arbitrate string nat nat
  | RefuseArbitration string
  | Close string
  | Reopen string
  | WhitelistedWorkerAdded string
  | WhitelistedWorkerRemoved string

text \<open>
  Modelled from the spec: the event log is append-only, so every applied event makes it
  one longer. The log itself is not kept in the repository's job record; its length is.
\<close>

definition logged :: "Job \<Rightarrow> Job" where
  "logged j = j\<lparr>eventsLength := Suc (eventsLength j)\<rparr>"

text \<open>
  Modelled from the spec: the transition table of the job life cycle (section 4.1), one
  rule for each row, and one for each of the two whitelist events. The table has no code in
  the repository. A row's precondition is the premise of its rule, its effect the state
  after. An unset worker is the zero address, an undelivered result the zero hash. Of the
  two readings the specification gives for reopening, a closed job with no worker covers
  both, since the table closes a job without completion only from \<open>Open\<close>.
\<close>

inductive transition :: "Job \<Rightarrow> JobEvent \<Rightarrow> Job \<Rightarrow> bool" where
  take:
    "\<lbrakk> state j = Open; caller \<noteq> creator (roles j);
       whitelistWorkers j \<longrightarrow> caller \<in> set (whitelist j);
       signedLength = eventsLength j \<rbrakk>
     \<Longrightarrow> transition j (Take caller signedLength escrow)
           (logged (j\<lparr>state := Taken, roles := (roles j)\<lparr>worker := caller\<rparr>, escrowId := escrow\<rparr>))"
| deliver:
    "\<lbrakk> state j = Taken; caller = worker (roles j) \<rbrakk>
     \<Longrightarrow> transition j (Deliver caller hash) (logged (j\<lparr>resultHash := hash\<rparr>))"
| approve:
    "\<lbrakk> state j = Taken; caller = creator (roles j); resultHash j \<noteq> ZERO_HASH \<rbrakk>
     \<Longrightarrow> transition j (Approve caller stars) (logged (j\<lparr>state := Closed, rating := stars\<rparr>))"
| refund:
    "\<lbrakk> state j = Taken; caller = worker (roles j) \<or> timeoutElapsed \<rbrakk>
     \<Longrightarrow> transition j (Refund caller timeoutElapsed)
           (logged (j\<lparr>state := Open, roles := (roles j)\<lparr>worker := ZERO_ADDRESS\<rparr>,
                      whitelist := removeAll (worker (roles j)) (whitelist j)\<rparr>))"
| dispute:
    "\<lbrakk> state j = Taken; caller = creator (roles j) \<or> caller = worker (roles j) \<rbrakk>
     \<Longrightarrow> transition j (Dispute caller) (logged (j\<lparr>disputed := True\<rparr>))"
| arbitrate:
    "\<lbrakk> state j = Taken; disputed j; caller = arbitrator (roles j) \<rbrakk>
     \<Longrightarrow> transition j (Arbitrate caller buyerShare workerShare)
           (logged (j\<lparr>state := Closed, disputed := False\<rparr>))"
| refuse:
    "\<lbrakk> state j = Taken; disputed j; caller = arbitrator (roles j) \<rbrakk>
     \<Longrightarrow> transition j (RefuseArbitration caller) (logged (j\<lparr>disputed := False\<rparr>))"
| close:
    "\<lbrakk> state j = Open; caller = creator (roles j) \<rbrakk>
     \<Longrightarrow> transition j (Close caller) (logged (j\<lparr>state := Closed\<rparr>))"
| reopen:
    "\<lbrakk> state j = Closed; caller = creator (roles j); worker (roles j) = ZERO_ADDRESS \<rbrakk>
     \<Longrightarrow> transition j (Reopen caller) (logged (j\<lparr>state := Open\<rparr>))"
| whitelistAdd:
    "transition j (WhitelistedWorkerAdded w) (logged (j\<lparr>whitelist := List.insert w (whitelist j)\<rparr>))"
| whitelistRemove:
    "transition j (WhitelistedWorkerRemoved w) (logged (j\<lparr>whitelist := removeAll w (whitelist j)\<rparr>))"

text \<open>
  Modelled from the spec: the replay of an event sequence, which the repository does not
  implement. The derived state of a job is the fold of its event sequence; a sequence is
  valid from a job when every event in it is a transition of the table.
\<close>

inductive replay :: "Job \<Rightarrow> JobEvent list \<Rightarrow> Job \<Rightarrow> bool" where
  replayNil: "replay j [] j"
| replayCons: "\<lbrakk> transition j e j'; replay j' es j'' \<rbrakk> \<Longrightarrow> replay j (e # es) j''"

text \<open>
  Modelled from the spec: one step of the same table as a function, for evaluation; the
  repository has no such function. \<open>None\<close> is an event that the table does not allow.
\<close>

fun applyEvent :: "Job \<Rightarrow> JobEvent \<Rightarrow> Job option" where
  "applyEvent j (Take caller signedLength escrow) =
     (if state j = Open \<and> caller \<noteq> creator (roles j)
         \<and> (if whitelistWorkers j then caller \<in> set (whitelist j) else True)
         \<and> signedLength = eventsLength j
      then Some (logged (j\<lparr>state := Taken, roles := (roles j)\<lparr>worker := caller\<rparr>,
                           escrowId := escrow\<rparr>))
      else None)"
| "applyEvent j (Deliver caller hash) =
     (if state j = Taken \<and> caller = worker (roles j)
      then Some (logged (j\<lparr>resultHash := hash\<rparr>)) else None)"
| "applyEvent j (Approve caller stars) =
     (if state j = Taken \<and> caller = creator (roles j) \<and> resultHash j \<noteq> ZERO_HASH
      then Some (logged (j\<lparr>state := Closed, rating := stars\<rparr>)) else None)"
| "applyEvent j (Refund caller timeoutElapsed) =
     (if state j = Taken \<and> (caller = worker (roles j) \<or> timeoutElapsed)
      then Some (logged (j\<lparr>state := Open, roles := (roles j)\<lparr>worker := ZERO_ADDRESS\<rparr>,
                           whitelist := removeAll (worker (roles j)) (whitelist j)\<rparr>))
      else None)"
| "applyEvent j (Dispute caller) =
     (if state j = Taken \<and> (caller = creator (roles j) \<or> caller = worker (roles j))
      then Some (logged (j\<lparr>disputed := True\<rparr>)) else None)"
| "applyEvent j (Arbitrate caller buyerShare workerShare) =
     (if state j = Taken \<and> disputed j \<and> caller = arbitrator (roles j)
      then Some (logged (j\<lparr>state := Closed, disputed := False\<rparr>)) else None)"
| "applyEvent j (RefuseArbitration caller) =
     (if state j = Taken \<and> disputed j \<and> caller = arbitrator (roles j)
      then Some (logged (j\<lparr>disputed := False\<rparr>)) else None)"
| "applyEvent j (Close caller) =
     (if state j = Open \<and> caller = creator (roles j)
      then Some (logged (j\<lparr>state := Closed\<rparr>)) else None)"
| "applyEvent j (Reopen caller) =
     (if state j = Closed \<and> caller = creator (roles j) \<and> worker (roles j) = ZERO_ADDRESS
      then Some (logged (j\<lparr>state := Open\<rparr>)) else None)"
| "applyEvent j (WhitelistedWorkerAdded w) =
     Some (logged (j\<lparr>whitelist := List.insert w (whitelist j)\<rparr>))"
| "applyEvent j (WhitelistedWorkerRemoved w) =
     Some (logged (j\<lparr>whitelist := removeAll w (whitelist j)\<rparr>))"

text \<open>
  Modelled from the spec: the fold of an event sequence into the derived job, which the
  repository does not implement. \<open>None\<close> is a sequence that is not valid.
\<close>

fun foldEvents :: "Job \<Rightarrow> JobEvent list \<Rightarrow> Job option" where
  "foldEvents j [] = Some j"
| "foldEvents j (e # es) = (case applyEvent j e of None \<Rightarrow> None | Some j' \<Rightarrow> foldEvents j' es)"

section \<open>Sample values for closed examples\<close>

text \<open>
  A signer that returns the hexadecimal form of the bytes it is asked to sign: two
  messages get the same signature from it only if they are the same bytes.
\<close>

definition sampleSigner :: signer where
  "sampleSigner bytes = Inr (hexlify bytes)"

definition sampleProvider :: provider where
  "sampleProvider = \<lparr> rpcUrl = ''https://arbitrum.drpc.org'', providerSigner = Inr sampleSigner \<rparr>"

definition sampleConfig :: EACCClientConfig where
  "sampleConfig =
     \<lparr> marketplaceV2Address = ''0x405AcFbD1400A168fDd4aDA2D214e8Ae5FF7a624'',
       marketplaceDataV1Address = ''0x0191ae69d05F11C7978cCCa2DE15653BaB509d9a'',
       chainId = Some 42161,
       ipfsConfig = None \<rparr>"

text \<open>
  Three clients: the one that \<^verbatim>\<open>new EACCClient(config)\<close> returns, as the examples
  construct it (no provider, not yet connected); the same after \<^verbatim>\<open>connectProvider\<close>;
  and the one that the constructor returns when it is given a bare provider.
\<close>

definition freshClient :: EACCClient where
  "freshClient =
     \<lparr> marketplaceV2 = None, marketplaceData = None, wallet = newWalletConnector,
       ipfs = newIPFSUtils None, config = sampleConfig \<rparr>"

definition connectedClient :: EACCClient where
  "connectedClient = snd (connectProvider freshClient sampleProvider)"

definition readOnlyClient :: EACCClient where
  "readOnlyClient = initializeContracts freshClient (RProvider sampleProvider)"

text \<open>
  Three ledgers. On the first two job 7 is closed and has three events; the first reverts
  every attempt to take a job, the second accepts it. The third is the first with the job
  reported open. None of them resolves a name, and each takes an address for its own
  checksummed form, so that the two contract addresses of the sample configuration pass as
  they are; no example below passes an address as an argument.
\<close>

datatype reply = TxResponse string | JobReply JobState | UintReply nat | Other

definition strictLedger :: "reply ledger" where
  "strictLedger =
     \<lparr> respond = (\<lambda>cl. case cl of Call address f as \<Rightarrow>
         if f = ''getJob'' then Inr (JobReply Closed)
         else if f = ''eventsLength'' then Inr (UintReply 3)
         else if f = ''takeJob'' then Inl (Reverted ''invalid signature or not open'')
         else Inr Other),
       resolveName = (\<lambda>name. None),
       getChecksumAddress = (\<lambda>address. address) \<rparr>"

definition lenientLedger :: "reply ledger" where
  "lenientLedger =
     \<lparr> respond = (\<lambda>cl. case cl of Call address f as \<Rightarrow>
         if f = ''getJob'' then Inr (JobReply Closed)
         else if f = ''eventsLength'' then Inr (UintReply 3)
         else if f = ''takeJob'' then Inr (TxResponse ''0xabc'')
         else Inr Other),
       resolveName = (\<lambda>name. None),
       getChecksumAddress = (\<lambda>address. address) \<rparr>"

definition openJobLedger :: "reply ledger" where
  "openJobLedger =
     \<lparr> respond = (\<lambda>cl. case cl of Call address f as \<Rightarrow>
         if f = ''getJob'' then Inr (JobReply Open)
         else if f = ''eventsLength'' then Inr (UintReply 3)
         else if f = ''takeJob'' then Inl (Reverted ''invalid signature or not open'')
         else Inr Other),
       resolveName = (\<lambda>name. None),
       getChecksumAddress = (\<lambda>address. address) \<rparr>"

definition sampleJob :: Job where
  "sampleJob =
     \<lparr> state = Open, whitelistWorkers = False,
       roles = \<lparr> creator = ''0xC'', worker = ZERO_ADDRESS, arbitrator = ''0xR'' \<rparr>,
       title = ''job'', tags = [''DS''], contentHash = ZERO_HASH, multipleApplicants = True,
       amount = 2, token = ZERO_ADDRESS, timestamp = 0, maxTime = 86400,
       deliveryMethod = ''IPFS'', collateralOwed = 0, escrowId = 0, resultHash = ZERO_HASH,
       rating = 0, disputed = False, jobId = 7, whitelist = [], eventsLength = 0 \<rparr>"

text \<open>
  The scenario of the specification: a worker takes the open job, the creator disputes,
  the arbitrator settles. And the job it leads to.
\<close>

definition scenario :: "JobEvent list" where
  "scenario = [Take ''0xA'' 0 1, Dispute ''0xC'', Arbitrate ''0xR'' 50 50]"

definition scenarioResult :: Job where
  "scenarioResult =
     sampleJob\<lparr> state := Closed,
                roles := \<lparr> creator = ''0xC'', worker = ''0xA'', arbitrator = ''0xR'' \<rparr>,
                escrowId := 1, eventsLength := 3 \<rparr>"

section \<open>Facts about the encodings\<close>

lemma digitValue_HexCharacters:
  assumes "(k::nat) < 16"
  shows "digitValue (HexCharacters ! k) = Some k"
proof -
  from assms have "k \<in> set [0..<16]" by simp
  then consider "k = 0" | "k = 1" | "k = 2" | "k = 3" | "k = 4" | "k = 5" | "k = 6" | "k = 7"
    | "k = 8" | "k = 9" | "k = 10" | "k = 11" | "k = 12" | "k = 13" | "k = 14" | "k = 15"
    unfolding upt_conv_Cons_Cons by (auto simp: upt_rec)
  then show ?thesis
    by cases (simp_all add: digitValue_def HexCharacters_def)
qed

lemma unat_byte_less: "unat (b :: byte) < 256"
  using unsigned_less [of b, where ?'a = nat] by simp

lemma parseDigits_hexByte:
  "parseDigits 16 acc (hexByte b @ cs) = parseDigits 16 (acc * 256 + unat b) cs"
proof -
  have lt: "unat b < 256" by (rule unat_byte_less)
  then have d1: "unat b div 16 < 16" by arith
  have d2: "unat b mod 16 < 16" by simp
  have eq: "(acc * 16 + unat b div 16) * 16 + unat b mod 16 = acc * 256 + unat b"
    by arith
  have "parseDigits 16 acc (hexByte b @ cs)
      = parseDigits 16 ((acc * 16 + unat b div 16) * 16 + unat b mod 16) cs"
    using d1 d2 by (simp add: hexByte_def digitValue_HexCharacters)
  then show ?thesis by (simp only: eq)
qed

lemma parseDigits_hex:
  "parseDigits 16 acc (concat (map hexByte bs)) = Some (foldl (\<lambda>a b. a * 256 + unat b) acc bs)"
  by (induction bs arbitrary: acc) (simp_all add: parseDigits_hexByte)

lemma beValue_snoc: "beValue (bs @ [b]) = beValue bs * 256 + unat b"
  by (simp add: beValue_def)

lemma beValue_zero_iff: "beValue bs = 0 \<longleftrightarrow> (\<forall>b \<in> set bs. b = 0)"
  by (induction bs rule: rev_induct) (auto simp: beValue_snoc beValue_def unat_eq_0)

lemma toBeBytes_beValue: "toBeBytes (beValue bs) = dropWhile (\<lambda>b. b = 0) bs"
proof (induction bs rule: rev_induct)
  case Nil
  show ?case by (simp add: beValue_def toBeBytes.simps)
next
  case (snoc b bs)
  have lt: "unat b < 256" by (rule unat_byte_less)
  show ?case
  proof (cases "beValue (bs @ [b]) = 0")
    case True
    then have "\<forall>x \<in> set (bs @ [b]). x = 0" by (simp only: beValue_zero_iff)
    then have "dropWhile (\<lambda>b. b = 0) (bs @ [b]) = []" by (simp only: dropWhile_eq_Nil_conv)
    with True show ?thesis by (simp add: toBeBytes.simps)
  next
    case False
    have dv: "(beValue bs * 256 + unat b) div 256 = beValue bs" using lt by simp
    have md: "(beValue bs * 256 + unat b) mod 256 = unat b" using lt by simp
    have step: "toBeBytes (beValue (bs @ [b])) = toBeBytes (beValue bs) @ [b]"
      using False
      by (subst toBeBytes.simps) (simp add: beValue_snoc dv md del: mod_mult_self3 div_mult_self3)
    show ?thesis
    proof (cases "\<forall>x \<in> set bs. x = 0")
      case True
      with False have "b \<noteq> 0" by (auto simp: beValue_zero_iff)
      moreover from True have "dropWhile (\<lambda>b. b = 0) bs = []"
        by (simp only: dropWhile_eq_Nil_conv)
      ultimately show ?thesis using True step snoc by (simp add: dropWhile_append)
    next
      case False
      then show ?thesis using step snoc by (auto simp add: dropWhile_append)
    qed
  qed
qed

lemma hexByte_not_Nil: "hexByte b \<noteq> []"
  by (simp add: hexByte_def)

lemma white_space_no_digit: "isStrWhiteSpace c \<Longrightarrow> digitValue c = None"
  by (auto simp: isStrWhiteSpace_def digitValue_def Let_def)

lemma trimString_id:
  assumes "\<forall>c \<in> set s. \<not> isStrWhiteSpace c"
  shows "trimString s = s"
proof -
  have dw: "dropWhile P xs = xs" if "\<forall>x \<in> set xs. \<not> P x" for P and xs :: "'a list"
    using that by (cases xs) simp_all
  have "dropWhile isStrWhiteSpace s = s" using assms by (rule dw)
  moreover have "dropWhile isStrWhiteSpace (rev s) = rev s" using assms by (intro dw) simp
  ultimately show ?thesis by (simp add: trimString_def)
qed

lemma hexByte_no_white: "c \<in> set (hexByte b) \<Longrightarrow> \<not> isStrWhiteSpace c"
proof -
  assume c: "c \<in> set (hexByte b)"
  have lt: "unat b < 256" by (rule unat_byte_less)
  then have d1: "unat b div 16 < 16" by arith
  have d2: "unat b mod 16 < 16" by simp
  from c have "c = HexCharacters ! (unat b div 16) \<or> c = HexCharacters ! (unat b mod 16)"
    by (auto simp: hexByte_def)
  then have "digitValue c \<noteq> None"
    using digitValue_HexCharacters [OF d1] digitValue_HexCharacters [OF d2] by auto
  then show ?thesis by (auto dest: white_space_no_digit)
qed

lemma trimString_hexlify: "trimString (hexlify bs) = hexlify bs"
proof (rule trimString_id, rule ballI)
  fix c
  assume "c \<in> set (hexlify bs)"
  then have "c = CHR ''0'' \<or> c = CHR ''x'' \<or> (\<exists>b \<in> set bs. c \<in> set (hexByte b))"
    by (auto simp: hexlify_def)
  then show "\<not> isStrWhiteSpace c"
    using hexByte_no_white by (auto simp: isStrWhiteSpace_def)
qed

lemma parseBigInt_hexlify:
  "parseBigInt (hexlify bs) = (if bs = [] then None else Some (int (beValue bs)))"
proof (cases "bs = []")
  case True
  have t: "trimString ''0x'' = ''0x''"
    using trimString_hexlify [of "[]"] by (simp add: hexlify_def)
  show ?thesis
    by (simp add: True parseBigInt_def hexlify_def t digitsOf_def)
next
  case False
  then have ne: "concat (map hexByte bs) \<noteq> []"
    by (cases bs) (simp_all add: hexByte_not_Nil)
  have "parseDigits 16 0 (concat (map hexByte bs)) = Some (beValue bs)"
    unfolding beValue_def by (rule parseDigits_hex)
  with ne have "digitsOf 16 (concat (map hexByte bs)) = Some (beValue bs)"
    by (simp add: digitsOf_def)
  moreover have "hexlify bs \<noteq> []" "take 2 (hexlify bs) = ''0x''"
    "drop 2 (hexlify bs) = concat (map hexByte bs)"
    by (simp_all add: hexlify_def)
  ultimately show ?thesis using False
    by (simp add: parseBigInt_def trimString_hexlify)
qed

lemma getBigInt_hexlify:
  "getBigInt (Str (hexlify bs)) =
     (if bs = [] then Inl (InvalidArgument ''invalid BigNumberish string'')
      else Inr (int (beValue bs)))"
proof -
  have "hexlify bs \<noteq> []" "hd (hexlify bs) = CHR ''0''" by (simp_all add: hexlify_def)
  then show ?thesis by (simp add: getBigInt_def parseBigInt_hexlify)
qed

lemma toBeArray_hexlify:
  "toBeArray (Str (hexlify bs)) =
     (if bs = [] then Inl (InvalidArgument ''invalid BigNumberish string'')
      else Inr (dropWhile (\<lambda>b. b = 0) bs))"
  by (simp add: toBeArray_def getUint_def getBigInt_hexlify toBeBytes_beValue)

lemma length_toBeBytes: "n < 256 ^ k \<Longrightarrow> length (toBeBytes n) \<le> k"
proof (induction k arbitrary: n)
  case 0
  then show ?case by (simp add: toBeBytes.simps)
next
  case (Suc k)
  show ?case
  proof (cases "n = 0")
    case True
    then show ?thesis by (simp add: toBeBytes.simps)
  next
    case False
    from Suc.prems have "n div 256 < 256 ^ k" by (simp add: less_mult_imp_div_less mult.commute)
    then have "length (toBeBytes (n div 256)) \<le> k" by (rule Suc.IH)
    with False show ?thesis by (subst toBeBytes.simps) simp
  qed
qed

lemma length_toBeBytes_lower: "256 ^ k \<le> n \<Longrightarrow> k < length (toBeBytes n)"
proof (induction k arbitrary: n)
  case 0
  then have "n \<noteq> 0" by simp
  then show ?case by (subst toBeBytes.simps) simp
next
  case (Suc k)
  have "(0::nat) < 256 ^ Suc k" by simp
  with Suc.prems have nz: "n \<noteq> 0" by linarith
  from Suc.prems have "256 ^ k \<le> n div 256" by (simp add: less_eq_div_iff_mult_less_eq mult.commute)
  then have "k < length (toBeBytes (n div 256))" by (rule Suc.IH)
  with nz show ?case by (subst toBeBytes.simps) simp
qed

lemma beFixed_zero: "beFixed k 0 = replicate k 0"
  by (induction k) (simp_all add: replicate_append_same)

lemma zeroPad_toBeBytes:
  "n < 256 ^ k \<Longrightarrow> replicate (k - length (toBeBytes n)) 0 @ toBeBytes n = beFixed k n"
proof (induction k arbitrary: n)
  case 0
  then show ?case by (simp add: toBeBytes.simps)
next
  case (Suc k)
  show ?case
  proof (cases "n = 0")
    case True
    then show ?thesis using beFixed_zero [of "Suc k"] by (simp add: toBeBytes.simps)
  next
    case False
    from Suc.prems have lt: "n div 256 < 256 ^ k" by (simp add: less_mult_imp_div_less mult.commute)
    have len: "length (toBeBytes (n div 256)) \<le> k" using lt by (rule length_toBeBytes)
    have unf: "toBeBytes n = toBeBytes (n div 256) @ [word_of_nat (n mod 256)]"
      using False by (subst toBeBytes.simps) simp
    show ?thesis using Suc.IH [OF lt] len by (simp add: unf Suc_diff_le)
  qed
qed

lemma length_beFixed: "length (beFixed k n) = k"
  by (induction k arbitrary: n) simp_all

lemma pack_uint256:
  "pack uint256 v =
     (case getUint v of
        Inl e \<Rightarrow> Inl e
      | Inr n \<Rightarrow> if n < 2 ^ 256 then Inr (abi_uint256 n) else Inl BufferOverrun)"
proof (cases "getUint v")
  case (Inl e)
  then show ?thesis by (simp add: toBeArray_def)
next
  case (Inr n)
  show ?thesis
  proof (cases "n < 2 ^ 256")
    case True
    then have lt: "n < 256 ^ 32" by simp
    have "length (toBeBytes n) \<le> 32" using lt by (rule length_toBeBytes)
    then show ?thesis
      using Inr True zeroPad_toBeBytes [OF lt]
      by (simp add: toBeArray_def zeroPadValue_def abi_uint256_def)
  next
    case False
    then have "(256::nat) ^ 32 \<le> n" by simp
    then have "32 < length (toBeBytes n)" by (rule length_toBeBytes_lower)
    then show ?thesis using Inr False by (simp add: toBeArray_def zeroPadValue_def)
  qed
qed

lemma getUint_Number:
  "getUint (Number n) =
     (if n < - maxValue \<or> maxValue < n then Inl (InvalidArgument ''overflow'')
      else if n < 0 then Inl (NumericFault ''unsigned value cannot be negative'')
      else Inr (nat n))"
  by (auto simp: getUint_def getBigInt_def)

lemma solidityPacked_uint256_pair:
  "solidityPacked [uint256, uint256] [a, b] =
     (case pack uint256 a of
        Inl e \<Rightarrow> Inl e
      | Inr x \<Rightarrow> (case pack uint256 b of Inl e \<Rightarrow> Inl e | Inr y \<Rightarrow> Inr (x @ y)))"
  by (simp add: solidityPacked_def split: sum.splits)

section \<open>The payload signed to take a job\<close>

lemma createJobSignatureHash_value:
  assumes "0 \<le> len" and "len \<le> maxValue"
    and "getUint job = Inr j" and "j < 2 ^ 256"
  shows "createJobSignatureHash K len job =
           Inr (keccak256 K (abi_uint256 (nat len) @ abi_uint256 j))"
proof -
  have "maxValue < 2 ^ 256" by (simp add: maxValue_def)
  with assms(2) have "len < 2 ^ 256" by linarith
  with assms(1) have small: "nat len < 2 ^ 256"
    by (simp add: nat_less_iff)
  have mv: "0 \<le> maxValue" by (simp add: maxValue_def)
  have e: "pack uint256 (Number len) = Inr (abi_uint256 (nat len))"
    using assms(1,2) small mv by (simp only: pack_uint256 getUint_Number) simp
  have j: "pack uint256 job = Inr (abi_uint256 j)"
    using assms(3,4) by (simp only: pack_uint256) simp
  show ?thesis
    by (simp only: createJobSignatureHash_def solidityPackedKeccak256_def
        solidityPacked_uint256_pair e j sum.case)
qed

text \<open>
  The hash that \<^verbatim>\<open>take-job.ts\<close> computes inline is the same one, for an events length
  within the safe integers.
\<close>

lemma takeJobExample_messageHash_same:
  assumes "- maxValue \<le> len" and "len \<le> maxValue"
  shows "takeJobExample_messageHash K len job = createJobSignatureHash K len job"
proof -
  have "getUint (BigInt len) = getUint (Number len)"
    using assms by (simp add: getUint_def getBigInt_def)
  then have "pack uint256 (BigInt len) = pack uint256 (Number len)"
    by (simp add: toBeArray_def)
  then show ?thesis
    by (simp add: takeJobExample_messageHash_def createJobSignatureHash_def
        solidityPackedKeccak256_def solidityPacked_uint256_pair)
qed

text \<open>
  Claim C1. For an events length that is a non-negative safe integer and a job id that reads
  as an unsigned number below \<open>2 ^ 256\<close>, \<^verbatim>\<open>createJobSignatureHash\<close> returns
  the Keccak-256 digest of the 64 bytes made of the \<^verbatim>\<open>uint256\<close> encoding of the events
  length followed by the \<^verbatim>\<open>uint256\<close> encoding of the job id.
\<close>

theorem createJobSignatureHash_packed_keccak:
  assumes "0 \<le> len" and "len \<le> maxValue"
    and "getUint job = Inr j" and "j < 2 ^ 256"
  shows "createJobSignatureHash K len job =
           Inr (keccak256 K (abi_uint256 (nat len) @ abi_uint256 j))"
  using assms by (rule createJobSignatureHash_value)

theorem createJobSignatureHash_packed_keccak_witness:
  "(0::int) \<le> 3 \<and> 3 \<le> maxValue \<and> getUint (BigInt 545) = Inr 545 \<and> (545::nat) < 2 ^ 256 \<and>
   createJobSignatureHash sampleDigest 3 (BigInt 545) =
     Inr (keccak256 sampleDigest (abi_uint256 3 @ abi_uint256 545))"
proof -
  have h1: "(0::int) \<le> 3" by simp
  have h2: "3 \<le> maxValue" by (simp add: maxValue_def)
  have h3: "getUint (BigInt 545) = Inr 545" by (simp add: getUint_def getBigInt_def)
  have h4: "(545::nat) < 2 ^ 256" by simp
  show ?thesis
    using h1 h2 h3 h4 createJobSignatureHash_packed_keccak [OF h1 h2 h3 h4, of sampleDigest]
    by simp
qed

section \<open>The two ways of signing the job hash\<close>

lemma length_concat_hexByte: "length (concat (map hexByte bs)) = 2 * length bs"
  by (induction bs) (simp_all add: hexByte_def)

lemma length_hexlify: "length (hexlify bs) = 2 + 2 * length bs"
  by (simp add: hexlify_def length_concat_hexByte)

lemma length_toUtf8Bytes: "length (toUtf8Bytes s) = length s"
  by (simp add: toUtf8Bytes_def)

lemma createJobSignatureHash_is_hex:
  assumes "createJobSignatureHash K len job = Inr hash"
  shows "\<exists>packed. hash = hexlify (K packed)"
  using assms
  by (auto simp: createJobSignatureHash_def solidityPackedKeccak256_def keccak256_def
      split: sum.splits)

lemma toBeArray_hex_shorter:
  assumes "toBeArray (Str (hexlify bs)) = Inr arr"
  shows "length arr < length (toUtf8Bytes (hexlify bs))"
proof -
  from assms have "arr = dropWhile (\<lambda>b. b = 0) bs"
    by (simp add: toBeArray_hexlify split: if_splits)
  then have "length arr \<le> length bs" by (simp add: length_dropWhile_le)
  then show ?thesis by (simp add: length_toUtf8Bytes length_hexlify)
qed

text \<open>
  The message that \<^verbatim>\<open>createJobSignatureMessage\<close> hashes is the byte array that
  \<^verbatim>\<open>signJobTaking\<close> signs.
\<close>

lemma createJobSignatureMessage_bytes:
  assumes "createJobSignatureHash K len job = Inr hash" and "toBeArray (Str hash) = Inr arr"
  shows "createJobSignatureMessage K len job = Inr (hashMessage K (Bytes arr))"
    and "signJobTaking K sg len job = CryptoUtils_signMessage sg (Bytes arr)"
  using assms by (simp_all add: createJobSignatureMessage_def signJobTaking_def)

text \<open>
  Claim C3 says that \<^verbatim>\<open>EACCClient.createJobSignature\<close> and
  \<^verbatim>\<open>CryptoUtils.signJobTaking\<close> produce the same signature for the same signer, events
  length and job id. They do not sign the same bytes. With the signer of the wallet and the
  job hash \<open>hash\<close> (a hexadecimal string), the client hands the signer the characters of
  the string, \<open>toUtf8Bytes hash\<close>; \<^verbatim>\<open>signJobTaking\<close> hands it
  \<^verbatim>\<open>toBeArray(hash)\<close>, the digest bytes themselves, as does
  \<^verbatim>\<open>createJobSignatureMessage\<close>. The second message is always shorter than the first,
  so the two are different for every digest function, events length and job id.
\<close>

theorem job_signature_paths_sign_different_bytes:
  assumes "getSigner (wallet c) = Some sg"
    and "createJobSignatureHash K len job = Inr hash"
  shows "createJobSignature K c len job = sg (toUtf8Bytes hash) \<and>
         (\<forall>arr. toBeArray (Str hash) = Inr arr \<longrightarrow>
            signJobTaking K sg len job = CryptoUtils_signMessage sg (Bytes arr) \<and>
            CryptoUtils_signMessage sg (Bytes arr) =
              (case sg arr of Inl e \<Rightarrow> Inl (FailedToSign e) | Inr s \<Rightarrow> Inr s) \<and>
            length arr < length (toUtf8Bytes hash))"
proof -
  have client: "createJobSignature K c len job = sg (toUtf8Bytes hash)"
    using assms
    by (simp add: createJobSignature_def checkConnection_def Signer_signMessage_def
        messageBytes_def)
  obtain packed where hex: "hash = hexlify (K packed)"
    using createJobSignatureHash_is_hex [OF assms(2)] by blast
  have other: "signJobTaking K sg len job = CryptoUtils_signMessage sg (Bytes arr)"
    if "toBeArray (Str hash) = Inr arr" for arr
    using that assms(2) by (simp add: signJobTaking_def)
  have unfolded: "CryptoUtils_signMessage sg (Bytes arr) =
      (case sg arr of Inl e \<Rightarrow> Inl (FailedToSign e) | Inr s \<Rightarrow> Inr s)" for arr
    by (simp add: CryptoUtils_signMessage_def Signer_signMessage_def messageBytes_def)
  have shorter: "length arr < length (toUtf8Bytes hash)"
    if "toBeArray (Str hash) = Inr arr" for arr
    using that unfolding hex by (rule toBeArray_hex_shorter)
  show ?thesis using client other unfolded shorter by blast
qed

lemma sample_packed:
  "sampleDigest (abi_uint256 (nat 3) @ abi_uint256 545) = 128 # replicate 30 128 @ [38]"
  by code_simp

lemma sample_hash:
  "createJobSignatureHash sampleDigest 3 (BigInt 545)
     = Inr (hexlify (128 # replicate 30 128 @ [38]))"
proof -
  have h1: "(0::int) \<le> 3" by simp
  have h2: "3 \<le> maxValue" by (simp add: maxValue_def)
  have h3: "getUint (BigInt 545) = Inr 545" by (simp add: getUint_def getBigInt_def)
  have h4: "(545::nat) < 2 ^ 256" by simp
  show ?thesis
    using createJobSignatureHash_value [OF h1 h2 h3 h4, of sampleDigest]
    by (simp only: keccak256_def sample_packed)
qed

lemma connectedClient_signer: "getSigner (wallet connectedClient) = Some sampleSigner"
  by (simp add: connectedClient_def freshClient_def newEACCClient_def sampleConfig_def
      connectProvider_def WalletConnector_connectWithProvider_def sampleProvider_def
      isNetworkSupported_def SUPPORTED_NETWORKS_def NETWORK_ADDRESSES_def
      initializeContracts_def getSigner_def newWalletConnector_def)

theorem job_signature_paths_sign_different_bytes_witness:
  "getSigner (wallet connectedClient) = Some sampleSigner \<and>
   createJobSignatureHash sampleDigest 3 (BigInt 545)
     = Inr (hexlify (128 # replicate 30 128 @ [38])) \<and>
   toBeArray (Str (hexlify (128 # replicate 30 128 @ [38]))) = Inr (128 # replicate 30 128 @ [38]) \<and>
   createJobSignature sampleDigest connectedClient 3 (BigInt 545)
     = Inr (hexlify (toUtf8Bytes (hexlify (128 # replicate 30 128 @ [38])))) \<and>
   signJobTaking sampleDigest sampleSigner 3 (BigInt 545)
     = Inr (hexlify (128 # replicate 30 128 @ [38])) \<and>
   createJobSignature sampleDigest connectedClient 3 (BigInt 545)
     \<noteq> signJobTaking sampleDigest sampleSigner 3 (BigInt 545)"
proof -
  let ?d = "128 # replicate 30 128 @ [38 :: byte]"
  have arr: "toBeArray (Str (hexlify ?d)) = Inr ?d"
    by (simp add: toBeArray_hexlify)
  note inst = job_signature_paths_sign_different_bytes
    [OF connectedClient_signer sample_hash]
  from inst have a: "createJobSignature sampleDigest connectedClient 3 (BigInt 545)
     = Inr (hexlify (toUtf8Bytes (hexlify ?d)))"
    by (simp add: sampleSigner_def)
  from inst arr have b: "signJobTaking sampleDigest sampleSigner 3 (BigInt 545)
     = Inr (hexlify ?d)"
    by (simp add: sampleSigner_def)
  have "length (hexlify (toUtf8Bytes (hexlify ?d))) \<noteq> length (hexlify ?d)"
    by (simp add: length_hexlify length_toUtf8Bytes)
  then have "hexlify (toUtf8Bytes (hexlify ?d)) \<noteq> hexlify ?d"
    by metis
  with a b arr connectedClient_signer sample_hash show ?thesis by simp
qed

section \<open>The XOR cipher\<close>

lemma toBeArray_bare_prefix: "toBeArray (Str ''0x'') = Inl (InvalidArgument ''invalid BigNumberish string'')"
  using toBeArray_hexlify [of "[]"] by (simp add: hexlify_def)

lemma toBeArray_zero_byte: "toBeArray (Str ''0x00'') = Inr []"
proof -
  have "hexlify [0] = ''0x00''" by (simp add: hexlify_def hexByte_def HexCharacters_def)
  then show ?thesis using toBeArray_hexlify [of "[0]"] by simp
qed

lemma xorWithKey_Nil: "xorWithKey [] keyBytes = []"
  by (simp add: xorWithKey_def)

lemma xorWithKey_single: "xorWithKey [k] (k # ks) = [0]"
  by (simp add: xorWithKey_def)

lemma toUtf8String_Nil: "toUtf8String [] = Inr []"
  by (simp add: toUtf8String_def)

text \<open>
  Claim C10 says that \<^verbatim>\<open>simpleDecrypt(simpleEncrypt(data, key), key) = data\<close> for every
  string and key. \<^verbatim>\<open>simpleDecrypt\<close> reads the cipher text with \<^verbatim>\<open>toBeArray\<close>, that
  is as a number, and a number has no leading zero bytes and no empty form. So, for every
  digest function and every key with key bytes \<open>k # ks\<close>: the empty string encrypts to
  \<^verbatim>\<open>0x\<close>, which \<^verbatim>\<open>simpleDecrypt\<close> rejects; and a one-character string whose byte
  is \<open>k\<close> encrypts to \<^verbatim>\<open>0x00\<close>, which decrypts to the empty string.
\<close>

theorem simple_cipher_round_trip_fails:
  assumes "toBeArray (Str (CryptoUtils_keccak256 K key)) = Inr (k # ks)"
  shows "simpleEncrypt K [] key = Inr ''0x'' \<and>
         encryptThenDecrypt K [] key = Inl (InvalidArgument ''invalid BigNumberish string'') \<and>
         (toUtf8Bytes [c] = [k] \<longrightarrow>
            simpleEncrypt K [c] key = Inr ''0x00'' \<and> encryptThenDecrypt K [c] key = Inr [])"
proof -
  have enc0: "simpleEncrypt K [] key = Inr ''0x''"
    using assms by (simp add: simpleEncrypt_def toUtf8Bytes_def xorWithKey_Nil hexlify_def)
  have dec0: "simpleDecrypt K ''0x'' key = Inl (InvalidArgument ''invalid BigNumberish string'')"
    by (simp add: simpleDecrypt_def toBeArray_bare_prefix)
  have enc1: "simpleEncrypt K [c] key = Inr ''0x00''" if "toUtf8Bytes [c] = [k]"
    using assms that
    by (simp add: simpleEncrypt_def xorWithKey_single hexlify_def hexByte_def HexCharacters_def)
  have dec1: "simpleDecrypt K ''0x00'' key = Inr []"
    using assms
    by (simp add: simpleDecrypt_def toBeArray_zero_byte xorWithKey_Nil toUtf8String_Nil)
  show ?thesis
    using enc0 dec0 enc1 dec1 by (simp add: encryptThenDecrypt_def)
qed

lemma sample_key_digest:
  "sampleDigest (toUtf8Bytes ''secret'') = 70 # replicate 30 70 @ [134]"
  by code_simp

lemma sample_key_bytes:
  "toBeArray (Str (CryptoUtils_keccak256 sampleDigest ''secret''))
     = Inr (70 # replicate 30 70 @ [134])"
  by (simp add: CryptoUtils_keccak256_def keccak256_def toBeArray_hexlify sample_key_digest)

theorem simple_cipher_round_trip_fails_witness:
  "toBeArray (Str (CryptoUtils_keccak256 sampleDigest ''secret''))
     = Inr (70 # replicate 30 70 @ [134]) \<and>
   toUtf8Bytes ''F'' = [70] \<and>
   simpleEncrypt sampleDigest '''' ''secret'' = Inr ''0x'' \<and>
   encryptThenDecrypt sampleDigest '''' ''secret''
     = Inl (InvalidArgument ''invalid BigNumberish string'') \<and>
   simpleEncrypt sampleDigest ''F'' ''secret'' = Inr ''0x00'' \<and>
   encryptThenDecrypt sampleDigest ''F'' ''secret'' = Inr '''' \<and>
   encryptThenDecrypt sampleDigest ''F'' ''secret'' \<noteq> Inr ''F''"
proof -
  have b: "toUtf8Bytes ''F'' = [70]" by (simp add: toUtf8Bytes_def)
  show ?thesis
    using sample_key_bytes b
      simple_cipher_round_trip_fails [OF sample_key_bytes, of "CHR ''F''"]
    by simp
qed

section \<open>Content hashes as bytes32\<close>

lemma word_of_hex_digits: "word_of_nat (unat b div 16 * 16 + unat b mod 16) = (b :: byte)"
  by simp

lemma parseHexPairs_hexByte:
  "parseHexPairs (hexByte b @ cs) =
     (case parseHexPairs cs of None \<Rightarrow> None | Some bs \<Rightarrow> Some (b # bs))"
proof -
  have lt: "unat b < 256" by (rule unat_byte_less)
  then have d1: "unat b div 16 < 16" by arith
  have d2: "unat b mod 16 < 16" by simp
  show ?thesis
    using d1 d2
    by (simp add: hexByte_def digitValue_HexCharacters word_of_hex_digits
        del: of_nat_add of_nat_mult split: option.splits)
qed

lemma parseHexPairs_hex: "parseHexPairs (concat (map hexByte bs)) = Some bs"
  by (induction bs) (simp_all add: parseHexPairs_hexByte)

lemma getBytes_hexlify: "getBytes (hexlify bs) = Inr bs"
  by (simp add: getBytes_def hexlify_def parseHexPairs_hex)

lemma char_of_toUtf8Bytes: "map (\<lambda>b. char_of (unat b)) (toUtf8Bytes s) = s"
proof -
  have "char_of (unat (word_of_nat (of_char c) :: byte)) = c" for c
    by (simp add: unat_of_nat)
  then show ?thesis by (simp add: toUtf8Bytes_def comp_def)
qed

lemma rev_dropWhile_padding:
  assumes "\<forall>b \<in> set bs. b \<noteq> (0 :: byte)"
  shows "rev (dropWhile (\<lambda>b. b = 0) (rev (bs @ replicate n 0))) = bs"
proof -
  have "dropWhile (\<lambda>b. b = 0) (replicate n (0 :: byte) @ rev bs) = dropWhile (\<lambda>b. b = 0) (rev bs)"
    by (induction n) simp_all
  moreover have "dropWhile (\<lambda>b. b = 0) (rev bs) = rev bs"
    using assms by (cases "rev bs") auto
  ultimately show ?thesis by simp
qed

lemma decode_encode_bytes32:
  assumes "length s \<le> 31"
    and "\<forall>c \<in> set s. 0 < (of_char c :: nat) \<and> (of_char c :: nat) < 128"
  shows "\<exists>enc. encodeBytes32String s = Inr enc \<and> decodeBytes32String enc = Inr s"
proof -
  let ?bs = "toUtf8Bytes s"
  let ?data = "?bs @ replicate (32 - length s) 0"
  have len: "length ?bs = length s" by (simp add: toUtf8Bytes_def)
  have enc: "encodeBytes32String s = Inr (hexlify ?data)"
    using assms(1) by (simp add: encodeBytes32String_def zeroPadBytes_def len Let_def)
  have un: "unat (word_of_nat (of_char c) :: byte) = of_char c" for c
    by (simp add: unat_of_nat)
  have nz: "\<forall>b \<in> set ?bs. b \<noteq> 0"
  proof
    fix b assume "b \<in> set ?bs"
    then obtain c where c: "c \<in> set s" "b = word_of_nat (of_char c)"
      by (auto simp: toUtf8Bytes_def)
    then have "unat b = of_char c" by (simp add: un)
    with c assms(2) show "b \<noteq> 0" by auto
  qed
  have ascii: "list_all (\<lambda>b. unat b < 128) ?bs"
    using assms(2) by (simp add: toUtf8Bytes_def list_all_iff un)
  have l32: "length ?data = 32" using assms(1) by (simp add: len)
  have last0: "?data ! 31 = 0" using assms(1) by (simp add: nth_append len)
  have tk: "take 31 ?data = ?bs @ replicate (31 - length s) 0"
    using assms(1) by (simp add: len)
  have strip: "rev (dropWhile (\<lambda>b. b = 0) (rev (take 31 ?data))) = ?bs"
    unfolding tk using nz by (rule rev_dropWhile_padding)
  have "decodeBytes32String (hexlify ?data) = Inr s"
    using l32 last0 ascii
    by (simp only: decodeBytes32String_def getBytes_hexlify strip sum.case)
       (simp add: toUtf8String_def char_of_toUtf8Bytes)
  with enc show ?thesis by blast
qed

lemma inRange_ascii:
  assumes "inRange lo hi c" and "0 < (of_char lo :: nat)" and "(of_char hi :: nat) < 128"
  shows "0 < (of_char c :: nat) \<and> (of_char c :: nat) < 128"
  using assms by (auto simp: inRange_def)

lemma isBase58Char_ascii: "isBase58Char c \<Longrightarrow> 0 < (of_char c :: nat) \<and> (of_char c :: nat) < 128"
  unfolding isBase58Char_def by (auto dest!: inRange_ascii)

lemma isBase32Char_ascii: "isBase32Char c \<Longrightarrow> 0 < (of_char c :: nat) \<and> (of_char c :: nat) < 128"
  unfolding isBase32Char_def by (auto dest!: inRange_ascii)

lemma valid_hash_shape:
  assumes "isValidIPFSHash h"
  shows "31 < length h \<and> (\<forall>c \<in> set h. 0 < (of_char c :: nat) \<and> (of_char c :: nat) < 128)"
proof -
  consider (v0) "take 2 h = ''Qm''" "length h = 46" "list_all isBase58Char (drop 2 h)"
    | (v1) "length h = 59" "list_all isBase32Char h"
    | (b32) "length h = 59" "list_all isBase32Char (drop 1 h)" "take 1 h = ''b''"
    using assms unfolding isValidIPFSHash_def by (auto split: if_splits)
  then show ?thesis
  proof cases
    case v0
    have "h = take 2 h @ drop 2 h" by simp
    then have split: "set h = set (take 2 h) \<union> set (drop 2 h)" by (metis set_append)
    have "\<forall>c \<in> set (drop 2 h). 0 < (of_char c :: nat) \<and> (of_char c :: nat) < 128"
      using v0(3) by (auto simp: list_all_iff dest: isBase58Char_ascii)
    moreover have "\<forall>c \<in> set (take 2 h). 0 < (of_char c :: nat) \<and> (of_char c :: nat) < 128"
      by (simp add: v0(1))
    ultimately show ?thesis using v0(2) split by auto
  next
    case v1
    then show ?thesis by (auto simp: list_all_iff dest: isBase32Char_ascii)
  next
    case b32
    have "h = take 1 h @ drop 1 h" by simp
    then have split: "set h = set (take 1 h) \<union> set (drop 1 h)" by (metis set_append)
    have "\<forall>c \<in> set (drop 1 h). 0 < (of_char c :: nat) \<and> (of_char c :: nat) < 128"
      using b32(2) by (auto simp: list_all_iff dest: isBase32Char_ascii)
    moreover have "\<forall>c \<in> set (take 1 h). 0 < (of_char c :: nat) \<and> (of_char c :: nat) < 128"
      using b32(3) by simp
    ultimately show ?thesis using b32(1) split by auto
  qed
qed

lemma hashToBytes32_truncates: "hashToBytes32 h = encodeBytes32String (take 31 h)"
  by (simp add: hashToBytes32_def base58ToBuffer_def)

text \<open>
  Claim C6 says that \<^verbatim>\<open>bytes32ToHash(hashToBytes32(h)) = h\<close> for every valid IPFS hash.
  \<^verbatim>\<open>base58ToBuffer\<close> throws on every input, so \<^verbatim>\<open>hashToBytes32\<close> always takes its
  fallback, which encodes the first 31 characters of the hash; a valid hash has 46 or 59.
  The way back returns those 31 characters: for every valid hash the round trip yields a
  proper prefix of the hash, never the hash.
\<close>

theorem bytes32_round_trip_truncates:
  assumes "isValidIPFSHash h"
  shows "toBytes32AndBack h = Inr (take 31 h) \<and> take 31 h \<noteq> h"
proof -
  from assms have long: "31 < length h"
    and chars: "\<forall>c \<in> set h. 0 < (of_char c :: nat) \<and> (of_char c :: nat) < 128"
    using valid_hash_shape by blast+
  have l: "length (take 31 h) \<le> 31" by simp
  have c: "\<forall>c \<in> set (take 31 h). 0 < (of_char c :: nat) \<and> (of_char c :: nat) < 128"
    using chars by (meson in_set_takeD)
  obtain enc where enc: "encodeBytes32String (take 31 h) = Inr enc"
    and dec: "decodeBytes32String enc = Inr (take 31 h)"
    using decode_encode_bytes32 [OF l c] by blast
  have ne: "take 31 h \<noteq> []" using long by (cases h) auto
  have way_back: "bytes32ToHash enc = take 31 h"
    using dec ne by (simp add: bytes32ToHash_def Let_def)
  have "length (take 31 h) \<noteq> length h" using long by simp
  then have "take 31 h \<noteq> h" by metis
  with enc way_back show ?thesis by (simp add: toBytes32AndBack_def hashToBytes32_truncates)
qed

theorem bytes32_round_trip_truncates_witness:
  "isValidIPFSHash ''QmYwAPJzv5CZsnA625s3Xf2nemtYgPpHdWEz79ojWnPbdG'' \<and>
   toBytes32AndBack ''QmYwAPJzv5CZsnA625s3Xf2nemtYgPpHdWEz79ojWnPbdG''
     = Inr ''QmYwAPJzv5CZsnA625s3Xf2nemtYgPp'' \<and>
   ''QmYwAPJzv5CZsnA625s3Xf2nemtYgPp'' \<noteq> ''QmYwAPJzv5CZsnA625s3Xf2nemtYgPpHdWEz79ojWnPbdG''"
proof -
  have v: "isValidIPFSHash ''QmYwAPJzv5CZsnA625s3Xf2nemtYgPpHdWEz79ojWnPbdG''"
    by (simp add: isValidIPFSHash_def isBase58Char_def inRange_def)
  show ?thesis
    using v bytes32_round_trip_truncates [OF v] by simp
qed

section \<open>Supported networks and the constructor\<close>

lemma isNetworkSupported_iff: "isNetworkSupported n \<longleftrightarrow> n = 42161"
  by (auto simp: isNetworkSupported_def SUPPORTED_NETWORKS_def NETWORK_ADDRESSES_def)

lemma getNetworkAddresses_returns_iff:
  "(\<exists>a. getNetworkAddresses n = Inr a) \<longleftrightarrow> isNetworkSupported n"
  by (simp add: getNetworkAddresses_def isNetworkSupported_iff NETWORK_ADDRESSES_def)

lemma getNetworkAddresses_throws:
  "\<not> isNetworkSupported n \<Longrightarrow> getNetworkAddresses n = Inl (UnsupportedNetwork n)"
  by (simp add: getNetworkAddresses_def isNetworkSupported_iff NETWORK_ADDRESSES_def)

lemma newEACCClient_throws_iff:
  "(\<exists>e. newEACCClient cfg r = Inl e) \<longleftrightarrow> (\<exists>n. chainId cfg = Some n \<and> n \<noteq> 0 \<and> n \<noteq> 42161)"
  by (auto simp: newEACCClient_def Let_def isNetworkSupported_iff split: option.splits)

text \<open>
  Claim C9. Its first half holds: \<^verbatim>\<open>isNetworkSupported\<close> is true exactly when
  \<^verbatim>\<open>getNetworkAddresses\<close> returns, and that is exactly for chain 42161. Its second half,
  that the constructor throws exactly when a chain id is provided and is not in the table,
  fails for the chain id \<open>0\<close>: it is provided, it is not in the table,
  \<^verbatim>\<open>getNetworkAddresses(0)\<close> throws, and the constructor returns a client, because its
  guard tests \<^verbatim>\<open>config.chainId\<close> for truthiness. For every other chain id the constructor
  does as the claim says.
\<close>

theorem constructor_accepts_unsupported_chain_zero:
  "(isNetworkSupported n \<longleftrightarrow> (\<exists>a. getNetworkAddresses n = Inr a)) \<and>
   (isNetworkSupported n \<longleftrightarrow> n = 42161) \<and>
   ((\<exists>e. newEACCClient cfg r = Inl e) \<longleftrightarrow> (\<exists>m. chainId cfg = Some m \<and> m \<noteq> 0 \<and> m \<noteq> 42161)) \<and>
   (chainId cfg = Some 0 \<longrightarrow>
      \<not> isNetworkSupported 0 \<and> getNetworkAddresses 0 = Inl (UnsupportedNetwork 0) \<and>
      (\<exists>c. newEACCClient cfg r = Inr c))"
proof -
  have zero: "\<exists>c. newEACCClient cfg r = Inr c" if "chainId cfg = Some 0"
    using that by (simp add: newEACCClient_def Let_def)
  have "\<not> isNetworkSupported 0" by (simp add: isNetworkSupported_iff)
  then show ?thesis
    using zero getNetworkAddresses_throws [of 0]
    by (simp only: getNetworkAddresses_returns_iff isNetworkSupported_iff newEACCClient_throws_iff)
       simp
qed

theorem constructor_accepts_unsupported_chain_zero_witness:
  "chainId (sampleConfig\<lparr>chainId := Some 0\<rparr>) = Some 0 \<and>
   \<not> isNetworkSupported 0 \<and>
   getNetworkAddresses 0 = Inl (UnsupportedNetwork 0) \<and>
   (\<exists>c. newEACCClient (sampleConfig\<lparr>chainId := Some 0\<rparr>) None = Inr c) \<and>
   newEACCClient (sampleConfig\<lparr>chainId := Some 1\<rparr>) None = Inl (UnsupportedNetwork 1)"
proof -
  have one: "newEACCClient (sampleConfig\<lparr>chainId := Some 1\<rparr>) None = Inl (UnsupportedNetwork 1)"
    by (simp add: newEACCClient_def Let_def isNetworkSupported_iff)
  show ?thesis
    using one
      constructor_accepts_unsupported_chain_zero
        [of 0 "sampleConfig\<lparr>chainId := Some 0\<rparr>" None]
    by simp
qed

section \<open>Building the transaction of a contract call\<close>

lemma ledgerCalls_simps:
  "ledgerCalls [] = []" "ledgerCalls [LedgerCall cl] = [cl]"
  "ledgerCalls (xs @ ys) = ledgerCalls xs @ ledgerCalls ys"
  by (simp_all add: ledgerCalls_def)

lemma storeCalls_simps:
  "storeCalls [] = []" "storeCalls [LedgerCall cl] = []"
  "storeCalls (xs @ ys) = storeCalls xs @ storeCalls ys"
  by (simp_all add: storeCalls_def)

lemma lookups_Cons:
  "lookups (r # rs) = (case r of Settled x \<Rightarrow> [] | Looked n a \<Rightarrow> [NameLookup n]) @ lookups rs"
  by (simp add: lookups_def)

lemma lookups_no_calls: "ledgerCalls (lookups rs) = []" "storeCalls (lookups rs) = []"
proof -
  have nil: "lookups [] = []" by (simp add: lookups_def)
  have one: "ledgerCalls [NameLookup n] = []" "storeCalls [NameLookup n] = []" for n
    by (simp_all add: ledgerCalls_def storeCalls_def)
  show "ledgerCalls (lookups rs) = []"
    by (induction rs)
       (simp_all add: nil lookups_Cons ledgerCalls_simps one split: resolution.splits)
  show "storeCalls (lookups rs) = []"
    by (induction rs)
       (simp_all add: nil lookups_Cons storeCalls_simps one split: resolution.splits)
qed

lemma populateTransaction_no_calls:
  "ledgerCalls (snd (populateTransaction L inputs as)) = []"
  "storeCalls (snd (populateTransaction L inputs as)) = []"
  by (simp_all add: populateTransaction_def lookups_no_calls ledgerCalls_simps storeCalls_simps
      split: sum.splits prod.splits option.splits)

lemma resolveTarget_no_calls:
  "ledgerCalls (snd (resolveTarget L t)) = []" "storeCalls (snd (resolveTarget L t)) = []"
  by (simp_all add: resolveTarget_def ledgerCalls_def storeCalls_def
      split: resolution.splits option.splits)

lemma transact_fits:
  assumes "fits L inputs as" and "resolves L ct"
  shows "transact L ct inputs f as =
           (surface (respond L (Call (target ct) f as)),
            snd (populateTransaction L inputs as) @ snd (resolveTarget L (target ct))
              @ [LedgerCall (Call (target ct) f as)])"
  using assms
  by (cases "populateTransaction L inputs as"; cases "resolveTarget L (target ct)")
     (auto simp: fits_def resolves_def transact_def split: sum.splits option.splits)

lemma transact_unfit:
  assumes "\<not> fits L inputs as \<or> \<not> resolves L ct"
  shows "\<exists>e tr. transact L ct inputs f as = (Inl e, tr) \<and> ledgerCalls tr = [] \<and> storeCalls tr = []"
proof (cases "populateTransaction L inputs as")
  case (Pair r tr)
  have tr: "ledgerCalls tr = []" "storeCalls tr = []"
    using populateTransaction_no_calls [of L inputs as] Pair by simp_all
  obtain r' tr' where rt: "resolveTarget L (target ct) = (r', tr')"
    by (cases "resolveTarget L (target ct)")
  have tr': "ledgerCalls tr' = []" "storeCalls tr' = []"
    using resolveTarget_no_calls [of L "target ct"] rt by simp_all
  show ?thesis
    using assms Pair rt tr tr'
    by (auto simp: fits_def resolves_def transact_def ledgerCalls_simps storeCalls_simps
        split: sum.splits option.splits)
qed

lemma transact_calls:
  "ledgerCalls (snd (transact L ct inputs f as)) =
     (if fits L inputs as \<and> resolves L ct then [Call (target ct) f as] else [])"
  "storeCalls (snd (transact L ct inputs f as)) = []"
proof -
  show "ledgerCalls (snd (transact L ct inputs f as)) =
     (if fits L inputs as \<and> resolves L ct then [Call (target ct) f as] else [])"
  proof (cases "fits L inputs as \<and> resolves L ct")
    case True
    then show ?thesis
      by (simp add: transact_fits ledgerCalls_simps populateTransaction_no_calls
          resolveTarget_no_calls)
  next
    case False
    then obtain e tr where "transact L ct inputs f as = (Inl e, tr)" "ledgerCalls tr = []"
      using transact_unfit [of L inputs as ct f] by blast
    with False show ?thesis by simp
  qed
  show "storeCalls (snd (transact L ct inputs f as)) = []"
  proof (cases "fits L inputs as \<and> resolves L ct")
    case True
    then show ?thesis
      by (simp add: transact_fits storeCalls_simps populateTransaction_no_calls
          resolveTarget_no_calls)
  next
    case False
    then obtain e tr where "transact L ct inputs f as = (Inl e, tr)" "storeCalls tr = []"
      using transact_unfit [of L inputs as ct f] by blast
    then show ?thesis by simp
  qed
qed

text \<open>The errors of the local steps are errors of the arguments.\<close>

lemma getBigInt_error: "getBigInt v = Inl e \<Longrightarrow> \<exists>s. e = InvalidArgument s"
  by (auto simp: getBigInt_def split: BigNumberish.splits if_splits option.splits)

lemma getBytes_error: "getBytes s = Inl e \<Longrightarrow> \<exists>m. e = InvalidArgument m"
  by (auto simp: getBytes_def split: if_splits option.splits)

lemma encodeArg_error: "encodeArg t a = Some e \<Longrightarrow> \<exists>s. e = InvalidArgument s"
  by (cases "(t, a)" rule: encodeArg.cases)
     (auto split: sum.splits if_splits dest: getBigInt_error getBytes_error)

lemma firstError_mem: "firstError es = Some e \<Longrightarrow> Some e \<in> set es"
  by (induction es rule: firstError.induct) simp_all

lemma encodeFunctionData_error:
  "encodeFunctionData inputs as = Some e \<Longrightarrow> \<exists>s. e = InvalidArgument s"
  by (auto simp: encodeFunctionData_def dest!: firstError_mem dest: encodeArg_error [OF sym])

lemma thrown_mem: "thrown rs = Some e \<Longrightarrow> Settled (Inl e) \<in> set rs"
  by (induction rs rule: thrown.induct) simp_all

lemma resolveAddress_error:
  "resolveAddress L s = Settled (Inl e) \<Longrightarrow> \<exists>m. e = InvalidArgument m"
  by (auto simp: resolveAddress_def split: if_splits)

lemma walkAddresses_error:
  "Settled (Inl e) \<in> set (walkAddresses L ss) \<Longrightarrow> \<exists>m. e = InvalidArgument m"
proof (induction ss)
  case Nil
  then show ?case by simp
next
  case (Cons s ss)
  then show ?case
    by (auto split: resolution.splits sum.splits dest: resolveAddress_error)
qed

lemma walkAsync_error:
  "Settled (Inl e) \<in> set (walkAsync L t a) \<Longrightarrow> \<exists>m. e = InvalidArgument m"
  by (cases "(L, t, a)" rule: walkAsync.cases)
     (auto dest: resolveAddress_error [OF sym] walkAddresses_error)

lemma resolveArgs_error:
  "thrown (resolveArgs L inputs as) = Some e \<Longrightarrow> \<exists>m. e = InvalidArgument m"
  by (auto simp: resolveArgs_def dest!: thrown_mem dest: walkAsync_error)

lemma copyOverrides_error:
  "copyOverrides inputs as = Inl e \<Longrightarrow> (\<exists>s. e = InvalidArgument s) \<or> e = UnsupportedOperation"
  by (auto simp: copyOverrides_def split: if_splits arg.splits option.splits sum.splits
      dest: getBigInt_error)

lemma populateTransaction_error:
  assumes "fst (populateTransaction L inputs as) = Inl e"
  shows "(\<exists>s. e = InvalidArgument s) \<or> e = UnsupportedOperation \<or> e = NameNotResolved"
proof (cases "copyOverrides inputs as")
  case (Inl e')
  with assms have "e' = e" by (simp add: populateTransaction_def)
  with Inl show ?thesis using copyOverrides_error by blast
next
  case (Inr p)
  obtain args val where p: "p = (args, val)" by (cases p)
  show ?thesis
  proof (cases "rejection (resolveArgs L inputs args)")
    case (Some e')
    with assms Inr p have e: "e' = e" by (simp add: populateTransaction_def)
    show ?thesis
    proof (cases "thrown (resolveArgs L inputs args)")
      case None
      with Some e show ?thesis by (simp add: rejection_def split: if_splits)
    next
      case (Some e'')
      with \<open>rejection (resolveArgs L inputs args) = Some e'\<close> e have "e'' = e"
        by (simp add: rejection_def)
      with Some show ?thesis using resolveArgs_error by blast
    qed
  next
    case None
    with assms Inr p have "encodeFunctionData inputs args = Some e"
      by (simp add: populateTransaction_def split: option.splits)
    then show ?thesis using encodeFunctionData_error by blast
  qed
qed

lemma resolveTarget_error:
  assumes "fst (resolveTarget L t) = Inl e"
  shows "(\<exists>s. e = InvalidArgument s) \<or> e = NameNotResolved"
  using assms
  by (auto simp: resolveTarget_def resolveAddress_def
      split: if_splits resolution.splits option.splits)

lemma transact_error:
  assumes "fst (transact L ct inputs f as) = Inl e"
  shows "(\<exists>s. e = InvalidArgument s) \<or> e = UnsupportedOperation \<or> e = NameNotResolved
         \<or> (\<exists>s. e = NumericFault s) \<or> (\<exists>le. e = LedgerFailure le)"
proof (cases "populateTransaction L inputs as")
  case (Pair r tr)
  show ?thesis
  proof (cases r)
    case (Inl e')
    with Pair assms have "fst (populateTransaction L inputs as) = Inl e"
      by (simp add: transact_def)
    then show ?thesis using populateTransaction_error by blast
  next
    case (Inr val)
    obtain r' tr' where rt: "resolveTarget L (target ct) = (r', tr')"
      by (cases "resolveTarget L (target ct)")
    show ?thesis
    proof (cases r')
      case (Inl e')
      with Pair Inr rt assms have "fst (resolveTarget L (target ct)) = Inl e"
        by (simp add: transact_def)
      then show ?thesis using resolveTarget_error by blast
    next
      case (Inr a)
      with Pair \<open>r = Inr val\<close> rt assms show ?thesis
        by (auto simp: transact_def surface_def split: if_splits sum.splits)
    qed
  qed
qed

lemma invoke_error:
  assumes "fst (invoke L abi ct f as) = Inl e"
  shows "(\<exists>s. e = InvalidArgument s) \<or> e = UnsupportedOperation \<or> e = NameNotResolved
         \<or> (\<exists>s. e = NumericFault s) \<or> (\<exists>le. e = LedgerFailure le) \<or> (\<exists>g. e = NotAFunction g)"
proof (cases "map_of abi f")
  case None
  with assms show ?thesis by (auto simp: invoke_def)
next
  case (Some fr)
  obtain inputs m where fr: "fr = (inputs, m)" by (cases fr)
  show ?thesis
  proof (cases "m = View \<or> (\<exists>sg. runner ct = RSigner sg)")
    case True
    with assms Some fr have "fst (transact L ct inputs f as) = Inl e"
      by (auto simp: invoke_def staticCall_def sendTransaction_def split: if_splits)
    then show ?thesis using transact_error by blast
  next
    case False
    with assms Some fr show ?thesis
      by (auto simp: invoke_def sendTransaction_def split: runner.splits)
  qed
qed

lemma invoke_calls:
  "storeCalls (snd (invoke L abi ct f as)) = []"
  "length (ledgerCalls (snd (invoke L abi ct f as))) \<le> Suc 0"
  by (simp_all add: invoke_def staticCall_def sendTransaction_def transact_calls
      ledgerCalls_simps storeCalls_simps split: option.splits prod.splits runner.splits)

lemma invoke_fits:
  assumes "map_of abi f = Some (inputs, m)" and "fits L inputs as" and "resolves L ct"
    and "m = View \<or> runner ct = RSigner sg"
  shows "fst (invoke L abi ct f as) = surface (respond L (Call (target ct) f as))"
    and "ledgerCalls (snd (invoke L abi ct f as)) = [Call (target ct) f as]"
  using assms
  by (auto simp: invoke_def staticCall_def sendTransaction_def transact_fits
      ledgerCalls_simps populateTransaction_no_calls resolveTarget_no_calls)

lemma invoke_unfit:
  assumes "map_of abi f = None
    \<or> (\<exists>inputs m. map_of abi f = Some (inputs, m) \<and> (\<not> fits L inputs as \<or> \<not> resolves L ct))"
  shows "ledgerCalls (snd (invoke L abi ct f as)) = []"
  using assms
  by (auto simp: invoke_def staticCall_def sendTransaction_def transact_calls ledgerCalls_simps
      split: runner.splits)

section \<open>The public operations of the client\<close>

lemmas wrapper_defs =
  MarketplaceV2Contract_getJob_def MarketplaceV2Contract_publishJobPost_def
  MarketplaceV2Contract_updateJobPost_def MarketplaceV2Contract_updateJobWhitelist_def
  MarketplaceV2Contract_closeJob_def MarketplaceV2Contract_withdrawCollateral_def
  MarketplaceV2Contract_reopenJob_def MarketplaceV2Contract_takeJob_def
  MarketplaceV2Contract_payStartJob_def MarketplaceV2Contract_deliverResult_def
  MarketplaceV2Contract_approveResult_def MarketplaceV2Contract_refund_def
  MarketplaceV2Contract_dispute_def MarketplaceV2Contract_arbitrate_def
  MarketplaceV2Contract_refuseArbitration_def MarketplaceV2Contract_postThreadMessage_def
  MarketplaceV2Contract_review_def MarketplaceV2Contract_getJobsLength_def
  MarketplaceV2Contract_isWorkerWhitelisted_def
  MarketplaceV2Contract_getEACCRewardTokensEnabled_def
  MarketplaceDataV1Contract_getUser_def
  MarketplaceDataV1Contract_getArbitrator_def MarketplaceDataV1Contract_getJobs_def
  MarketplaceDataV1Contract_getEvents_def MarketplaceDataV1Contract_getEventsLength_def
  MarketplaceDataV1Contract_registerUser_def MarketplaceDataV1Contract_updateUser_def
  MarketplaceDataV1Contract_registerArbitrator_def MarketplaceDataV1Contract_updateArbitrator_def
  MarketplaceDataV1Contract_updateMeceTag_def MarketplaceDataV1Contract_removeMeceTag_def
  MarketplaceDataV1Contract_getUsers_def MarketplaceDataV1Contract_getUsersLength_def
  MarketplaceDataV1Contract_isUserRegistered_def MarketplaceDataV1Contract_getUserRating_def
  MarketplaceDataV1Contract_getReviews_def MarketplaceDataV1Contract_getArbitrators_def
  MarketplaceDataV1Contract_getArbitratorsLength_def
  MarketplaceDataV1Contract_isArbitratorRegistered_def MarketplaceDataV1Contract_readMeceTag_def

lemmas method_defs =
  registerUser_def updateUser_def getUser_def registerArbitrator_def updateArbitrator_def
  getArbitrator_def publishJob_def updateJob_def getJob_def getJobs_def closeJob_def
  reopenJob_def withdrawCollateral_def updateJobWhitelist_def takeJob_def payStartJob_def
  deliverResult_def approveResult_def refund_def review_def dispute_def arbitrate_def
  refuseArbitration_def postMessage_def getEvents_def getEventsLength_def updateMeceTag_def
  removeMeceTag_def getUsers_def getUsersLength_def isUserRegistered_def getUserRating_def
  getUserReviews_def getArbitrators_def getArbitratorsLength_def isArbitratorRegistered_def
  getJobsLength_def isWorkerWhitelisted_def readMeceTag_def getEACCRewardForToken_def

lemmas param_splits =
  RegisterUserParams.splits UpdateUserParams.splits RegisterArbitratorParams.splits
  PublishJobParams.splits UpdateJobParams.splits

lemma guarded_frame: "snd (guarded c body) = c"
  by (simp add: guarded_def split: sum.splits)

lemma guarded_unconnected:
  "getSigner (wallet c) = None \<Longrightarrow> guarded c body = ((Inl WalletNotConnected, []), c)"
  by (simp add: guarded_def checkConnection_def)

lemma guarded_connected:
  "getSigner (wallet c) = Some sg \<Longrightarrow> guarded c body = (body, c)"
  by (simp add: guarded_def checkConnection_def)

lemma perform_frame: "snd (perform L c req) = c"
  by (cases req) (simp_all add: method_defs guarded_frame split: param_splits)

lemma perform_unconnected:
  assumes "getSigner (wallet c) = None" and "\<not> readAccessor req"
  shows "perform L c req = ((Inl WalletNotConnected, []), c)"
  using assms
  by (cases req) (simp_all add: method_defs guarded_unconnected split: param_splits)


text \<open>
  Every operation is the one contract call that \<open>requestCall\<close> gives for it, made on
  the handle of the client, behind the connection check unless it is a read accessor.
\<close>

lemma perform_requestCall:
  assumes "requestCall req = (h, f, as)"
  shows "perform L c req =
           (if readAccessor req
            then (onHandle (handleOf c h) (\<lambda>ct. invoke L (interfaceOf h) ct f as), c)
            else guarded c (onHandle (handleOf c h) (\<lambda>ct. invoke L (interfaceOf h) ct f as)))"
  using assms
  by (cases req rule: requestCall.cases)
     (auto simp: method_defs wrapper_defs handleOf_def interfaceOf_def)

text \<open>Every function that a method calls is in the ABI of its contract; the reads are views.\<close>

lemma requestCall_in_interface:
  assumes "requestCall req = (h, f, as)"
  shows "\<exists>inputs m. map_of (interfaceOf h) f = Some (inputs, m) \<and> (readAccessor req \<longrightarrow> m = View)"
  using assms
  by (cases req rule: requestCall.cases)
     (auto simp: interfaceOf_def MARKETPLACE_V2_ABI_def MARKETPLACE_DATA_V1_ABI_def)

lemma onHandle_calls:
  "storeCalls (snd (onHandle hnd (\<lambda>ct. invoke L abi ct f as))) = []"
  "length (ledgerCalls (snd (onHandle hnd (\<lambda>ct. invoke L abi ct f as)))) \<le> Suc 0"
  by (simp_all add: onHandle_def invoke_calls ledgerCalls_simps storeCalls_simps
      split: option.splits)

lemma perform_calls:
  "storeCalls (snd (fst (perform L c req))) = []"
  "length (ledgerCalls (snd (fst (perform L c req)))) \<le> Suc 0"
proof -
  obtain h f as where rc: "requestCall req = (h, f, as)" by (cases "requestCall req")
  show "storeCalls (snd (fst (perform L c req))) = []"
    by (simp add: perform_requestCall [OF rc] guarded_def onHandle_calls storeCalls_simps
        split: sum.splits)
  show "length (ledgerCalls (snd (fst (perform L c req)))) \<le> Suc 0"
    by (simp add: perform_requestCall [OF rc] guarded_def onHandle_calls ledgerCalls_simps
        split: sum.splits)
qed

lemma argumentsFit_iff:
  assumes "requestCall req = (h, f, as)" and "map_of (interfaceOf h) f = Some (inputs, m)"
  shows "argumentsFit L req \<longleftrightarrow> fits L inputs as"
  using assms by (simp add: argumentsFit_def)

lemma perform_unfit:
  assumes "\<not> argumentsFit L req"
  shows "ledgerCalls (snd (fst (perform L c req))) = []"
proof -
  obtain h f as where rc: "requestCall req = (h, f, as)" by (cases "requestCall req")
  obtain inputs m where fr: "map_of (interfaceOf h) f = Some (inputs, m)"
    using requestCall_in_interface [OF rc] by blast
  from assms have "\<not> fits L inputs as" by (simp add: argumentsFit_iff [OF rc fr])
  with fr have "ledgerCalls (snd (invoke L (interfaceOf h) ct f as)) = []" for ct
    by (intro invoke_unfit) blast
  then show ?thesis
    by (simp add: perform_requestCall [OF rc] guarded_def onHandle_def ledgerCalls_simps
        split: sum.splits option.splits)
qed


lemma perform_connected_fits:
  assumes "getSigner (wallet c) = Some sg"
    and "marketplaceV2 c = Some v" and "runner v = RSigner s1" and "resolves L v"
    and "marketplaceData c = Some d" and "runner d = RSigner s2" and "resolves L d"
    and "argumentsFit L req"
  shows "length (ledgerCalls (snd (fst (perform L c req)))) = 1"
proof -
  obtain h f as where rc: "requestCall req = (h, f, as)" by (cases "requestCall req")
  obtain inputs m where fr: "map_of (interfaceOf h) f = Some (inputs, m)"
    using requestCall_in_interface [OF rc] by blast
  from assms(8) have ft: "fits L inputs as" by (simp add: argumentsFit_iff [OF rc fr])
  obtain ct s where ct: "handleOf c h = Some ct" "runner ct = RSigner s" "resolves L ct"
    using assms(2-7) by (cases h) (auto simp: handleOf_def)
  have r: "m = View \<or> runner ct = RSigner s" using ct(2) by simp
  note inv = invoke_fits [OF fr ft ct(3) r]
  show ?thesis
    using ct(1)
    by (simp add: perform_requestCall [OF rc] guarded_connected [OF assms(1)] onHandle_def inv)
qed

text \<open>\<^verbatim>\<open>getMarketplaceInfo\<close> makes up to six calls, and six when each is answered.\<close>

lemma awaitEach_calls:
  assumes "\<forall>e \<in> set es. storeCalls (snd e) = [] \<and> length (ledgerCalls (snd e)) \<le> Suc 0"
  shows "storeCalls (snd (awaitEach es)) = [] \<and> length (ledgerCalls (snd (awaitEach es))) \<le> length es"
  using assms
proof (induction es rule: awaitEach.induct)
  case 1
  show ?case by (simp add: ledgerCalls_simps storeCalls_simps)
next
  case (2 e tr rest)
  then show ?case by simp
next
  case (3 r tr rest)
  then have ih: "storeCalls (snd (awaitEach rest)) = []"
      "length (ledgerCalls (snd (awaitEach rest))) \<le> length rest"
    by simp_all
  from 3 have hd: "storeCalls tr = []" "length (ledgerCalls tr) \<le> Suc 0" by simp_all
  show ?case
    using ih hd
    by (cases "awaitEach rest")
       (auto simp: ledgerCalls_simps storeCalls_simps split: sum.splits)
qed

lemma getMarketplaceInfo_calls:
  "snd (getMarketplaceInfo L c) = c"
  "storeCalls (snd (fst (getMarketplaceInfo L c))) = []"
  "length (ledgerCalls (snd (fst (getMarketplaceInfo L c)))) \<le> 6"
proof -
  let ?es = "[onHandle (marketplaceV2 c) (MarketplaceV2Contract_getVersion L),
         onHandle (marketplaceV2 c) (MarketplaceV2Contract_getUnicrowAddress L),
         onHandle (marketplaceV2 c) (MarketplaceV2Contract_getTreasuryAddress L),
         onHandle (marketplaceV2 c) (MarketplaceV2Contract_getMarketplaceFee L),
         onHandle (marketplaceV2 c) (MarketplaceV2Contract_getEACCToken L),
         onHandle (marketplaceV2 c) (MarketplaceV2Contract_getEACCTokensPerToken L)]"
  have each: "\<forall>e \<in> set ?es. storeCalls (snd e) = [] \<and> length (ledgerCalls (snd e)) \<le> Suc 0"
    by (simp add: onHandle_def invoke_calls ledgerCalls_simps storeCalls_simps
        MarketplaceV2Contract_getVersion_def MarketplaceV2Contract_getUnicrowAddress_def
        MarketplaceV2Contract_getTreasuryAddress_def MarketplaceV2Contract_getMarketplaceFee_def
        MarketplaceV2Contract_getEACCToken_def MarketplaceV2Contract_getEACCTokensPerToken_def
        split: option.splits)
  show "snd (getMarketplaceInfo L c) = c" by (simp add: getMarketplaceInfo_def)
  show "storeCalls (snd (fst (getMarketplaceInfo L c))) = []"
    using awaitEach_calls [OF each] by (simp add: getMarketplaceInfo_def)
  show "length (ledgerCalls (snd (fst (getMarketplaceInfo L c)))) \<le> 6"
    using awaitEach_calls [OF each] by (simp add: getMarketplaceInfo_def)
qed

lemma sample_clients_constructed:
  "newEACCClient sampleConfig None = Inr freshClient"
  "newEACCClient sampleConfig (Some (RProvider sampleProvider)) = Inr readOnlyClient"
  "connectProvider freshClient sampleProvider = (Inr (), connectedClient)"
  by (simp_all add: newEACCClient_def sampleConfig_def isNetworkSupported_iff freshClient_def
      readOnlyClient_def connectedClient_def connectProvider_def
      WalletConnector_connectWithProvider_def sampleProvider_def Let_def)

lemma freshClient_fields:
  "marketplaceV2 freshClient = None" "marketplaceData freshClient = None"
  "getSigner (wallet freshClient) = None"
  by (simp_all add: freshClient_def newEACCClient_def sampleConfig_def isNetworkSupported_iff
      getSigner_def newWalletConnector_def Let_def)

lemma connectedClient_handles:
  "marketplaceV2 connectedClient
     = Some \<lparr> target = ''0x405AcFbD1400A168fDd4aDA2D214e8Ae5FF7a624'', runner = RSigner sampleSigner \<rparr>"
  "marketplaceData connectedClient
     = Some \<lparr> target = ''0x0191ae69d05F11C7978cCCa2DE15653BaB509d9a'', runner = RSigner sampleSigner \<rparr>"
  by (simp_all add: connectedClient_def freshClient_def newEACCClient_def sampleConfig_def
      isNetworkSupported_iff connectProvider_def WalletConnector_connectWithProvider_def
      sampleProvider_def initializeContracts_def newContract_def Let_def)

lemma readOnlyClient_fields:
  "marketplaceV2 readOnlyClient
     = Some \<lparr> target = ''0x405AcFbD1400A168fDd4aDA2D214e8Ae5FF7a624'', runner = RProvider sampleProvider \<rparr>"
  "marketplaceData readOnlyClient
     = Some \<lparr> target = ''0x0191ae69d05F11C7978cCCa2DE15653BaB509d9a'', runner = RProvider sampleProvider \<rparr>"
  "getSigner (wallet readOnlyClient) = None"
  by (simp_all add: readOnlyClient_def freshClient_def sampleConfig_def
      initializeContracts_def newContract_def getSigner_def newWalletConnector_def)

lemma signing_methods_unconnected:
  assumes "getSigner (wallet c) = None"
  shows "signMessage c msg = Inl WalletNotConnected"
    and "createJobSignature K c len job = Inl WalletNotConnected"
  using assms by (simp_all add: signMessage_def createJobSignature_def checkConnection_def)

text \<open>The functions of the ABIs that the examples call, and what fits them.\<close>

lemma sample_fragments:
  "map_of MARKETPLACE_V2_ABI ''takeJob'' = Some ([TUint 256, TBytes], NonPayable)"
  "map_of MARKETPLACE_V2_ABI ''getJob'' = Some ([TUint 256], View)"
  "map_of MARKETPLACE_V2_ABI ''approveResult'' = Some ([TUint 256, TUint 8, TString], NonPayable)"
  "map_of MARKETPLACE_DATA_V1_ABI ''eventsLength'' = Some ([TUint 256], View)"
  by (simp_all add: MARKETPLACE_V2_ABI_def MARKETPLACE_DATA_V1_ABI_def)

lemma populateTransaction_plain:
  "populateTransaction L [TUint n] [ABig j] =
     (case encodeArg (TUint n) (ABig j) of Some e \<Rightarrow> (Inl e, []) | None \<Rightarrow> (Inr None, []))"
  "populateTransaction L [TUint n, TBytes] [ABig j, AStr s] =
     (case encodeArg (TUint n) (ABig j) of
        Some e \<Rightarrow> (Inl e, [])
      | None \<Rightarrow> (case encodeArg TBytes (AStr s) of Some e \<Rightarrow> (Inl e, []) | None \<Rightarrow> (Inr None, [])))"
  "populateTransaction L [TUint n, TUint k, TString] [ABig j, ABig r, AStr s] =
     (case encodeArg (TUint n) (ABig j) of
        Some e \<Rightarrow> (Inl e, [])
      | None \<Rightarrow> (case encodeArg (TUint k) (ABig r) of Some e \<Rightarrow> (Inl e, []) | None \<Rightarrow> (Inr None, [])))"
  by (simp_all add: populateTransaction_def copyOverrides_def resolveArgs_def rejection_def
      lookups_def encodeFunctionData_def split: option.splits)

lemma sample_arguments:
  "getBigInt (BigInt 7) = Inr 7" "getBytes ''0x'' = Inr []"
  "getBytes ''0xsig'' = Inl (InvalidArgument ''invalid BytesLike value'')"
  "getBigInt (Number 300) = Inr 300"
  "encodeArg (TUint 256) (ABig (BigInt 7)) = None"
  "encodeArg TBytes (AStr ''0x'') = None"
  "encodeArg (TUint 8) (ABig (Number 300)) = Some (InvalidArgument ''value out-of-bounds'')"
  by (simp_all add: getBigInt_def getBytes_def digitValue_def maxValue_def)

lemma sample_fits:
  "argumentsFit L (TakeJobOp (BigInt 7) ''0x'')"
  "argumentsFit L (GetJobOp (BigInt 7))"
  "\<not> argumentsFit L (ApproveResultOp (BigInt 7) 300 ''ok'')"
  by (simp_all add: argumentsFit_def interfaceOf_def sample_fragments fits_def
      populateTransaction_plain sample_arguments)

text \<open>The two contract addresses of the sample configuration, on the sample ledgers.\<close>

lemma sample_targets:
  assumes "getChecksumAddress L = (\<lambda>address. address)"
  shows "resolveTarget L ''0x405AcFbD1400A168fDd4aDA2D214e8Ae5FF7a624''
           = (Inr ''0x405AcFbD1400A168fDd4aDA2D214e8Ae5FF7a624'', [])"
    and "resolveTarget L ''0x0191ae69d05F11C7978cCCa2DE15653BaB509d9a''
           = (Inr ''0x0191ae69d05F11C7978cCCa2DE15653BaB509d9a'', [])"
  by (simp_all add: resolveTarget_def isHexString_def resolveAddress_def isHexAddress_def
      isHexDigit_def digitValue_def assms)

lemma sample_checksums:
  "getChecksumAddress strictLedger = (\<lambda>address. address)"
  "getChecksumAddress lenientLedger = (\<lambda>address. address)"
  "getChecksumAddress openJobLedger = (\<lambda>address. address)"
  by (simp_all add: strictLedger_def lenientLedger_def openJobLedger_def)

lemmas strict_targets = sample_targets [OF sample_checksums(1)]

lemmas lenient_targets = sample_targets [OF sample_checksums(2)]

lemmas openJob_targets = sample_targets [OF sample_checksums(3)]

lemma sample_resolves:
  assumes "getChecksumAddress L = (\<lambda>address. address)"
  shows "resolves L \<lparr> target = ''0x405AcFbD1400A168fDd4aDA2D214e8Ae5FF7a624'', runner = r \<rparr>"
    and "resolves L \<lparr> target = ''0x0191ae69d05F11C7978cCCa2DE15653BaB509d9a'', runner = r \<rparr>"
  by (simp_all add: resolves_def sample_targets [OF assms])




text \<open>
  Claim C7, as amended. No operation that is one method call on a ledger contract changes a
  field of the client or calls the content store, and each makes at most one call to the
  ledger: exactly one when the wallet holds a signer, both contract handles run on a
  signer and have a target that resolves, and the arguments fit the ABI function; none
  when the arguments do not fit; and nothing at all goes out when a state-changing
  operation fails the connection check. \<^verbatim>\<open>getMarketplaceInfo\<close> changes no field and
  calls no content store either, and makes at most six calls to the ledger.
\<close>

theorem operations_keep_client_and_call_at_most_once:
  "snd (perform L c req) = c \<and>
   storeCalls (snd (fst (perform L c req))) = [] \<and>
   length (ledgerCalls (snd (fst (perform L c req)))) \<le> 1 \<and>
   (getSigner (wallet c) = Some sg \<and>
    marketplaceV2 c = Some v \<and> runner v = RSigner s1 \<and> resolves L v \<and>
    marketplaceData c = Some d \<and> runner d = RSigner s2 \<and> resolves L d \<and>
    argumentsFit L req \<longrightarrow>
      length (ledgerCalls (snd (fst (perform L c req)))) = 1) \<and>
   (\<not> argumentsFit L req \<longrightarrow> ledgerCalls (snd (fst (perform L c req))) = []) \<and>
   (getSigner (wallet c) = None \<and> \<not> readAccessor req \<longrightarrow> snd (fst (perform L c req)) = []) \<and>
   snd (getMarketplaceInfo L c) = c \<and>
   storeCalls (snd (fst (getMarketplaceInfo L c))) = [] \<and>
   length (ledgerCalls (snd (fst (getMarketplaceInfo L c)))) \<le> 6"
proof -
  have frame: "snd (perform L c req) = c" by (rule perform_frame)
  have shape: "storeCalls (snd (fst (perform L c req))) = [] \<and>
      length (ledgerCalls (snd (fst (perform L c req)))) \<le> 1"
    by (simp add: perform_calls)
  have one: "length (ledgerCalls (snd (fst (perform L c req)))) = 1"
    if "getSigner (wallet c) = Some sg"
      "marketplaceV2 c = Some v" "runner v = RSigner s1" "resolves L v"
      "marketplaceData c = Some d" "runner d = RSigner s2" "resolves L d"
      "argumentsFit L req"
    using perform_connected_fits [OF that] .
  have unfit: "ledgerCalls (snd (fst (perform L c req))) = []" if "\<not> argumentsFit L req"
    using that by (rule perform_unfit)
  have none: "snd (fst (perform L c req)) = []"
    if "getSigner (wallet c) = None" "\<not> readAccessor req"
    using perform_unconnected [OF that, of L] by simp
  show ?thesis using frame shape one unfit none getMarketplaceInfo_calls [of L c] by blast
qed

theorem operations_keep_client_and_call_at_most_once_witness:
  "getSigner (wallet connectedClient) = Some sampleSigner \<and>
   resolves lenientLedger
     \<lparr> target = ''0x405AcFbD1400A168fDd4aDA2D214e8Ae5FF7a624'', runner = RSigner sampleSigner \<rparr> \<and>
   resolves lenientLedger
     \<lparr> target = ''0x0191ae69d05F11C7978cCCa2DE15653BaB509d9a'', runner = RSigner sampleSigner \<rparr> \<and>
   argumentsFit lenientLedger (TakeJobOp (BigInt 7) ''0x'') \<and>
   snd (perform lenientLedger connectedClient (TakeJobOp (BigInt 7) ''0x'')) = connectedClient \<and>
   length (ledgerCalls (snd (fst (perform lenientLedger connectedClient (TakeJobOp (BigInt 7) ''0x''))))) = 1 \<and>
   \<not> argumentsFit lenientLedger (ApproveResultOp (BigInt 7) 300 ''ok'') \<and>
   ledgerCalls (snd (fst (perform lenientLedger connectedClient (ApproveResultOp (BigInt 7) 300 ''ok'')))) = [] \<and>
   getSigner (wallet freshClient) = None \<and>
   snd (fst (perform lenientLedger freshClient (TakeJobOp (BigInt 7) ''0x''))) = []"
proof -
  let ?v = "\<lparr> target = ''0x405AcFbD1400A168fDd4aDA2D214e8Ae5FF7a624'', runner = RSigner sampleSigner \<rparr>"
  let ?d = "\<lparr> target = ''0x0191ae69d05F11C7978cCCa2DE15653BaB509d9a'', runner = RSigner sampleSigner \<rparr>"
  have rv: "runner ?v = RSigner sampleSigner" by simp
  have rd: "runner ?d = RSigner sampleSigner" by simp
  have rs: "resolves lenientLedger ?v" "resolves lenientLedger ?d"
    by (rule sample_resolves [OF sample_checksums(2)])+
  note a = operations_keep_client_and_call_at_most_once
    [where L = lenientLedger and c = connectedClient and req = "TakeJobOp (BigInt 7) ''0x''"
      and sg = sampleSigner and ?s1.0 = sampleSigner and ?s2.0 = sampleSigner
      and v = ?v and d = ?d]
  note b = operations_keep_client_and_call_at_most_once
    [where L = lenientLedger and c = freshClient and req = "TakeJobOp (BigInt 7) ''0x''"]
  note u = operations_keep_client_and_call_at_most_once
    [where L = lenientLedger and c = connectedClient
      and req = "ApproveResultOp (BigInt 7) 300 ''ok''"]
  show ?thesis
    using a b u rv rd rs connectedClient_signer connectedClient_handles freshClient_fields(3)
      sample_fits [of lenientLedger]
    by simp
qed

text \<open>
  Claim C7 as stated says exactly one outbound call for every operation. A state-changing
  operation on a client that is not connected makes none.
\<close>

theorem no_call_when_unconnected_counterexample:
  "length (ledgerCalls (snd (fst (perform lenientLedger freshClient (TakeJobOp (BigInt 7) ''0x''))))) = 0"
  by (simp add: takeJob_def guarded_unconnected freshClient_fields ledgerCalls_def)

text \<open>
  Nor does a connected client make a call when an argument does not fit its parameter: a
  review rating of 300 is not a \<^verbatim>\<open>uint8\<close>. And \<^verbatim>\<open>getMarketplaceInfo\<close>, on a client
  constructed with a provider and a ledger that answers, makes its six reads.
\<close>

lemma approveResult_out_of_range:
  "perform lenientLedger connectedClient (ApproveResultOp (BigInt 7) 300 ''ok'')
     = ((Inl (InvalidArgument ''value out-of-bounds''), []), connectedClient)"
  by (simp add: approveResult_def guarded_connected [OF connectedClient_signer] onHandle_def
      connectedClient_handles MarketplaceV2Contract_approveResult_def invoke_def
      sample_fragments sendTransaction_def transact_def populateTransaction_plain
      sample_arguments)

lemma getMarketplaceInfo_six_calls:
  "ledgerCalls (snd (fst (getMarketplaceInfo strictLedger readOnlyClient))) =
     [Call ''0x405AcFbD1400A168fDd4aDA2D214e8Ae5FF7a624'' ''version'' [],
      Call ''0x405AcFbD1400A168fDd4aDA2D214e8Ae5FF7a624'' ''unicrowAddress'' [],
      Call ''0x405AcFbD1400A168fDd4aDA2D214e8Ae5FF7a624'' ''treasuryAddress'' [],
      Call ''0x405AcFbD1400A168fDd4aDA2D214e8Ae5FF7a624'' ''unicrowMarketplaceFee'' [],
      Call ''0x405AcFbD1400A168fDd4aDA2D214e8Ae5FF7a624'' ''eaccToken'' [],
      Call ''0x405AcFbD1400A168fDd4aDA2D214e8Ae5FF7a624'' ''eaccTokensPerToken'' []]"
proof -
  let ?v = "\<lparr> target = ''0x405AcFbD1400A168fDd4aDA2D214e8Ae5FF7a624'', runner = RProvider sampleProvider \<rparr>"
  have fr: "map_of MARKETPLACE_V2_ABI ''version'' = Some ([], View)"
    "map_of MARKETPLACE_V2_ABI ''unicrowAddress'' = Some ([], View)"
    "map_of MARKETPLACE_V2_ABI ''treasuryAddress'' = Some ([], View)"
    "map_of MARKETPLACE_V2_ABI ''unicrowMarketplaceFee'' = Some ([], View)"
    "map_of MARKETPLACE_V2_ABI ''eaccToken'' = Some ([], View)"
    "map_of MARKETPLACE_V2_ABI ''eaccTokensPerToken'' = Some ([], View)"
    by (simp_all add: MARKETPLACE_V2_ABI_def)
  have pop: "populateTransaction strictLedger [] [] = (Inr None, [])"
    by (simp add: populateTransaction_def copyOverrides_def resolveArgs_def rejection_def
        lookups_def encodeFunctionData_def)
  have inv: "invoke strictLedger MARKETPLACE_V2_ABI ?v g [] =
      (Inr Other, [LedgerCall (Call ''0x405AcFbD1400A168fDd4aDA2D214e8Ae5FF7a624'' g [])])"
    if "map_of MARKETPLACE_V2_ABI g = Some ([], View)" "g \<noteq> ''getJob''" "g \<noteq> ''eventsLength''"
      "g \<noteq> ''takeJob''" for g
    using that
    by (simp add: invoke_def staticCall_def transact_def pop strict_targets surface_def)
       (simp add: strictLedger_def)
  show ?thesis
    by (simp add: getMarketplaceInfo_def onHandle_def readOnlyClient_fields
        MarketplaceV2Contract_getVersion_def MarketplaceV2Contract_getUnicrowAddress_def
        MarketplaceV2Contract_getTreasuryAddress_def MarketplaceV2Contract_getMarketplaceFee_def
        MarketplaceV2Contract_getEACCToken_def MarketplaceV2Contract_getEACCTokensPerToken_def
        inv fr ledgerCalls_def)
qed

section \<open>Taking a job\<close>

lemma takeJob_connected:
  assumes "getSigner (wallet c) = Some sg" and "marketplaceV2 c = Some v"
    and "runner v = RSigner s1"
  shows "takeJob L c job sig =
           (transact L v [TUint 256, TBytes] ''takeJob'' [ABig job, AStr sig], c)"
  using assms
  by (simp add: takeJob_def guarded_connected onHandle_def MarketplaceV2Contract_takeJob_def
      invoke_def sample_fragments sendTransaction_def)

lemma takeJob_fits_iff:
  "argumentsFit L (TakeJobOp job sig) \<longleftrightarrow>
     (\<exists>x bs. getBigInt job = Inr x \<and> 0 \<le> x \<and> x < 2 ^ 256 \<and> getBytes sig = Inr bs)"
  by (auto simp: argumentsFit_def interfaceOf_def sample_fragments fits_def
      populateTransaction_plain split: sum.splits option.splits if_splits)

lemma takeJob_fits:
  "argumentsFit L (TakeJobOp job sig) \<longleftrightarrow> fits L [TUint 256, TBytes] [ABig job, AStr sig]"
  by (simp add: argumentsFit_def interfaceOf_def sample_fragments)

lemma takeJob_forwards:
  assumes "getSigner (wallet c) = Some sg" and "marketplaceV2 c = Some v"
    and "runner v = RSigner s1" and "resolves L v"
    and "getBigInt job = Inr x" and "0 \<le> x" and "x < 2 ^ 256" and "getBytes sig = Inr bs"
  shows "fst (fst (takeJob L c job sig)) =
           surface (respond L (Call (target v) ''takeJob'' [ABig job, AStr sig]))"
    and "ledgerCalls (snd (fst (takeJob L c job sig))) =
           [Call (target v) ''takeJob'' [ABig job, AStr sig]]"
proof -
  have "argumentsFit L (TakeJobOp job sig)"
    unfolding takeJob_fits_iff using assms(5-8) by blast
  then have ft: "fits L [TUint 256, TBytes] [ABig job, AStr sig]" by (simp add: takeJob_fits)
  show "fst (fst (takeJob L c job sig)) =
           surface (respond L (Call (target v) ''takeJob'' [ABig job, AStr sig]))"
    by (simp add: takeJob_connected [OF assms(1-3)] transact_fits [OF ft assms(4)])
  show "ledgerCalls (snd (fst (takeJob L c job sig))) =
           [Call (target v) ''takeJob'' [ABig job, AStr sig]]"
    using ft assms(4) by (simp add: takeJob_connected [OF assms(1-3)] transact_calls)
qed

lemma takeJob_rejects_locally:
  assumes "getSigner (wallet c) = Some sg" and "marketplaceV2 c = Some v"
    and "runner v = RSigner s1"
    and "getBigInt job = Inr x" and "0 \<le> x" and "x < 2 ^ 256" and "getBytes sig = Inl e"
  shows "takeJob L c job sig = ((Inl e, []), c)"
  using assms(4-7)
  by (simp add: takeJob_connected [OF assms(1-3)] transact_def populateTransaction_plain)

lemma takeJob_no_lifecycle_error:
  "fst (fst (takeJob L c job sig)) \<noteq> Inl StaleSignature"
  "fst (fst (takeJob L c job sig)) \<noteq> Inl (InvalidTransition st ev role)"
proof -
  have inv: "fst (invoke L abi ct f as) \<noteq> Inl StaleSignature \<and>
      fst (invoke L abi ct f as) \<noteq> Inl (InvalidTransition st ev role)" for abi ct f as
    using invoke_error [of L abi ct f as] by auto
  show "fst (fst (takeJob L c job sig)) \<noteq> Inl StaleSignature"
    using inv
    by (simp add: takeJob_def guarded_def checkConnection_def onHandle_def
        MarketplaceV2Contract_takeJob_def split: option.splits)
  show "fst (fst (takeJob L c job sig)) \<noteq> Inl (InvalidTransition st ev role)"
    using inv
    by (simp add: takeJob_def guarded_def checkConnection_def onHandle_def
        MarketplaceV2Contract_takeJob_def split: option.splits)
qed

lemma resolveTarget_cong:
  assumes "resolveName L' = resolveName L" and "getChecksumAddress L' = getChecksumAddress L"
  shows "resolveTarget L' t = resolveTarget L t"
  using assms by (simp add: resolveTarget_def resolveAddress_def)

lemma stale_and_current_hash:
  "createJobSignatureHash sampleDigest 2 (BigInt 7) = Inr (hexlify (128 # replicate 30 128 @ [9]))"
  "createJobSignatureHash sampleDigest 3 (BigInt 7) = Inr (hexlify (128 # replicate 30 128 @ [10]))"
proof -
  have h3: "getUint (BigInt 7) = Inr 7" by (simp add: getUint_def getBigInt_def)
  have h4: "(7::nat) < 2 ^ 256" by simp
  have m: "(2::int) \<le> maxValue" "(3::int) \<le> maxValue" by (simp_all add: maxValue_def)
  have p2: "sampleDigest (abi_uint256 (nat 2) @ abi_uint256 7) = 128 # replicate 30 128 @ [9]"
    by code_simp
  have p3: "sampleDigest (abi_uint256 (nat 3) @ abi_uint256 7) = 128 # replicate 30 128 @ [10]"
    by code_simp
  show "createJobSignatureHash sampleDigest 2 (BigInt 7) = Inr (hexlify (128 # replicate 30 128 @ [9]))"
    using createJobSignatureHash_value [OF _ m(1) h3 h4, of sampleDigest]
    by (simp only: keccak256_def p2)
  show "createJobSignatureHash sampleDigest 3 (BigInt 7) = Inr (hexlify (128 # replicate 30 128 @ [10]))"
    using createJobSignatureHash_value [OF _ m(2) h3 h4, of sampleDigest]
    by (simp only: keccak256_def p3)
qed

lemma stale_and_current_signature:
  "signJobTaking sampleDigest sampleSigner 2 (BigInt 7) = Inr (hexlify (128 # replicate 30 128 @ [9]))"
  "signJobTaking sampleDigest sampleSigner 3 (BigInt 7) = Inr (hexlify (128 # replicate 30 128 @ [10]))"
  by (simp_all add: signJobTaking_def stale_and_current_hash toBeArray_hexlify
      CryptoUtils_signMessage_def Signer_signMessage_def messageBytes_def sampleSigner_def)

text \<open>
  Claim C2, as amended. \<^verbatim>\<open>takeJob\<close> makes no check of an events length and asks of the
  signature only that it be a hexadecimal byte string: it never fails with
  \<open>StaleSignature\<close>. On a connected client whose marketplace contract has a target that
  resolves, a job id that is a \<^verbatim>\<open>uint256\<close> and a signature that is a hexadecimal byte
  string go unchanged to the ledger in one call, and the result is the ledger's reply, or
  the ledger's failure as a ledger failure; a signature that is not a hexadecimal byte
  string is refused by the encoder and nothing is sent.
\<close>

theorem takeJob_forwards_signature_unchecked:
  "fst (fst (takeJob L c job sig)) \<noteq> Inl StaleSignature \<and>
   (getSigner (wallet c) = Some sg \<and> marketplaceV2 c = Some v \<and> runner v = RSigner s1 \<and>
    resolves L v \<and>
    getBigInt job = Inr x \<and> 0 \<le> x \<and> x < 2 ^ 256 \<and> getBytes sig = Inr bs \<longrightarrow>
      fst (fst (takeJob L c job sig)) =
        surface (respond L (Call (target v) ''takeJob'' [ABig job, AStr sig])) \<and>
      ledgerCalls (snd (fst (takeJob L c job sig))) =
        [Call (target v) ''takeJob'' [ABig job, AStr sig]]) \<and>
   (getSigner (wallet c) = Some sg \<and> marketplaceV2 c = Some v \<and> runner v = RSigner s1 \<and>
    getBigInt job = Inr x \<and> 0 \<le> x \<and> x < 2 ^ 256 \<and> getBytes sig = Inl e \<longrightarrow>
      takeJob L c job sig = ((Inl e, []), c))"
  using takeJob_no_lifecycle_error(1) [of L c job sig]
    takeJob_forwards [of c sg v s1 L job x sig bs]
    takeJob_rejects_locally [of c sg v s1 job x sig e L]
  by blast

theorem takeJob_forwards_signature_unchecked_witness:
  "getSigner (wallet connectedClient) = Some sampleSigner \<and>
   marketplaceV2 connectedClient
     = Some \<lparr> target = ''0x405AcFbD1400A168fDd4aDA2D214e8Ae5FF7a624'', runner = RSigner sampleSigner \<rparr> \<and>
   resolves lenientLedger
     \<lparr> target = ''0x405AcFbD1400A168fDd4aDA2D214e8Ae5FF7a624'', runner = RSigner sampleSigner \<rparr> \<and>
   getBigInt (BigInt 7) = Inr 7 \<and> getBytes ''0x'' = Inr [] \<and>
   fst (fst (takeJob lenientLedger connectedClient (BigInt 7) ''0x'')) = Inr (TxResponse ''0xabc'') \<and>
   ledgerCalls (snd (fst (takeJob lenientLedger connectedClient (BigInt 7) ''0x'')))
     = [Call ''0x405AcFbD1400A168fDd4aDA2D214e8Ae5FF7a624'' ''takeJob''
          [ABig (BigInt 7), AStr ''0x'']] \<and>
   getBytes ''0xsig'' = Inl (InvalidArgument ''invalid BytesLike value'') \<and>
   takeJob lenientLedger connectedClient (BigInt 7) ''0xsig''
     = ((Inl (InvalidArgument ''invalid BytesLike value''), []), connectedClient)"
proof -
  let ?v = "\<lparr> target = ''0x405AcFbD1400A168fDd4aDA2D214e8Ae5FF7a624'', runner = RSigner sampleSigner \<rparr>"
  have rs: "resolves lenientLedger ?v" by (rule sample_resolves [OF sample_checksums(2)])
  have r: "respond lenientLedger (Call ''0x405AcFbD1400A168fDd4aDA2D214e8Ae5FF7a624'' ''takeJob''
      [ABig (BigInt 7), AStr ''0x'']) = Inr (TxResponse ''0xabc'')"
    by (simp add: lenientLedger_def)
  note a = takeJob_forwards_signature_unchecked
      [where L = lenientLedger and c = connectedClient and job = "BigInt 7" and sig = "''0x''"
        and sg = sampleSigner and ?s1.0 = sampleSigner and v = ?v and x = 7 and bs = "[]"]
  note b = takeJob_forwards_signature_unchecked
      [where L = lenientLedger and c = connectedClient and job = "BigInt 7" and sig = "''0xsig''"
        and sg = sampleSigner and ?s1.0 = sampleSigner and v = ?v and x = 7
        and e = "InvalidArgument ''invalid BytesLike value''"]
  show ?thesis
    using a b rs r connectedClient_signer connectedClient_handles(1) sample_arguments(1-3)
    by (simp add: surface_def)
qed

text \<open>
  Claim C2 as stated says that a take with a stale signature fails with
  \<open>StaleSignature\<close>. Job 7 has three events on both sample ledgers and the signature is
  the one computed for an events length of two, which is not the one for three. On the
  ledger that reverts, the failure that reaches the caller is the ledger's revert; on the
  ledger that accepts, the call succeeds.
\<close>

theorem takeJob_stale_signature_counterexample:
  "fst (fst (getEventsLength strictLedger connectedClient (BigInt 7))) = Inr (UintReply 3) \<and>
   fst (fst (getEventsLength lenientLedger connectedClient (BigInt 7))) = Inr (UintReply 3) \<and>
   signJobTaking sampleDigest sampleSigner 2 (BigInt 7)
     = Inr (hexlify (128 # replicate 30 128 @ [9])) \<and>
   signJobTaking sampleDigest sampleSigner 3 (BigInt 7)
     = Inr (hexlify (128 # replicate 30 128 @ [10])) \<and>
   fst (fst (takeJob strictLedger connectedClient (BigInt 7) (hexlify (128 # replicate 30 128 @ [9]))))
     = Inl (LedgerFailure (Reverted ''invalid signature or not open'')) \<and>
   fst (fst (takeJob lenientLedger connectedClient (BigInt 7) (hexlify (128 # replicate 30 128 @ [9]))))
     = Inr (TxResponse ''0xabc'')"
proof -
  let ?v = "\<lparr> target = ''0x405AcFbD1400A168fDd4aDA2D214e8Ae5FF7a624'', runner = RSigner sampleSigner \<rparr>"
  have rv: "runner ?v = RSigner sampleSigner" by simp
  have rs: "resolves strictLedger ?v" "resolves lenientLedger ?v"
    by (rule sample_resolves [OF sample_checksums(1)], rule sample_resolves [OF sample_checksums(2)])
  have len: "fst (fst (getEventsLength strictLedger connectedClient (BigInt 7))) = Inr (UintReply 3)"
    "fst (fst (getEventsLength lenientLedger connectedClient (BigInt 7))) = Inr (UintReply 3)"
    by (simp_all add: getEventsLength_def onHandle_def connectedClient_handles
        MarketplaceDataV1Contract_getEventsLength_def invoke_def sample_fragments staticCall_def
        transact_def populateTransaction_plain sample_arguments strict_targets lenient_targets
        surface_def)
       (simp_all add: strictLedger_def lenientLedger_def)
  have sg: "getBytes (hexlify bs) = Inr bs" for bs by (rule getBytes_hexlify)
  have seven: "getBigInt (BigInt 7) = Inr 7" "(0::int) \<le> 7" "(7::int) < 2 ^ 256"
    by (simp_all add: getBigInt_def)
  have t1: "fst (fst (takeJob strictLedger connectedClient (BigInt 7) (hexlify bs)))
      = Inl (LedgerFailure (Reverted ''invalid signature or not open''))" for bs
    using takeJob_forwards(1)
      [OF connectedClient_signer connectedClient_handles(1) rv rs(1) seven sg, of bs]
    by (simp add: surface_def strictLedger_def)
  have t2: "fst (fst (takeJob lenientLedger connectedClient (BigInt 7) (hexlify bs)))
      = Inr (TxResponse ''0xabc'')" for bs
    using takeJob_forwards(1)
      [OF connectedClient_signer connectedClient_handles(1) rv rs(2) seven sg, of bs]
    by (simp add: surface_def lenientLedger_def)
  show ?thesis
    using len stale_and_current_signature t1 t2 by simp
qed

text \<open>
  Claim C5, as amended. \<^verbatim>\<open>takeJob\<close> does not look at the state of the job: it never
  fails with \<open>InvalidTransition\<close>; on a connected client whose marketplace contract has
  a target that resolves, with arguments that fit the ABI function, its result is what the
  ledger answers to the \<^verbatim>\<open>takeJob\<close> call; and two ledgers that answer that call alike,
  and resolve names and addresses alike, give the same outcome, whatever either reports
  about the job. Every failure is a value returned to the caller.
\<close>

theorem takeJob_ignores_job_state:
  "fst (fst (takeJob L c job sig)) \<noteq> Inl (InvalidTransition st ev role) \<and>
   (getSigner (wallet c) = Some sg \<and> marketplaceV2 c = Some v \<and> runner v = RSigner s1 \<and>
    resolves L v \<and> argumentsFit L (TakeJobOp job sig) \<longrightarrow>
      fst (fst (takeJob L c job sig)) =
        surface (respond L (Call (target v) ''takeJob'' [ABig job, AStr sig]))) \<and>
   (resolveName L' = resolveName L \<and> getChecksumAddress L' = getChecksumAddress L \<and>
    (\<forall>t. respond L' (Call t ''takeJob'' [ABig job, AStr sig])
          = respond L (Call t ''takeJob'' [ABig job, AStr sig]))
      \<longrightarrow> takeJob L' c job sig = takeJob L c job sig)"
proof -
  have same: "takeJob L' c job sig = takeJob L c job sig"
    if "resolveName L' = resolveName L" "getChecksumAddress L' = getChecksumAddress L"
      "\<forall>t. respond L' (Call t ''takeJob'' [ABig job, AStr sig])
          = respond L (Call t ''takeJob'' [ABig job, AStr sig])"
    using that(3)
    by (simp add: takeJob_def guarded_def onHandle_def MarketplaceV2Contract_takeJob_def
        invoke_def sample_fragments sendTransaction_def transact_def populateTransaction_plain
        resolveTarget_cong [OF that(1,2)]
        split: sum.splits option.splits runner.splits prod.splits)
  have answer: "fst (fst (takeJob L c job sig)) =
        surface (respond L (Call (target v) ''takeJob'' [ABig job, AStr sig]))"
    if "getSigner (wallet c) = Some sg" "marketplaceV2 c = Some v" "runner v = RSigner s1"
      "resolves L v" "argumentsFit L (TakeJobOp job sig)"
  proof -
    from that(5) obtain x bs where
      "getBigInt job = Inr x" "0 \<le> x" "x < 2 ^ 256" "getBytes sig = Inr bs"
      unfolding takeJob_fits_iff by blast
    then show ?thesis
      using takeJob_forwards(1) [OF that(1-4), of job x sig bs] by simp
  qed
  show ?thesis
    using takeJob_no_lifecycle_error(2) [of L c job sig st ev role] same answer by blast
qed

theorem takeJob_ignores_job_state_witness:
  "getSigner (wallet connectedClient) = Some sampleSigner \<and>
   resolves strictLedger
     \<lparr> target = ''0x405AcFbD1400A168fDd4aDA2D214e8Ae5FF7a624'', runner = RSigner sampleSigner \<rparr> \<and>
   argumentsFit strictLedger (TakeJobOp (BigInt 7) ''0x'') \<and>
   resolveName openJobLedger = resolveName strictLedger \<and>
   getChecksumAddress openJobLedger = getChecksumAddress strictLedger \<and>
   (\<forall>t. respond openJobLedger (Call t ''takeJob'' [ABig (BigInt 7), AStr ''0x''])
        = respond strictLedger (Call t ''takeJob'' [ABig (BigInt 7), AStr ''0x''])) \<and>
   fst (fst (getJob strictLedger connectedClient (BigInt 7))) = Inr (JobReply Closed) \<and>
   fst (fst (getJob openJobLedger connectedClient (BigInt 7))) = Inr (JobReply Open) \<and>
   takeJob openJobLedger connectedClient (BigInt 7) ''0x''
     = takeJob strictLedger connectedClient (BigInt 7) ''0x'' \<and>
   fst (fst (takeJob strictLedger connectedClient (BigInt 7) ''0x''))
     = Inl (LedgerFailure (Reverted ''invalid signature or not open''))"
proof -
  let ?v = "\<lparr> target = ''0x405AcFbD1400A168fDd4aDA2D214e8Ae5FF7a624'', runner = RSigner sampleSigner \<rparr>"
  have rs: "resolves strictLedger ?v" by (rule sample_resolves [OF sample_checksums(1)])
  have h: "resolveName openJobLedger = resolveName strictLedger"
    "getChecksumAddress openJobLedger = getChecksumAddress strictLedger"
    "\<forall>t. respond openJobLedger (Call t ''takeJob'' [ABig (BigInt 7), AStr ''0x''])
        = respond strictLedger (Call t ''takeJob'' [ABig (BigInt 7), AStr ''0x''])"
    by (simp_all add: strictLedger_def openJobLedger_def)
  have g: "fst (fst (getJob strictLedger connectedClient (BigInt 7))) = Inr (JobReply Closed)"
    "fst (fst (getJob openJobLedger connectedClient (BigInt 7))) = Inr (JobReply Open)"
    by (simp_all add: getJob_def onHandle_def connectedClient_handles
        MarketplaceV2Contract_getJob_def invoke_def sample_fragments staticCall_def
        transact_def populateTransaction_plain sample_arguments strict_targets openJob_targets
        surface_def)
       (simp_all add: strictLedger_def openJobLedger_def)
  note t = takeJob_ignores_job_state
        [where L = strictLedger and L' = openJobLedger and c = connectedClient
          and job = "BigInt 7" and sig = "''0x''" and sg = sampleSigner and v = ?v
          and ?s1.0 = sampleSigner]
  have r: "respond strictLedger (Call ''0x405AcFbD1400A168fDd4aDA2D214e8Ae5FF7a624'' ''takeJob''
      [ABig (BigInt 7), AStr ''0x'']) = Inl (Reverted ''invalid signature or not open'')"
    by (simp add: strictLedger_def)
  have t2: "fst (fst (takeJob strictLedger connectedClient (BigInt 7) ''0x''))
      = Inl (LedgerFailure (Reverted ''invalid signature or not open''))"
    using t r rs connectedClient_signer connectedClient_handles(1) sample_fits(1) [of strictLedger]
    by (simp add: surface_def)
  have t3: "takeJob openJobLedger connectedClient (BigInt 7) ''0x''
     = takeJob strictLedger connectedClient (BigInt 7) ''0x''"
    using t h by blast
  show ?thesis
    using h g t2 t3 rs connectedClient_signer sample_fits(1) [of strictLedger] by blast
qed

text \<open>
  Claim C5 as stated says that a take on a job that is not open fails with
  \<open>InvalidTransition\<close>. Job 7 is closed on both sample ledgers. Where the ledger reverts,
  the caller sees the revert; where it accepts, the call succeeds.
\<close>

theorem takeJob_closed_job_counterexample:
  "fst (fst (getJob strictLedger connectedClient (BigInt 7))) = Inr (JobReply Closed) \<and>
   fst (fst (getJob lenientLedger connectedClient (BigInt 7))) = Inr (JobReply Closed) \<and>
   fst (fst (takeJob strictLedger connectedClient (BigInt 7) ''0x''))
     = Inl (LedgerFailure (Reverted ''invalid signature or not open'')) \<and>
   fst (fst (takeJob lenientLedger connectedClient (BigInt 7) ''0x''))
     = Inr (TxResponse ''0xabc'')"
  by (simp add: getJob_def takeJob_def guarded_connected [OF connectedClient_signer] onHandle_def
      connectedClient_handles MarketplaceV2Contract_getJob_def MarketplaceV2Contract_takeJob_def
      invoke_def sample_fragments staticCall_def sendTransaction_def transact_def
      populateTransaction_plain sample_arguments strict_targets lenient_targets surface_def)
     (simp add: strictLedger_def lenientLedger_def)

section \<open>The job life cycle is a function of the event sequence\<close>

lemma transition_applyEvent: "transition j e j' \<longleftrightarrow> applyEvent j e = Some j'"
proof
  assume "transition j e j'"
  then show "applyEvent j e = Some j'"
    by (induction rule: transition.induct) simp_all
next
  assume "applyEvent j e = Some j'"
  then show "transition j e j'"
    by (cases e) (auto split: if_splits intro: transition.intros)
qed

lemma transition_deterministic:
  assumes "transition j e a" and "transition j e b"
  shows "a = b"
  using assms by (simp add: transition_applyEvent)

lemma replay_foldEvents: "replay j es j' \<longleftrightarrow> foldEvents j es = Some j'"
proof
  assume "replay j es j'"
  then show "foldEvents j es = Some j'"
    by (induction rule: replay.induct) (simp_all add: transition_applyEvent)
next
  assume "foldEvents j es = Some j'"
  then show "replay j es j'"
  proof (induction es arbitrary: j)
    case Nil
    then show ?case by (simp add: replay.intros)
  next
    case (Cons e es)
    then obtain k where k: "applyEvent j e = Some k" "foldEvents k es = Some j'"
      by (auto split: option.splits)
    then show ?case
      using Cons.IH [of k] by (auto intro: replay.intros simp: transition_applyEvent)
  qed
qed

text \<open>
  Claim C8. Replaying a valid event sequence from a job yields one derived job: two replays
  of the same sequence from the same job end in the same state.
\<close>

theorem replay_deterministic:
  assumes "replay j es a" and "replay j es b"
  shows "a = b"
  using assms
proof (induction arbitrary: b rule: replay.induct)
  case (replayNil j)
  then show ?case by (auto elim: replay.cases)
next
  case (replayCons j e j' es j'')
  from replayCons.prems obtain k where k: "transition j e k" "replay k es b"
    by (auto elim: replay.cases)
  from k(1) replayCons.hyps(1) have "k = j'" by (rule transition_deterministic)
  with k(2) show ?case by (simp add: replayCons.IH)
qed

lemma scenario_fold: "foldEvents sampleJob scenario = Some scenarioResult"
  by (simp add: scenario_def scenarioResult_def sampleJob_def logged_def)

lemma scenario_by_rules:
  "replay sampleJob scenario
     (logged (logged (logged (sampleJob\<lparr>state := Taken,
        roles := (roles sampleJob)\<lparr>worker := ''0xA''\<rparr>, escrowId := 1\<rparr>)\<lparr>disputed := True\<rparr>)
        \<lparr>state := Closed, disputed := False\<rparr>))"
  unfolding scenario_def
  by (rule replay.intros transition.intros | simp add: sampleJob_def logged_def)+

theorem replay_deterministic_witness:
  "replay sampleJob scenario scenarioResult \<and>
   replay sampleJob scenario
     (logged (logged (logged (sampleJob\<lparr>state := Taken,
        roles := (roles sampleJob)\<lparr>worker := ''0xA''\<rparr>, escrowId := 1\<rparr>)\<lparr>disputed := True\<rparr>)
        \<lparr>state := Closed, disputed := False\<rparr>)) \<and>
   scenarioResult =
     logged (logged (logged (sampleJob\<lparr>state := Taken,
        roles := (roles sampleJob)\<lparr>worker := ''0xA''\<rparr>, escrowId := 1\<rparr>)\<lparr>disputed := True\<rparr>)
        \<lparr>state := Closed, disputed := False\<rparr>) \<and>
   state scenarioResult = Closed \<and> \<not> disputed scenarioResult \<and>
   worker (roles scenarioResult) = ''0xA''"
proof -
  have r: "replay sampleJob scenario scenarioResult"
    using scenario_fold by (simp only: replay_foldEvents)
  have "state scenarioResult = Closed \<and> \<not> disputed scenarioResult \<and>
      worker (roles scenarioResult) = ''0xA''"
    by (simp add: scenarioResult_def sampleJob_def)
  then show ?thesis
    using r scenario_by_rules replay_deterministic [OF r scenario_by_rules] by simp
qed

text \<open>
  The derived state depends on the order of the events: adding a worker to the whitelist
  and removing it, in the two orders, are both valid and end in different jobs.
\<close>

lemma replay_order_matters:
  "foldEvents sampleJob [WhitelistedWorkerAdded ''0xB'', WhitelistedWorkerRemoved ''0xB'']
     = Some (sampleJob\<lparr>whitelist := [], eventsLength := 2\<rparr>) \<and>
   foldEvents sampleJob [WhitelistedWorkerRemoved ''0xB'', WhitelistedWorkerAdded ''0xB'']
     = Some (sampleJob\<lparr>whitelist := [''0xB''], eventsLength := 2\<rparr>)"
  by (simp add: sampleJob_def logged_def)

section \<open>The XOR cipher on texts it does return\<close>

lemma length_xorWithKey: "length (xorWithKey d k) = length d"
  by (simp add: xorWithKey_def)

lemma xorWithKey_involution: "xorWithKey (xorWithKey d k) k = d"
  by (rule nth_equalityI) (simp_all add: xorWithKey_def xor.assoc)

lemma toBeArray_hexlify_no_leading_zero:
  assumes "e \<noteq> []" and "hd e \<noteq> 0"
  shows "toBeArray (Str (hexlify e)) = Inr e"
  using assms by (cases e) (simp_all add: toBeArray_hexlify)

lemma toUtf8String_toUtf8Bytes:
  assumes "\<forall>c \<in> set s. (of_char c :: nat) < 128"
  shows "toUtf8String (toUtf8Bytes s) = Inr s"
proof -
  have un: "unat (word_of_nat (of_char c) :: byte) = of_char c" for c
    by (simp add: unat_of_nat)
  have "list_all (\<lambda>b. unat b < 128) (toUtf8Bytes s)"
    using assms by (simp add: toUtf8Bytes_def list_all_iff un)
  then show ?thesis by (simp add: toUtf8String_def char_of_toUtf8Bytes)
qed

text \<open>
  Where the round trip does hold: for a text of 7-bit characters whose cipher text does not
  begin with a zero byte.
\<close>

lemma simple_cipher_round_trip_holds:
  assumes "toBeArray (Str (CryptoUtils_keccak256 K key)) = Inr keyBytes"
    and "data \<noteq> []" and "\<forall>c \<in> set data. (of_char c :: nat) < 128"
    and "hd (xorWithKey (toUtf8Bytes data) keyBytes) \<noteq> 0"
  shows "encryptThenDecrypt K data key = Inr data"
proof -
  let ?e = "xorWithKey (toUtf8Bytes data) keyBytes"
  have ne: "?e \<noteq> []"
    using assms(2) length_xorWithKey [of "toUtf8Bytes data" keyBytes]
    by (auto simp: toUtf8Bytes_def)
  have enc: "simpleEncrypt K data key = Inr (hexlify ?e)"
    using assms(1) by (simp add: simpleEncrypt_def)
  have arr: "toBeArray (Str (hexlify ?e)) = Inr ?e"
    using ne assms(4) by (rule toBeArray_hexlify_no_leading_zero)
  have "simpleDecrypt K (hexlify ?e) key = toUtf8String (toUtf8Bytes data)"
    using assms(1) arr by (simp add: simpleDecrypt_def xorWithKey_involution)
  then show ?thesis
    using enc assms(3) by (simp add: encryptThenDecrypt_def toUtf8String_toUtf8Bytes)
qed

end
